theory Spec2Isabelle
  imports Main
begin

section \<open>Values exchanged with the hosting platform\<close>

text \<open>
  The tools are thin call sites over two collaborators: the hosting-platform client
  (\<^verbatim>\<open>gh\<close> / \<^verbatim>\<open>g\<close>, a PyGithub client) and the local version-control library.
  Neither is part of the repository, so both are parameters of the model.
  JSON-compatible Python values (the \<^verbatim>\<open>raw_data\<close> of a library object, the
  dictionaries the search tools build) are values of type \<open>json\<close>.
\<close>

datatype json =
    JNull
  | JBool bool
  | JInt int
  | JStr string
  | JList "json list"
  | JDict "(string \<times> json) list"

text \<open>
  Exceptions carry their class and the text \<^verbatim>\<open>str(e)\<close>. The first three classes are
  \<^verbatim>\<open>GithubException\<close> and two of its subclasses; the others are not instances of it.
\<close>

datatype exn_class =
    GithubException
  | RateLimitExceededException
  | UnknownObjectException
  | TypeError
  | ValueError
  | IndexError
  | ConnectionError
  | InvalidGitRepositoryError
  | GitCommandError

datatype exn = Exn (cls: exn_class) (str: string)

definition isinstance_GithubException :: "exn \<Rightarrow> bool" where
  "isinstance_GithubException e =
     (cls e = GithubException \<or> cls e = RateLimitExceededException
      \<or> cls e = UnknownObjectException)"

text \<open>
  A library object (repository, commit, branch, issue, pull request, search hit):
  its \<^verbatim>\<open>raw_data\<close> and the attributes the tools read from it. An attribute the
  payload does not carry reads as \<^verbatim>\<open>None\<close>.
\<close>

datatype gh_object = GhObject (raw_data: json) (attrs: "(string \<times> json) list")

definition attr :: "gh_object \<Rightarrow> string \<Rightarrow> json" where
  "attr obj k = (case map_of (attrs obj) k of None \<Rightarrow> JNull | Some v \<Rightarrow> v)"

text \<open>
  A \<^verbatim>\<open>PaginatedList\<close> of the client library: the items the platform delivers, in
  upstream order, an optional failure raised when the list is read past them (the
  list is fetched lazily, page by page), and the reported \<^verbatim>\<open>totalCount\<close>.
\<close>

datatype paginated =
  PaginatedList (elements: "gh_object list") (fault: "exn option") (totalCount: int)

text \<open>Any other value a library call returns: JSON-compatible or not.\<close>

datatype pyval = Js json | NonJson string

text \<open>Keyword arguments forwarded to the library.\<close>

datatype arg = AStr string | AStrList "string list" | AInt int | ABool bool | ADatetime string

text \<open>
  The calls the tools make on the client and on the handles it returned; a call on a
  handle carries the handle.
\<close>

datatype call =
    Get_repo string
  | Get_user "string option"
  | User_get_repo gh_object string
  | User_create_repo gh_object string "string option" "bool option" "bool option"
  | Repo_get_commit gh_object json
  | Repo_get_commits gh_object "string option"
  | Repo_get_branches gh_object
  | Repo_update_file gh_object string string string string string
  | Repo_create_file gh_object string string string string
  | Repo_create_fork gh_object "string option"
  | Repo_get_issue gh_object int
  | Repo_create_issue gh_object "(string \<times> arg) list"
  | Repo_get_issues gh_object "(string \<times> arg) list"
  | Repo_get_pull gh_object int
  | Repo_get_pulls gh_object string string string
  | Issue_create_comment gh_object string
  | Issue_get_comments gh_object
  | Pull_edit gh_object "string option" "string option" "string option" "string option"
      "bool option"
  | Pull_merge gh_object "string option" "string option" string
  | Pull_get_files gh_object
  | Commit_get_combined_status gh_object
  | Search_repositories string
  | Search_code string
  | Search_users string
  | Search_issues string "string option" "string option"
  | Paginated_get_page paginated int

text \<open>
  The environment of a tool call. The client answers a call with a value or an
  exception, and its answer may depend on the calls made before (so that a stub can
  fail once and then succeed); the four request fields differ only in the kind of
  value the library returns. \<open>slice_negative\<close> is what the library's list yields for a
  slice with a negative start, \<open>valid_isoformat\<close> which strings
  \<^verbatim>\<open>datetime.fromisoformat\<close> accepts.
\<close>

record env =
  request_object :: "call list \<Rightarrow> call \<Rightarrow> exn + gh_object"
  request_list :: "call list \<Rightarrow> call \<Rightarrow> exn + paginated"
  request_page :: "call list \<Rightarrow> call \<Rightarrow> exn + gh_object list"
  request_value :: "call list \<Rightarrow> call \<Rightarrow> exn + pyval"
  slice_negative :: "paginated \<Rightarrow> int \<Rightarrow> int option \<Rightarrow> exn + gh_object list"
  valid_isoformat :: "string \<Rightarrow> bool"

section \<open>Control flow: calls, exceptions, handlers\<close>

text \<open>
  A computation threads a state (for the platform tools the log of upstream calls made
  so far, for the local push the working copy) and ends with a value or a raised
  exception.
\<close>

type_synonym ('s, 'a) action = "'s \<Rightarrow> (exn + 'a) \<times> 's"

definition returns :: "'a \<Rightarrow> ('s, 'a) action" where
  "returns x log = (Inr x, log)"

definition raises :: "exn \<Rightarrow> ('s, 'a) action" where
  "raises e log = (Inl e, log)"

definition lift :: "exn + 'a \<Rightarrow> ('s, 'a) action" where
  "lift r log = (r, log)"

definition and_then :: "('s, 'a) action \<Rightarrow> ('a \<Rightarrow> ('s, 'b) action) \<Rightarrow> ('s, 'b) action" where
  "and_then m f log =
     (case m log of (Inl e, log') \<Rightarrow> (Inl e, log') | (Inr x, log') \<Rightarrow> f x log')"

text \<open>\<^verbatim>\<open>try: m except Exception as e: h(e)\<close>\<close>

definition except_Exception ::
  "('s, 'a) action \<Rightarrow> (exn \<Rightarrow> ('s, 'a) action) \<Rightarrow> ('s, 'a) action" where
  "except_Exception m h log =
     (case m log of (Inl e, log') \<Rightarrow> h e log' | (Inr x, log') \<Rightarrow> (Inr x, log'))"

text \<open>\<^verbatim>\<open>try: m except GithubException as e: h(e)\<close>: any other exception propagates.\<close>

definition except_GithubException ::
  "('s, 'a) action \<Rightarrow> (exn \<Rightarrow> ('s, 'a) action) \<Rightarrow> ('s, 'a) action" where
  "except_GithubException m h log =
     (case m log of
        (Inl e, log') \<Rightarrow> (if isinstance_GithubException e then h e log' else (Inl e, log'))
      | (Inr x, log') \<Rightarrow> (Inr x, log'))"

text \<open>One invocation of the client: the answer is read once and the call is logged.\<close>

definition call_object :: "env \<Rightarrow> call \<Rightarrow> (call list, gh_object) action" where
  "call_object up c log = (request_object up log c, log @ [c])"

definition call_list :: "env \<Rightarrow> call \<Rightarrow> (call list, paginated) action" where
  "call_list up c log = (request_list up log c, log @ [c])"

definition call_page :: "env \<Rightarrow> call \<Rightarrow> (call list, gh_object list) action" where
  "call_page up c log = (request_page up log c, log @ [c])"

definition call_value :: "env \<Rightarrow> call \<Rightarrow> (call list, pyval) action" where
  "call_value up c log = (request_value up log c, log @ [c])"

section \<open>Library behaviour the tools rely on\<close>

text \<open>
  Iterating a whole \<^verbatim>\<open>PaginatedList\<close>, and iterating the slice
  \<^verbatim>\<open>lst[start:stop]\<close>: the slice reads the items at positions
  \<open>start, ..., stop - 1\<close> that exist, fetching no further than it must.
\<close>

definition iterate :: "paginated \<Rightarrow> exn + gh_object list" where
  "iterate lst = (case fault lst of None \<Rightarrow> Inr (elements lst) | Some e \<Rightarrow> Inl e)"

definition getitem_slice :: "env \<Rightarrow> paginated \<Rightarrow> int \<Rightarrow> int option \<Rightarrow> exn + gh_object list" where
  "getitem_slice up lst start stop =
     (if start < 0 then slice_negative up lst start stop
      else case stop of
        None \<Rightarrow>
          (case fault lst of
             None \<Rightarrow> Inr (drop (nat start) (elements lst))
           | Some e \<Rightarrow> Inl e)
      | Some n \<Rightarrow>
          (if n \<le> start then Inr []
           else if n \<le> int (length (elements lst))
             then Inr (take (nat (n - start)) (drop (nat start) (elements lst)))
           else (case fault lst of
                   None \<Rightarrow> Inr (take (nat (n - start)) (drop (nat start) (elements lst)))
                 | Some e \<Rightarrow> Inl e)))"

text \<open>
  The page arithmetic every slicing tool repeats:
  \<^verbatim>\<open>start = (page - 1) * per_page; end = start + per_page\<close>. Both fields are
  \<^verbatim>\<open>Optional[int]\<close>; arithmetic on \<^verbatim>\<open>None\<close> raises \<^verbatim>\<open>TypeError\<close>.
\<close>

definition start_end :: "int option \<Rightarrow> int option \<Rightarrow> exn + (int \<times> int)" where
  "start_end page per_page =
     (case page of
        None \<Rightarrow> Inl (Exn TypeError ''unsupported operand type(s) for -: NoneType and int'')
      | Some p \<Rightarrow>
          (case per_page of
             None \<Rightarrow> Inl (Exn TypeError ''unsupported operand type(s) for *: int and NoneType'')
           | Some n \<Rightarrow> Inr ((p - 1) * n, (p - 1) * n + n)))"

text \<open>
  What a tool returns: the text-content dictionary
  \<^verbatim>\<open>{"content": [{"type": "text", "text": t}]}\<close>, a plain dictionary, a list of
  raw data, or a library object handed back as it is. The text is a literal string or
  the serialisation \<^verbatim>\<open>json.dumps(v)\<close> of a JSON value.
\<close>

datatype content_text = Plain string | Json_dumps json

datatype retval =
    Content content_text
  | Dict "(string \<times> json) list"
  | Raw_list "json list"
  | Library_object gh_object
  | Library_list paginated

definition json_dumps :: "pyval \<Rightarrow> exn + content_text" where
  "json_dumps v =
     (case v of
        Js j \<Rightarrow> Inr (Json_dumps j)
      | NonJson t \<Rightarrow> Inl (Exn TypeError (''Object of type '' @ t @ '' is not JSON serializable'')))"

definition error_text :: "exn \<Rightarrow> retval" where
  "error_text e = Content (Plain (''Error: '' @ str e))"

section \<open>Commit, branch and file tools\<close>

record GetCommitParams =
  owner :: string
  repo :: string
  sha :: string

record ListCommitsParams =
  owner :: string
  repo :: string
  sha :: "string option"
  per_page :: "int option"
  page :: "int option"

record ListBranchesParams =
  owner :: string
  repo :: string
  per_page :: "int option"
  page :: "int option"

record CreateOrUpdateFileParams =
  owner :: string
  repo :: string
  path :: string
  content :: string
  message :: string
  branch :: string
  sha :: "string option"

record CreateRepositoryParams =
  name :: string
  description :: "string option"
  is_private :: "bool option"
  autoInit :: "bool option"

record ForkRepositoryParams =
  owner :: string
  repo :: string
  organization :: "string option"

text \<open>
  Each tool of this module is one \<^verbatim>\<open>try\<close> block with the handler
  \<^verbatim>\<open>except Exception as e\<close>, which returns the error text. For a tool \<open>t\<close>, the
  statements of its \<^verbatim>\<open>try\<close> block are \<open>t_steps\<close>.
\<close>

definition get_commit_steps :: "env \<Rightarrow> GetCommitParams \<Rightarrow> (call list, retval) action" where
  "get_commit_steps gh params =
     and_then (call_object gh
         (Get_repo (GetCommitParams.owner params @ ''/'' @ GetCommitParams.repo params)))
       (\<lambda>repo.
     and_then (call_object gh (Repo_get_commit repo (JStr (GetCommitParams.sha params))))
       (\<lambda>commit.
     returns (Content (Json_dumps (raw_data commit)))))"

definition get_commit :: "env \<Rightarrow> GetCommitParams \<Rightarrow> (call list, retval) action" where
  "get_commit gh params =
     except_Exception (get_commit_steps gh params) (\<lambda>e. returns (error_text e))"

definition list_commits_steps :: "env \<Rightarrow> ListCommitsParams \<Rightarrow> (call list, retval) action" where
  "list_commits_steps gh params =
     and_then (call_object gh
         (Get_repo (ListCommitsParams.owner params @ ''/'' @ ListCommitsParams.repo params)))
       (\<lambda>repo.
     and_then (call_list gh (Repo_get_commits repo (ListCommitsParams.sha params)))
       (\<lambda>commits.
     and_then (lift (start_end (ListCommitsParams.page params)
                       (ListCommitsParams.per_page params)))
       (\<lambda>(start, end).
     and_then (lift (getitem_slice gh commits start (Some end)))
       (\<lambda>commits_list.
     returns (Content (Json_dumps (JList (map raw_data commits_list))))))))"

definition list_commits :: "env \<Rightarrow> ListCommitsParams \<Rightarrow> (call list, retval) action" where
  "list_commits gh params =
     except_Exception (list_commits_steps gh params) (\<lambda>e. returns (error_text e))"

definition list_branches_steps :: "env \<Rightarrow> ListBranchesParams \<Rightarrow> (call list, retval) action" where
  "list_branches_steps gh params =
     and_then (call_object gh
         (Get_repo (ListBranchesParams.owner params @ ''/'' @ ListBranchesParams.repo params)))
       (\<lambda>repo.
     and_then (call_list gh (Repo_get_branches repo))
       (\<lambda>branches.
     and_then (lift (start_end (ListBranchesParams.page params)
                       (ListBranchesParams.per_page params)))
       (\<lambda>(start, end).
     and_then (lift (getitem_slice gh branches start (Some end)))
       (\<lambda>branch_list.
     returns (Content (Json_dumps (JList (map raw_data branch_list))))))))"

definition list_branches :: "env \<Rightarrow> ListBranchesParams \<Rightarrow> (call list, retval) action" where
  "list_branches gh params =
     except_Exception (list_branches_steps gh params) (\<lambda>e. returns (error_text e))"

text \<open>\<^verbatim>\<open>if sha:\<close> is Python truthiness: \<^verbatim>\<open>None\<close> and the empty string are false.\<close>

definition create_or_update_file_steps :: "env \<Rightarrow> CreateOrUpdateFileParams \<Rightarrow> (call list, retval) action" where
  "create_or_update_file_steps gh params =
     and_then (call_object gh
         (Get_repo (CreateOrUpdateFileParams.owner params @ ''/''
                     @ CreateOrUpdateFileParams.repo params)))
       (\<lambda>repo.
     (case CreateOrUpdateFileParams.sha params of
        Some (c # cs) \<Rightarrow>
          and_then (call_value gh
              (Repo_update_file repo (path params) (message params) (content params)
                 (c # cs) (branch params)))
            (\<lambda>esp.
          and_then (lift (json_dumps esp))
            (\<lambda>t. returns (Content t)))
      | _ \<Rightarrow>
          and_then (call_value gh
              (Repo_create_file repo (path params) (message params) (content params)
                 (branch params)))
            (\<lambda>resp.
          and_then (lift (json_dumps resp))
            (\<lambda>t. returns (Content t)))))"

definition create_or_update_file :: "env \<Rightarrow> CreateOrUpdateFileParams \<Rightarrow> (call list, retval) action" where
  "create_or_update_file gh params =
     except_Exception (create_or_update_file_steps gh params) (\<lambda>e. returns (error_text e))"

definition create_repository_steps :: "env \<Rightarrow> CreateRepositoryParams \<Rightarrow> (call list, retval) action" where
  "create_repository_steps gh params =
     and_then (call_object gh (Get_user None))
       (\<lambda>user.
     and_then (call_object gh
         (User_create_repo user (name params) (description params) (is_private params)
            (autoInit params)))
       (\<lambda>repo.
     returns (Content (Json_dumps (raw_data repo)))))"

definition create_repository :: "env \<Rightarrow> CreateRepositoryParams \<Rightarrow> (call list, retval) action" where
  "create_repository gh params =
     except_Exception (create_repository_steps gh params) (\<lambda>e. returns (error_text e))"

text \<open>\<^verbatim>\<open>if organization:\<close> is truthiness again.\<close>

definition fork_repository_steps :: "env \<Rightarrow> ForkRepositoryParams \<Rightarrow> (call list, retval) action" where
  "fork_repository_steps gh params =
     and_then (call_object gh
         (Get_repo (ForkRepositoryParams.owner params @ ''/''
                     @ ForkRepositoryParams.repo params)))
       (\<lambda>repo.
     and_then
       (case organization params of
          Some (c # cs) \<Rightarrow> call_object gh (Repo_create_fork repo (Some (c # cs)))
        | _ \<Rightarrow> call_object gh (Repo_create_fork repo None))
       (\<lambda>forked.
     returns (Content (Json_dumps (raw_data forked)))))"

definition fork_repository :: "env \<Rightarrow> ForkRepositoryParams \<Rightarrow> (call list, retval) action" where
  "fork_repository gh params =
     except_Exception (fork_repository_steps gh params) (\<lambda>e. returns (error_text e))"

section \<open>Search tools\<close>

record SearchReposParams =
  q :: string
  per_page :: "int option"
  page :: "int option"

record SearchCodeParams =
  q :: string
  sort :: "string option"
  order :: "string option"
  per_page :: "int option"
  page :: "int option"

record SearchUsersParams =
  q :: string
  sort :: "string option"
  order :: "string option"
  per_page :: "int option"
  page :: "int option"

text \<open>The dictionaries the three search loops append for each hit.\<close>

definition repository_entry :: "gh_object \<Rightarrow> json" where
  "repository_entry hit =
     JDict [(''name'', attr hit ''full_name''),
            (''url'', attr hit ''html_url''),
            (''description'', attr hit ''description''),
            (''stars'', attr hit ''stargazers_count''),
            (''language'', attr hit ''language'')]"

definition code_entry :: "gh_object \<Rightarrow> json" where
  "code_entry hit =
     JDict [(''name'', attr hit ''name''),
            (''path'', attr hit ''path''),
            (''repository'', attr hit ''repository.full_name''),
            (''html_url'', attr hit ''html_url'')]"

definition user_entry :: "gh_object \<Rightarrow> json" where
  "user_entry hit =
     JDict [(''login'', attr hit ''login''),
            (''html_url'', attr hit ''html_url''),
            (''type'', attr hit ''type''),
            (''score'', attr hit ''score'')]"

definition search_error :: "exn \<Rightarrow> retval" where
  "search_error e = Dict [(''error'', JStr (str e))]"

text \<open>
  Each search tool is one \<^verbatim>\<open>try\<close> block with the handler
  \<^verbatim>\<open>except GithubException as e\<close>, which returns \<^verbatim>\<open>{"error": str(e)}\<close>.
\<close>

definition search_repositories_steps :: "env \<Rightarrow> SearchReposParams \<Rightarrow> (call list, retval) action" where
  "search_repositories_steps g params =
     and_then (call_list g (Search_repositories (SearchReposParams.q params)))
       (\<lambda>result.
     and_then (lift (start_end (SearchReposParams.page params)
                       (SearchReposParams.per_page params)))
       (\<lambda>(start, end).
     and_then (lift (getitem_slice g result start (Some end)))
       (\<lambda>items.
     returns (Dict [(''total_count'', JInt (totalCount result)),
                    (''repositories'', JList (map repository_entry items))]))))"

definition search_repositories :: "env \<Rightarrow> SearchReposParams \<Rightarrow> (call list, retval) action" where
  "search_repositories g params =
     except_GithubException (search_repositories_steps g params) (\<lambda>e. returns (search_error e))"

text \<open>\<open>sort\<close> and \<open>order\<close> are fields of the schema that the body never reads.\<close>

definition search_code_steps :: "env \<Rightarrow> SearchCodeParams \<Rightarrow> (call list, retval) action" where
  "search_code_steps g params =
     and_then (call_list g (Search_code (SearchCodeParams.q params)))
       (\<lambda>result.
     and_then (lift (start_end (SearchCodeParams.page params)
                       (SearchCodeParams.per_page params)))
       (\<lambda>(start, end).
     and_then (lift (getitem_slice g result start (Some end)))
       (\<lambda>items.
     returns (Dict [(''total_count'', JInt (totalCount result)),
                    (''code_results'', JList (map code_entry items))]))))"

definition search_code :: "env \<Rightarrow> SearchCodeParams \<Rightarrow> (call list, retval) action" where
  "search_code g params =
     except_GithubException (search_code_steps g params) (\<lambda>e. returns (search_error e))"

definition search_users_steps :: "env \<Rightarrow> SearchUsersParams \<Rightarrow> (call list, retval) action" where
  "search_users_steps g params =
     and_then (call_list g (Search_users (SearchUsersParams.q params)))
       (\<lambda>result.
     and_then (lift (start_end (SearchUsersParams.page params)
                       (SearchUsersParams.per_page params)))
       (\<lambda>(start, end).
     and_then (lift (getitem_slice g result start (Some end)))
       (\<lambda>items.
     returns (Dict [(''total_count'', JInt (totalCount result)),
                    (''users'', JList (map user_entry items))]))))"

definition search_users :: "env \<Rightarrow> SearchUsersParams \<Rightarrow> (call list, retval) action" where
  "search_users g params =
     except_GithubException (search_users_steps g params) (\<lambda>e. returns (search_error e))"

section \<open>Issue tools\<close>

record IssueParams =
  owner :: string
  repo :: string
  issue_number :: int

record CreateIssueParams =
  owner :: string
  repo :: string
  title :: string
  body :: "string option"
  assignees :: "string list option"
  labels :: "string list option"
  milestone :: "int option"

record CommentParams = IssueParams +
  body :: string

record SearchParams =
  q :: string
  sort :: "string option"
  order :: "string option"
  per_page :: "int option"
  page :: "int option"

record ListIssuesParams =
  owner :: string
  repo :: string
  state :: "string option"
  labels :: "string list option"
  sort :: "string option"
  direction :: "string option"
  since :: "string option"
  per_page :: "int option"
  page :: "int option"

record CommentsListParams = IssueParams +
  page :: "int option"
  per_page :: "int option"

text \<open>\<^verbatim>\<open>{k: v for k, v in d.items() if v is not None}\<close>\<close>

definition drop_none :: "(string \<times> arg option) list \<Rightarrow> (string \<times> arg) list" where
  "drop_none d = concat (map (\<lambda>(k, v). case v of None \<Rightarrow> [] | Some a \<Rightarrow> [(k, a)]) d)"

text \<open>\<^verbatim>\<open>datetime.fromisoformat\<close>: a \<^verbatim>\<open>TypeError\<close> on anything but a string.\<close>

definition fromisoformat :: "env \<Rightarrow> string option \<Rightarrow> exn + string" where
  "fromisoformat g s =
     (case s of
        None \<Rightarrow> Inl (Exn TypeError ''fromisoformat: argument must be str'')
      | Some t \<Rightarrow>
          (if valid_isoformat g t then Inr t
           else Inl (Exn ValueError (''Invalid isoformat string: '' @ t))))"

definition get_issue :: "env \<Rightarrow> IssueParams \<Rightarrow> (call list, retval) action" where
  "get_issue g params =
     and_then (call_object g
         (Get_repo (IssueParams.owner params @ ''/'' @ IssueParams.repo params)))
       (\<lambda>repo.
     and_then (call_object g (Repo_get_issue repo (issue_number params)))
       (\<lambda>issue.
     returns (Content (Json_dumps (raw_data issue)))))"

definition add_issue_comment :: "env \<Rightarrow> CommentParams \<Rightarrow> (call list, retval) action" where
  "add_issue_comment g params =
     and_then (call_object g
         (Get_repo (IssueParams.owner params @ ''/'' @ IssueParams.repo params)))
       (\<lambda>repo.
     and_then (call_object g (Repo_get_issue repo (issue_number params)))
       (\<lambda>issue.
     and_then (call_object g (Issue_create_comment issue (CommentParams.body params)))
       (\<lambda>comment.
     returns (Content (Json_dumps (raw_data comment))))))"

text \<open>
  \<^verbatim>\<open>results.get_page(params.page - 1)\<close>: the argument is computed before the call,
  and \<open>per_page\<close> is not read.
\<close>

definition search_issues :: "env \<Rightarrow> SearchParams \<Rightarrow> (call list, retval) action" where
  "search_issues g params =
     and_then (call_list g
         (Search_issues (SearchParams.q params) (SearchParams.sort params)
            (SearchParams.order params)))
       (\<lambda>results.
     and_then
       (case SearchParams.page params of
          None \<Rightarrow> raises (Exn TypeError ''unsupported operand type(s) for -: NoneType and int'')
        | Some p \<Rightarrow> call_page g (Paginated_get_page results (p - 1)))
       (\<lambda>issues.
     returns (Raw_list (map raw_data issues))))"

definition create_issue :: "env \<Rightarrow> CreateIssueParams \<Rightarrow> (call list, retval) action" where
  "create_issue g params =
     and_then (call_object g
         (Get_repo (CreateIssueParams.owner params @ ''/'' @ CreateIssueParams.repo params)))
       (\<lambda>repo.
     and_then (call_object g
         (Repo_create_issue repo
            (drop_none
               [(''title'', Some (AStr (title params))),
                (''body'', map_option AStr (CreateIssueParams.body params)),
                (''assignees'', map_option AStrList (assignees params)),
                (''labels'', map_option AStrList (CreateIssueParams.labels params)),
                (''milestone'', map_option AInt (milestone params))])))
       (\<lambda>issue.
     returns (Library_object issue)))"

text \<open>
  The dictionary literal is built after the repository lookup and before the filter;
  building it evaluates \<^verbatim>\<open>datetime.fromisoformat(params.since)\<close>.
\<close>

definition list_issues :: "env \<Rightarrow> ListIssuesParams \<Rightarrow> (call list, retval) action" where
  "list_issues g params =
     and_then (call_object g
         (Get_repo (ListIssuesParams.owner params @ ''/'' @ ListIssuesParams.repo params)))
       (\<lambda>repo.
     and_then (lift (fromisoformat g (since params)))
       (\<lambda>since_dt.
     and_then (call_list g
         (Repo_get_issues repo
            (drop_none
               [(''state'', map_option AStr (ListIssuesParams.state params)),
                (''labels'', map_option AStrList (ListIssuesParams.labels params)),
                (''sort'', map_option AStr (ListIssuesParams.sort params)),
                (''direction'', map_option AStr (direction params)),
                (''since'', Some (ADatetime since_dt))])))
       (\<lambda>issue.
     returns (Library_list issue))))"

text \<open>\<^verbatim>\<open>comments[:params.per_page]\<close>: \<open>page\<close> is not read.\<close>

definition get_issue_comments :: "env \<Rightarrow> CommentsListParams \<Rightarrow> (call list, retval) action" where
  "get_issue_comments g params =
     and_then (call_object g
         (Get_repo (IssueParams.owner params @ ''/'' @ IssueParams.repo params)))
       (\<lambda>repo.
     and_then (call_object g (Repo_get_issue repo (issue_number params)))
       (\<lambda>issue.
     and_then (call_list g (Issue_get_comments issue))
       (\<lambda>comments.
     and_then (lift (getitem_slice g comments 0 (CommentsListParams.per_page params)))
       (\<lambda>page_items.
     returns (Raw_list (map raw_data page_items))))))"

section \<open>Pull-request tools\<close>

datatype PullRequestState = State_open | State_closed | State_all

datatype PullRequestSort = Sort_created | Sort_updated | Sort_popularity | Sort_long_running

datatype Direction = Direction_asc | Direction_desc

datatype MergeMethod = Method_merge | Method_squash | Method_rebase

fun state_value :: "PullRequestState \<Rightarrow> string" where
  "state_value State_open = ''open''"
| "state_value State_closed = ''closed''"
| "state_value State_all = ''all''"

fun sort_value :: "PullRequestSort \<Rightarrow> string" where
  "sort_value Sort_created = ''created''"
| "sort_value Sort_updated = ''updated''"
| "sort_value Sort_popularity = ''popularity''"
| "sort_value Sort_long_running = ''long-running''"

fun direction_value :: "Direction \<Rightarrow> string" where
  "direction_value Direction_asc = ''asc''"
| "direction_value Direction_desc = ''desc''"

fun merge_method_value :: "MergeMethod \<Rightarrow> string" where
  "merge_method_value Method_merge = ''merge''"
| "merge_method_value Method_squash = ''squash''"
| "merge_method_value Method_rebase = ''rebase''"

record GetPullRequestInput =
  owner :: string
  repo :: string
  pull_number :: int

record UpdatePullRequestInput = GetPullRequestInput +
  title :: "string option"
  body :: "string option"
  state :: "PullRequestState option"
  base :: "string option"
  maintainer_can_modify :: "bool option"

record ListPullRequestsInput =
  owner :: string
  repo :: string
  state :: "PullRequestState option"
  head :: "string option"
  base :: "string option"
  sort :: "PullRequestSort option"
  direction :: "Direction option"
  per_page :: "int option"
  page :: "int option"

record MergePullRequestInput = GetPullRequestInput +
  commit_title :: "string option"
  commit_message :: "string option"
  merge_method :: "MergeMethod option"

record GetPullRequestFilesInput = GetPullRequestInput +
  per_page :: "int option"
  page :: "int option"

text \<open>
  The helper of the pull-request module: the repository, or \<^verbatim>\<open>None\<close> when the lookup
  raises a \<^verbatim>\<open>GithubException\<close>.
\<close>

definition get_repo :: "env \<Rightarrow> string \<Rightarrow> string \<Rightarrow> (call list, gh_object option) action" where
  "get_repo g owner_name repo_name =
     except_GithubException
       (and_then (call_object g (Get_user (Some owner_name)))
          (\<lambda>user.
        and_then (call_object g (User_get_repo user repo_name))
          (\<lambda>r. returns (Some r))))
       (\<lambda>e. returns None)"

definition not_found :: retval where
  "not_found = Content (Plain ''Repository not found.'')"

text \<open>
  Each pull-request tool looks the repository up with \<open>get_repo\<close>, returns
  "Repository not found." when there is none, and otherwise runs one \<^verbatim>\<open>try\<close> block
  on the repository, with the handler \<^verbatim>\<open>except GithubException as e\<close>, which returns
  the error text.
\<close>

definition get_pull_request_steps :: "env \<Rightarrow> GetPullRequestInput \<Rightarrow> gh_object \<Rightarrow> (call list, retval) action" where
  "get_pull_request_steps g data r =
     and_then (call_object g (Repo_get_pull r (pull_number data)))
       (\<lambda>pr. returns (Content (Json_dumps (raw_data pr))))"

definition get_pull_request :: "env \<Rightarrow> GetPullRequestInput \<Rightarrow> (call list, retval) action" where
  "get_pull_request g data =
     and_then (get_repo g (GetPullRequestInput.owner data) (GetPullRequestInput.repo data))
       (\<lambda>repo.
     case repo of
       None \<Rightarrow> returns not_found
     | Some r \<Rightarrow>
         except_GithubException (get_pull_request_steps g data r) (\<lambda>e. returns (error_text e)))"

text \<open>
  \<^verbatim>\<open>pr.edit(...)\<close> updates the handle in place; the answer to \<open>Pull_edit\<close> is the
  handle after the update, whose \<^verbatim>\<open>raw_data\<close> the tool then renders.
\<close>

definition update_pull_request_steps :: "env \<Rightarrow> UpdatePullRequestInput \<Rightarrow> gh_object \<Rightarrow> (call list, retval) action" where
  "update_pull_request_steps g data r =
     and_then (call_object g (Repo_get_pull r (pull_number data)))
       (\<lambda>pr.
     and_then (call_object g
         (Pull_edit pr (UpdatePullRequestInput.title data)
            (UpdatePullRequestInput.body data)
            (map_option state_value (UpdatePullRequestInput.state data))
            (UpdatePullRequestInput.base data) (maintainer_can_modify data)))
       (\<lambda>pr'. returns (Content (Json_dumps (raw_data pr')))))"

definition update_pull_request :: "env \<Rightarrow> UpdatePullRequestInput \<Rightarrow> (call list, retval) action" where
  "update_pull_request g data =
     and_then (get_repo g (GetPullRequestInput.owner data) (GetPullRequestInput.repo data))
       (\<lambda>repo.
     case repo of
       None \<Rightarrow> returns not_found
     | Some r \<Rightarrow>
         except_GithubException (update_pull_request_steps g data r) (\<lambda>e. returns (error_text e)))"

text \<open>\<open>head\<close>, \<open>base\<close>, \<open>per_page\<close> and \<open>page\<close> are not read; the whole list is rendered.\<close>

definition list_pull_requests_steps :: "env \<Rightarrow> ListPullRequestsInput \<Rightarrow> gh_object \<Rightarrow> (call list, retval) action" where
  "list_pull_requests_steps g data r =
     and_then (call_list g
         (Repo_get_pulls r
            (case ListPullRequestsInput.state data of
               Some v \<Rightarrow> state_value v | None \<Rightarrow> ''open'')
            (case ListPullRequestsInput.sort data of
               Some v \<Rightarrow> sort_value v | None \<Rightarrow> ''created'')
            (case ListPullRequestsInput.direction data of
               Some v \<Rightarrow> direction_value v | None \<Rightarrow> ''desc'')))
       (\<lambda>pulls.
     and_then (lift (iterate pulls))
       (\<lambda>prs. returns (Content (Json_dumps (JList (map raw_data prs))))))"

definition list_pull_requests :: "env \<Rightarrow> ListPullRequestsInput \<Rightarrow> (call list, retval) action" where
  "list_pull_requests g data =
     and_then (get_repo g (ListPullRequestsInput.owner data) (ListPullRequestsInput.repo data))
       (\<lambda>repo.
     case repo of
       None \<Rightarrow> returns not_found
     | Some r \<Rightarrow>
         except_GithubException (list_pull_requests_steps g data r) (\<lambda>e. returns (error_text e)))"

definition merge_pull_request_steps :: "env \<Rightarrow> MergePullRequestInput \<Rightarrow> gh_object \<Rightarrow> (call list, retval) action" where
  "merge_pull_request_steps g data r =
     and_then (call_object g (Repo_get_pull r (pull_number data)))
       (\<lambda>pr.
     and_then (call_object g
         (Pull_merge pr (commit_title data) (commit_message data)
            (case merge_method data of
               Some v \<Rightarrow> merge_method_value v | None \<Rightarrow> ''merge'')))
       (\<lambda>merge_result. returns (Content (Json_dumps (raw_data merge_result)))))"

definition merge_pull_request :: "env \<Rightarrow> MergePullRequestInput \<Rightarrow> (call list, retval) action" where
  "merge_pull_request g data =
     and_then (get_repo g (GetPullRequestInput.owner data) (GetPullRequestInput.repo data))
       (\<lambda>repo.
     case repo of
       None \<Rightarrow> returns not_found
     | Some r \<Rightarrow>
         except_GithubException (merge_pull_request_steps g data r) (\<lambda>e. returns (error_text e)))"

definition get_pull_request_files_steps ::
  "env \<Rightarrow> GetPullRequestFilesInput \<Rightarrow> gh_object \<Rightarrow> (call list, retval) action" where
  "get_pull_request_files_steps g data r =
     and_then (call_object g (Repo_get_pull r (pull_number data)))
       (\<lambda>pr.
     and_then (call_list g (Pull_get_files pr))
       (\<lambda>files.
     and_then (lift (iterate files))
       (\<lambda>fs. returns (Content (Json_dumps (JList (map raw_data fs)))))))"

definition get_pull_request_files ::
  "env \<Rightarrow> GetPullRequestFilesInput \<Rightarrow> (call list, retval) action" where
  "get_pull_request_files g data =
     and_then (get_repo g (GetPullRequestInput.owner data) (GetPullRequestInput.repo data))
       (\<lambda>repo.
     case repo of
       None \<Rightarrow> returns not_found
     | Some r \<Rightarrow>
         except_GithubException (get_pull_request_files_steps g data r) (\<lambda>e. returns (error_text e)))"

definition get_pull_request_status_steps :: "env \<Rightarrow> GetPullRequestInput \<Rightarrow> gh_object \<Rightarrow> (call list, retval) action" where
  "get_pull_request_status_steps g data r =
     and_then (call_object g (Repo_get_pull r (pull_number data)))
       (\<lambda>pr.
     and_then (call_object g (Repo_get_commit r (attr pr ''head.sha'')))
       (\<lambda>commit.
     and_then (call_object g (Commit_get_combined_status commit))
       (\<lambda>combined_status.
     returns (Content (Json_dumps (raw_data combined_status))))))"

definition get_pull_request_status :: "env \<Rightarrow> GetPullRequestInput \<Rightarrow> (call list, retval) action" where
  "get_pull_request_status g data =
     and_then (get_repo g (GetPullRequestInput.owner data) (GetPullRequestInput.repo data))
       (\<lambda>repo.
     case repo of
       None \<Rightarrow> returns not_found
     | Some r \<Rightarrow>
         except_GithubException (get_pull_request_status_steps g data r) (\<lambda>e. returns (error_text e)))"

section \<open>Local push\<close>

text \<open>
  The working copy at a path, as far as the push tool observes and changes it: whether
  it is a repository, whether the index holds every change, the messages of the commits
  \<^verbatim>\<open>HEAD\<close> reaches (oldest first; \<^verbatim>\<open>repo.head.is_valid()\<close> holds when there is
  one), the name of the current branch, the remotes (name and URL) and the pushes made
  (URL of the remote and refspec). The file system maps a path to its working copy.
\<close>

record worktree =
  is_git_repo :: bool
  staged :: bool
  commits :: "string list"
  current_branch :: string
  remotes :: "(string \<times> string) list"
  pushes :: "(string \<times> string) list"

type_synonym filesystem = "string \<Rightarrow> worktree option"

text \<open>
  The version-control library is a collaborator: every operation may raise, as the
  environment decides from the operation and the working copy it meets.
\<close>

datatype git_op = Op_open | Op_init | Op_add | Op_commit | Op_branch | Op_create_remote | Op_push

type_synonym git_faults = "git_op \<Rightarrow> worktree \<Rightarrow> exn option"

definition git_do ::
  "git_faults \<Rightarrow> git_op \<Rightarrow> (worktree \<Rightarrow> worktree) \<Rightarrow> (worktree, unit) action" where
  "git_do faults op f w = (case faults op w of Some e \<Rightarrow> (Inl e, w) | None \<Rightarrow> (Inr (), f w))"

text \<open>\<^verbatim>\<open>Repo(repo_path)\<close> raises \<^verbatim>\<open>InvalidGitRepositoryError\<close> on a plain directory.\<close>

definition open_repo :: "git_faults \<Rightarrow> (worktree, unit) action" where
  "open_repo faults w =
     (case faults Op_open w of
        Some e \<Rightarrow> (Inl e, w)
      | None \<Rightarrow>
          (if is_git_repo w then (Inr (), w)
           else (Inl (Exn InvalidGitRepositoryError ''not a git repository''), w)))"

definition open_or_init :: "git_faults \<Rightarrow> (worktree, unit) action" where
  "open_or_init faults w =
     (case open_repo faults w of
        (Inl e, w') \<Rightarrow>
          (if cls e = InvalidGitRepositoryError
           then git_do faults Op_init (\<lambda>v. v\<lparr>is_git_repo := True\<rparr>) w'
           else (Inl e, w'))
      | (Inr u, w') \<Rightarrow> (Inr u, w'))"

definition origin_url :: "worktree \<Rightarrow> string" where
  "origin_url w = (case map_of (remotes w) ''origin'' of Some u \<Rightarrow> u | None \<Rightarrow> [])"

record GitPushLocalTOGIT =
  repo_path :: string
  remote_url :: string
  branch :: string
  commit_msg :: "string option"

text \<open>The two marks of the messages, as their UTF-8 bytes.\<close>

definition check_mark :: string where
  "check_mark = [CHR 0xE2, CHR 0x9C, CHR 0x85]"

definition cross_mark :: string where
  "cross_mark = [CHR 0xE2, CHR 0x9D, CHR 0x8C]"

text \<open>\<^verbatim>\<open>x or default\<close>: the default replaces \<^verbatim>\<open>None\<close> and the empty string.\<close>

definition or_default :: "string option \<Rightarrow> string \<Rightarrow> string" where
  "or_default x d = (case x of Some (c # cs) \<Rightarrow> c # cs | _ \<Rightarrow> d)"

text \<open>
  The steps inside the \<^verbatim>\<open>try\<close> block once the path is known to exist, in three
  parts: load or initialise the repository and stage everything; commit if
  \<^verbatim>\<open>HEAD\<close> is not valid; rename the branch, ensure the remote and push.
\<close>

definition stage_all :: "git_faults \<Rightarrow> (worktree, unit) action" where
  "stage_all faults =
     and_then (open_or_init faults)
       (\<lambda>_. git_do faults Op_add (\<lambda>w. w\<lparr>staged := True\<rparr>))"

definition commit_if_no_head :: "git_faults \<Rightarrow> string \<Rightarrow> (worktree, unit) action" where
  "commit_if_no_head faults msg w =
     (if commits w = []
      then git_do faults Op_commit (\<lambda>v. v\<lparr>commits := commits v @ [msg], staged := False\<rparr>) w
      else returns () w)"

definition publish :: "git_faults \<Rightarrow> string \<Rightarrow> string \<Rightarrow> (worktree, retval) action" where
  "publish faults url branch_name =
     and_then (git_do faults Op_branch (\<lambda>w. w\<lparr>current_branch := branch_name\<rparr>))
       (\<lambda>_.
     and_then
       (\<lambda>w. if ''origin'' \<in> set (map fst (remotes w))
            then returns () w
            else git_do faults Op_create_remote
                   (\<lambda>v. v\<lparr>remotes := remotes v @ [(''origin'', url)]\<rparr>) w)
       (\<lambda>_.
     and_then
       (git_do faults Op_push
          (\<lambda>w. w\<lparr>pushes := pushes w @ [(origin_url w, branch_name @ '':'' @ branch_name)]\<rparr>))
       (\<lambda>_.
     returns (Content (Plain (check_mark @ '' Successfully pushed to '' @ url
                @ '' on branch '' @ [CHR 0x27] @ branch_name @ [CHR 0x27] @ ''.''))))))"

definition push_steps :: "git_faults \<Rightarrow> string \<Rightarrow> string \<Rightarrow> string \<Rightarrow> (worktree, retval) action" where
  "push_steps faults url branch_name msg =
     and_then (stage_all faults)
       (\<lambda>_.
     and_then (commit_if_no_head faults msg)
       (\<lambda>_. publish faults url branch_name))"

definition push_to_github ::
  "git_faults \<Rightarrow> GitPushLocalTOGIT \<Rightarrow> filesystem \<Rightarrow> retval \<times> filesystem" where
  "push_to_github faults params fs =
     (let branch_name = or_default (Some (GitPushLocalTOGIT.branch params)) ''main'';
          msg = or_default (commit_msg params) ''Initial commit''
      in case fs (repo_path params) of
           None \<Rightarrow> (Content (Plain (cross_mark @ '' Repo path does not exist.'')), fs)
         | Some w \<Rightarrow>
             (case push_steps faults (remote_url params) branch_name msg w of
                (Inr r, w') \<Rightarrow> (r, fs(repo_path params \<mapsto> w'))
              | (Inl e, w') \<Rightarrow>
                  (Content (Plain (cross_mark @ '' Error: '' @ str e)),
                   fs(repo_path params \<mapsto> w'))))"

text \<open>The commits \<^verbatim>\<open>HEAD\<close> reaches at a path, and the pushes made from it.\<close>

definition history :: "filesystem \<Rightarrow> string \<Rightarrow> string list" where
  "history fs p = (case fs p of None \<Rightarrow> [] | Some w \<Rightarrow> commits w)"

definition pushed :: "filesystem \<Rightarrow> string \<Rightarrow> (string \<times> string) list" where
  "pushed fs p = (case fs p of None \<Rightarrow> [] | Some w \<Rightarrow> pushes w)"

section \<open>Observing a run\<close>

text \<open>
  Each call of the library returns one kind of value, so the platform's answer to a
  logged call is read from the matching field of the environment. \<open>raised gh log c\<close>
  is the exception, if any, with which the platform answers the call \<open>c\<close> made after
  the calls \<open>log\<close>. For the calls \<open>new\<close> a tool made after \<open>log\<close>,
  \<open>no_call_after_failure\<close> says that every call but the last was answered with a value,
  and \<open>raised_last\<close> is the exception that answered the last call.
\<close>

datatype reply = Object_reply | List_reply | Page_reply | Value_reply

fun reply_of :: "call \<Rightarrow> reply" where
  "reply_of (Get_repo _) = Object_reply"
| "reply_of (Get_user _) = Object_reply"
| "reply_of (User_get_repo _ _) = Object_reply"
| "reply_of (User_create_repo _ _ _ _ _) = Object_reply"
| "reply_of (Repo_get_commit _ _) = Object_reply"
| "reply_of (Repo_get_commits _ _) = List_reply"
| "reply_of (Repo_get_branches _) = List_reply"
| "reply_of (Repo_update_file _ _ _ _ _ _) = Value_reply"
| "reply_of (Repo_create_file _ _ _ _ _) = Value_reply"
| "reply_of (Repo_create_fork _ _) = Object_reply"
| "reply_of (Repo_get_issue _ _) = Object_reply"
| "reply_of (Repo_create_issue _ _) = Object_reply"
| "reply_of (Repo_get_issues _ _) = List_reply"
| "reply_of (Repo_get_pull _ _) = Object_reply"
| "reply_of (Repo_get_pulls _ _ _ _) = List_reply"
| "reply_of (Issue_create_comment _ _) = Object_reply"
| "reply_of (Issue_get_comments _) = List_reply"
| "reply_of (Pull_edit _ _ _ _ _ _) = Object_reply"
| "reply_of (Pull_merge _ _ _ _) = Object_reply"
| "reply_of (Pull_get_files _) = List_reply"
| "reply_of (Commit_get_combined_status _) = Object_reply"
| "reply_of (Search_repositories _) = List_reply"
| "reply_of (Search_code _) = List_reply"
| "reply_of (Search_users _) = List_reply"
| "reply_of (Search_issues _ _ _) = List_reply"
| "reply_of (Paginated_get_page _ _) = Page_reply"

definition raised_by :: "exn + 'a \<Rightarrow> exn option" where
  "raised_by r = (case r of Inl e \<Rightarrow> Some e | Inr _ \<Rightarrow> None)"

definition raised :: "env \<Rightarrow> call list \<Rightarrow> call \<Rightarrow> exn option" where
  "raised gh log c =
     (case reply_of c of
        Object_reply \<Rightarrow> raised_by (request_object gh log c)
      | List_reply \<Rightarrow> raised_by (request_list gh log c)
      | Page_reply \<Rightarrow> raised_by (request_page gh log c)
      | Value_reply \<Rightarrow> raised_by (request_value gh log c))"

fun no_call_after_failure :: "env \<Rightarrow> call list \<Rightarrow> call list \<Rightarrow> bool" where
  "no_call_after_failure gh log [] = True"
| "no_call_after_failure gh log [c] = True"
| "no_call_after_failure gh log (c # c' # cs) =
     (raised gh log c = None \<and> no_call_after_failure gh (log @ [c]) (c' # cs))"

fun raised_last :: "env \<Rightarrow> call list \<Rightarrow> call list \<Rightarrow> exn option" where
  "raised_last gh log [] = None"
| "raised_last gh log [c] = raised gh log c"
| "raised_last gh log (c # c' # cs) = raised_last gh (log @ [c]) (c' # cs)"

section \<open>Test doubles\<close>

text \<open>Concrete environments and requests at which the theorems below are instantiated.\<close>

definition fresh_directory :: worktree where
  "fresh_directory =
     \<lparr>is_git_repo = False, staged = False, commits = [], current_branch = ''master'',
      remotes = [], pushes = []\<rparr>"

definition work_fs :: filesystem where
  "work_fs = [''/work'' \<mapsto> fresh_directory]"

definition no_faults :: git_faults where
  "no_faults op w = None"

definition push_params :: GitPushLocalTOGIT where
  "push_params =
     \<lparr>repo_path = ''/work'', remote_url = ''https://github.com/acme/widgets.git'',
      branch = [], commit_msg = None\<rparr>"

definition repo1 :: gh_object where
  "repo1 = GhObject (JDict [(''full_name'', JStr ''acme/widgets'')])
             [(''full_name'', JStr ''acme/widgets'')]"

definition item :: "int \<Rightarrow> gh_object" where
  "item i = GhObject (JInt i) []"

definition three_items :: paginated where
  "three_items = PaginatedList [item 1, item 2, item 3] None 3"

definition rate_limited :: exn where
  "rate_limited = Exn RateLimitExceededException ''API rate limit exceeded''"

definition not_found_error :: exn where
  "not_found_error = Exn UnknownObjectException ''404 Not Found''"

definition connection_reset :: exn where
  "connection_reset = Exn ConnectionError ''connection reset''"

text \<open>A platform that answers every call.\<close>

definition stub_gh :: env where
  "stub_gh =
     \<lparr>request_object = (\<lambda>log c. Inr repo1),
      request_list = (\<lambda>log c. Inr three_items),
      request_page = (\<lambda>log c. Inr [item 1]),
      request_value = (\<lambda>log c. Inr (Js JNull)),
      slice_negative = (\<lambda>lst start stop. Inl (Exn IndexError ''list index out of range'')),
      valid_isoformat = (\<lambda>s. True)\<rparr>"

text \<open>
  A platform that is rate limited on the first call and answers from the second on; one
  that knows no object; one that resolves the first lookup and not the second; one
  that cannot be reached.
\<close>

definition flaky_gh :: env where
  "flaky_gh = stub_gh\<lparr>request_object := (\<lambda>log c. if log = [] then Inl rate_limited else Inr repo1)\<rparr>"

definition missing_gh :: env where
  "missing_gh = stub_gh\<lparr>request_object := (\<lambda>log c. Inl not_found_error)\<rparr>"

definition missing_leaf_gh :: env where
  "missing_leaf_gh =
     stub_gh\<lparr>request_object := (\<lambda>log c. if log = [] then Inr repo1 else Inl not_found_error)\<rparr>"

definition offline_gh :: env where
  "offline_gh =
     \<lparr>request_object = (\<lambda>log c. Inl connection_reset),
      request_list = (\<lambda>log c. Inl connection_reset),
      request_page = (\<lambda>log c. Inl connection_reset),
      request_value = (\<lambda>log c. Inl connection_reset),
      slice_negative = (\<lambda>lst start stop. Inl (Exn IndexError ''list index out of range'')),
      valid_isoformat = (\<lambda>s. True)\<rparr>"

definition commit_params :: GetCommitParams where
  "commit_params = \<lparr>GetCommitParams.owner = ''acme'', repo = ''widgets'', sha = ''abc123''\<rparr>"

definition commits_params :: "int \<Rightarrow> int \<Rightarrow> ListCommitsParams" where
  "commits_params pg k =
     \<lparr>ListCommitsParams.owner = ''acme'', repo = ''widgets'', sha = None,
      per_page = Some k, page = Some pg\<rparr>"

definition branches_params :: "int \<Rightarrow> int \<Rightarrow> ListBranchesParams" where
  "branches_params pg k =
     \<lparr>ListBranchesParams.owner = ''acme'', repo = ''widgets'',
      per_page = Some k, page = Some pg\<rparr>"

definition file_params :: "string option \<Rightarrow> CreateOrUpdateFileParams" where
  "file_params s =
     \<lparr>CreateOrUpdateFileParams.owner = ''acme'', repo = ''widgets'', path = ''README.md'',
      content = ''hello'', message = ''add readme'', branch = ''main'', sha = s\<rparr>"

definition repository_params :: CreateRepositoryParams where
  "repository_params =
     \<lparr>name = ''widgets'', description = None, is_private = None, autoInit = None\<rparr>"

definition fork_params :: ForkRepositoryParams where
  "fork_params = \<lparr>ForkRepositoryParams.owner = ''acme'', repo = ''widgets'', organization = None\<rparr>"

definition repos_query :: "int \<Rightarrow> int \<Rightarrow> SearchReposParams" where
  "repos_query pg k = \<lparr>SearchReposParams.q = ''isabelle'', per_page = Some k, page = Some pg\<rparr>"

definition code_query :: "int \<Rightarrow> int \<Rightarrow> SearchCodeParams" where
  "code_query pg k =
     \<lparr>SearchCodeParams.q = ''isabelle'', sort = None, order = None,
      per_page = Some k, page = Some pg\<rparr>"

definition users_query :: "int \<Rightarrow> int \<Rightarrow> SearchUsersParams" where
  "users_query pg k =
     \<lparr>SearchUsersParams.q = ''isabelle'', sort = None, order = None,
      per_page = Some k, page = Some pg\<rparr>"

definition issue_params :: IssueParams where
  "issue_params = \<lparr>IssueParams.owner = ''acme'', repo = ''widgets'', issue_number = 42\<rparr>"

definition issues_params :: ListIssuesParams where
  "issues_params =
     \<lparr>ListIssuesParams.owner = ''acme'', repo = ''widgets'', state = Some ''open'',
      labels = None, sort = None, direction = None, since = None,
      per_page = Some 30, page = Some 1\<rparr>"

definition pull_params :: GetPullRequestInput where
  "pull_params = \<lparr>GetPullRequestInput.owner = ''acme'', repo = ''widgets'', pull_number = 7\<rparr>"

definition update_params :: UpdatePullRequestInput where
  "update_params =
     \<lparr>GetPullRequestInput.owner = ''acme'', repo = ''widgets'', pull_number = 7,
      title = None, body = None, state = None, base = None, maintainer_can_modify = None\<rparr>"

definition pulls_params :: "int \<Rightarrow> int \<Rightarrow> ListPullRequestsInput" where
  "pulls_params pg k =
     \<lparr>ListPullRequestsInput.owner = ''acme'', repo = ''widgets'', state = None, head = None,
      base = None, sort = None, direction = None, per_page = Some k, page = Some pg\<rparr>"

definition merge_params :: MergePullRequestInput where
  "merge_params =
     \<lparr>GetPullRequestInput.owner = ''acme'', repo = ''widgets'', pull_number = 7,
      commit_title = None, commit_message = None, merge_method = None\<rparr>"

definition files_params :: "int \<Rightarrow> int \<Rightarrow> GetPullRequestFilesInput" where
  "files_params pg k =
     \<lparr>GetPullRequestInput.owner = ''acme'', repo = ''widgets'', pull_number = 7,
      per_page = Some k, page = Some pg\<rparr>"

text \<open>
  A platform that answers every call with the rate-limit exception, and one that
  resolves the two lookups of a repository and knows no pull request.
\<close>

definition limited_gh :: env where
  "limited_gh =
     \<lparr>request_object = (\<lambda>log c. Inl rate_limited),
      request_list = (\<lambda>log c. Inl rate_limited),
      request_page = (\<lambda>log c. Inl rate_limited),
      request_value = (\<lambda>log c. Inl rate_limited),
      slice_negative = (\<lambda>lst start stop. Inl (Exn IndexError ''list index out of range'')),
      valid_isoformat = (\<lambda>s. True)\<rparr>"

definition missing_pull_gh :: env where
  "missing_pull_gh =
     stub_gh\<lparr>request_object :=
       (\<lambda>log c. if length log < 2 then Inr repo1 else Inl not_found_error)\<rparr>"

definition issue_comment_params :: CommentParams where
  "issue_comment_params =
     \<lparr>IssueParams.owner = ''acme'', repo = ''widgets'', issue_number = 42,
      CommentParams.body = ''thanks''\<rparr>"

definition issue_query :: SearchParams where
  "issue_query =
     \<lparr>SearchParams.q = ''is:open'', SearchParams.sort = None, SearchParams.order = None,
      SearchParams.per_page = Some 30, SearchParams.page = Some 1\<rparr>"

definition new_issue_params :: CreateIssueParams where
  "new_issue_params =
     \<lparr>CreateIssueParams.owner = ''acme'', CreateIssueParams.repo = ''widgets'',
      CreateIssueParams.title = ''crash'', CreateIssueParams.body = None,
      CreateIssueParams.assignees = None, CreateIssueParams.labels = None,
      CreateIssueParams.milestone = None\<rparr>"

definition comments_params :: CommentsListParams where
  "comments_params =
     \<lparr>IssueParams.owner = ''acme'', repo = ''widgets'', issue_number = 42,
      CommentsListParams.page = Some 1, CommentsListParams.per_page = Some 30\<rparr>"

section \<open>Properties of the local push\<close>

lemmas run_defs = returns_def raises_def lift_def and_then_def except_Exception_def
  except_GithubException_def call_object_def call_list_def call_page_def call_value_def

lemma stage_all_ok:
  "stage_all f w = (Inr u, w') \<Longrightarrow> w' = w\<lparr>is_git_repo := True, staged := True\<rparr>"
  by (auto simp: stage_all_def open_or_init_def open_repo_def git_do_def and_then_def
      split: option.splits if_splits)

lemma stage_all_commits: "commits (snd (stage_all f w)) = commits w"
  by (simp add: stage_all_def open_or_init_def open_repo_def git_do_def and_then_def
      split: option.splits)

lemma stage_all_pushes: "pushes (snd (stage_all f w)) = pushes w"
  by (simp add: stage_all_def open_or_init_def open_repo_def git_do_def and_then_def
      split: option.splits)

lemma stage_all_refail:
  "stage_all f w = (Inl e, w') \<Longrightarrow> \<exists>e'. fst (stage_all f w') = Inl e'"
  by (auto simp: stage_all_def open_or_init_def open_repo_def git_do_def and_then_def
      split: option.splits if_splits)

lemma stage_all_idem:
  "stage_all f w = (Inr u, w') \<Longrightarrow> stage_all f w' = (Inr v, w'') \<Longrightarrow> w'' = w'"
  using stage_all_ok [of f w u w'] stage_all_ok [of f w' v w''] by simp

lemma commit_if_no_head_commits:
  "commits (snd (commit_if_no_head f m w)) = commits w
   \<or> (commits w = [] \<and> commits (snd (commit_if_no_head f m w)) = [m])"
  by (simp add: commit_if_no_head_def git_do_def returns_def split: option.splits)

lemma commit_if_no_head_pushes: "pushes (snd (commit_if_no_head f m w)) = pushes w"
  by (simp add: commit_if_no_head_def git_do_def returns_def split: option.splits)

lemma commit_if_no_head_ok:
  "commit_if_no_head f m w = (Inr u, w') \<Longrightarrow> commits w' \<noteq> []"
  by (auto simp: commit_if_no_head_def git_do_def returns_def split: option.splits if_splits)

lemma commit_if_no_head_fail:
  "commit_if_no_head f m w = (Inl e, w') \<Longrightarrow>
   w' = w \<and> commits w = [] \<and> commit_if_no_head f m' w = (Inl e, w)"
  by (auto simp: commit_if_no_head_def git_do_def returns_def split: option.splits if_splits)

lemma publish_commits: "commits (snd (publish f url b w)) = commits w"
  by (simp add: publish_def git_do_def and_then_def returns_def split: option.splits)

lemma publish_pushes:
  "pushes (snd (publish f url b w)) = pushes w
   \<or> (\<exists>u. pushes (snd (publish f url b w)) = pushes w @ [(u, b @ '':'' @ b)])"
  by (simp add: publish_def git_do_def and_then_def returns_def split: option.splits)

lemma push_steps_commits:
  "commits (snd (push_steps f url b m w)) = commits w
   \<or> (commits w = [] \<and> commits (snd (push_steps f url b m w)) = [m])"
proof (cases "stage_all f w")
  case (Pair r wa)
  have ca: "commits wa = commits w"
    using stage_all_commits [of f w] Pair by simp
  show ?thesis
  proof (cases r)
    case (Inl e)
    with Pair ca show ?thesis by (simp add: push_steps_def and_then_def)
  next
    case (Inr u)
    obtain r' wb where cm: "commit_if_no_head f m wa = (r', wb)"
      by (cases "commit_if_no_head f m wa") blast
    have cb: "commits wb = commits wa \<or> (commits wa = [] \<and> commits wb = [m])"
      using commit_if_no_head_commits [of f m wa] cm by simp
    show ?thesis
    proof (cases r')
      case (Inl e)
      with Pair Inr cm ca cb show ?thesis by (auto simp: push_steps_def and_then_def)
    next
      case (Inr v)
      with Pair \<open>r = Inr u\<close> cm ca cb publish_commits [of f url b wb]
      show ?thesis by (auto simp: push_steps_def and_then_def)
    qed
  qed
qed

lemma push_steps_pushes:
  "pushes (snd (push_steps f url b m w)) = pushes w
   \<or> (\<exists>u. pushes (snd (push_steps f url b m w)) = pushes w @ [(u, b @ '':'' @ b)])"
proof (cases "stage_all f w")
  case (Pair r wa)
  have pa: "pushes wa = pushes w"
    using stage_all_pushes [of f w] Pair by simp
  show ?thesis
  proof (cases r)
    case (Inl e)
    with Pair pa show ?thesis by (simp add: push_steps_def and_then_def)
  next
    case (Inr u)
    obtain r' wb where cm: "commit_if_no_head f m wa = (r', wb)"
      by (cases "commit_if_no_head f m wa") blast
    have pb: "pushes wb = pushes wa"
      using commit_if_no_head_pushes [of f m wa] cm by simp
    show ?thesis
    proof (cases r')
      case (Inl e)
      with Pair Inr cm pa pb show ?thesis by (auto simp: push_steps_def and_then_def)
    next
      case (Inr v)
      with Pair \<open>r = Inr u\<close> cm pa pb publish_pushes [of f url b wb]
      show ?thesis by (auto simp: push_steps_def and_then_def)
    qed
  qed
qed

lemma push_steps_again:
  assumes "commits (snd (push_steps f url b m w)) = []"
  shows "commits (snd (push_steps f url' b' m' (snd (push_steps f url b m w)))) = []"
proof (cases "stage_all f w")
  case (Pair r wa)
  show ?thesis
  proof (cases r)
    case (Inl e)
    with Pair have first: "push_steps f url b m w = (Inl e, wa)"
      by (simp add: push_steps_def and_then_def)
    from Pair Inl obtain e' where "fst (stage_all f wa) = Inl e'"
      using stage_all_refail [of f w e wa] by auto
    then have "push_steps f url' b' m' wa = (Inl e', snd (stage_all f wa))"
      by (cases "stage_all f wa") (simp add: push_steps_def and_then_def)
    with first assms stage_all_commits [of f wa] show ?thesis by simp
  next
    case (Inr u)
    obtain r' wb where cm: "commit_if_no_head f m wa = (r', wb)"
      by (cases "commit_if_no_head f m wa") blast
    show ?thesis
    proof (cases r')
      case (Inl e)
      with cm have fail: "wb = wa" "commits wa = []" "commit_if_no_head f m' wa = (Inl e, wa)"
        using commit_if_no_head_fail [of f m wa e wb m'] by auto
      from Pair Inr cm Inl fail have first: "push_steps f url b m w = (Inl e, wa)"
        by (simp add: push_steps_def and_then_def)
      obtain r2 w2 where again: "stage_all f wa = (r2, w2)"
        by (cases "stage_all f wa") blast
      have c2: "commits w2 = []"
        using stage_all_commits [of f wa] again fail by simp
      show ?thesis
      proof (cases r2)
        case (Inl e2)
        with again c2 first show ?thesis by (simp add: push_steps_def and_then_def)
      next
        case (Inr v)
        with again Pair \<open>r = Inr u\<close> have "w2 = wa"
          using stage_all_idem [of f w u wa v w2] by simp
        with again Inr fail first show ?thesis by (simp add: push_steps_def and_then_def)
      qed
    next
      case (Inr v)
      with cm have "commits wb \<noteq> []"
        using commit_if_no_head_ok [of f m wa v wb] by simp
      moreover from Pair \<open>r = Inr u\<close> cm Inr
      have "push_steps f url b m w = publish f url b wb"
        by (simp add: push_steps_def and_then_def)
      ultimately show ?thesis
        using assms publish_commits [of f url b wb] by simp
    qed
  qed
qed

lemmas git_defs = push_to_github_def push_steps_def stage_all_def commit_if_no_head_def
  publish_def open_or_init_def open_repo_def git_do_def or_default_def origin_url_def
  history_def pushed_def

lemma push_to_github_fs:
  "snd (push_to_github f p fs) =
     (case fs (repo_path p) of
        None \<Rightarrow> fs
      | Some w \<Rightarrow>
          fs(repo_path p \<mapsto>
             snd (push_steps f (remote_url p)
                    (or_default (Some (GitPushLocalTOGIT.branch p)) ''main'')
                    (or_default (commit_msg p) ''Initial commit'') w)))"
  by (simp add: push_to_github_def Let_def split: option.splits prod.splits sum.splits)

lemma push_to_github_history:
  "history (snd (push_to_github f p fs)) (repo_path p) = history fs (repo_path p)
   \<or> (history fs (repo_path p) = []
      \<and> history (snd (push_to_github f p fs)) (repo_path p)
          = [or_default (commit_msg p) ''Initial commit''])"
proof (cases "fs (repo_path p)")
  case None
  then show ?thesis by (simp add: push_to_github_fs history_def)
next
  case (Some w)
  with push_steps_commits
    [of f "remote_url p" "or_default (Some (GitPushLocalTOGIT.branch p)) ''main''"
       "or_default (commit_msg p) ''Initial commit''" w]
  show ?thesis
    by (simp add: push_to_github_fs history_def)
qed

lemma push_to_github_again:
  assumes "repo_path p2 = repo_path p1"
    and "history (snd (push_to_github f p1 fs)) (repo_path p1) = []"
  shows "history (snd (push_to_github f p2 (snd (push_to_github f p1 fs)))) (repo_path p1) = []"
proof (cases "fs (repo_path p1)")
  case None
  with assms show ?thesis by (simp add: push_to_github_fs history_def)
next
  case (Some w)
  let ?w1 = "snd (push_steps f (remote_url p1)
      (or_default (Some (GitPushLocalTOGIT.branch p1)) ''main'')
      (or_default (commit_msg p1) ''Initial commit'') w)"
  have fs1: "snd (push_to_github f p1 fs) = fs(repo_path p1 \<mapsto> ?w1)"
    using Some by (simp add: push_to_github_fs)
  have c1: "commits ?w1 = []"
    using assms(2) fs1 by (simp add: history_def)
  have "commits (snd (push_steps f (remote_url p2)
      (or_default (Some (GitPushLocalTOGIT.branch p2)) ''main'')
      (or_default (commit_msg p2) ''Initial commit'') ?w1)) = []"
    using c1 by (rule push_steps_again)
  with Some assms(1) show ?thesis
    by (simp add: push_to_github_fs history_def)
qed

text \<open>
  Claim C7. Two calls of \<open>push_to_github\<close> in succession on the same path, with nothing
  changed in between. The first call leaves the history as it was or, when there was no
  commit, adds one commit. The second call adds no commit whenever the first left a
  valid head, whatever either call's operations raise; when the environment answers
  both calls alike it adds no commit at all. A history that exists is left as it is.
\<close>

theorem push_to_github_twice:
  assumes "repo_path p2 = repo_path p1"
  shows "(history (snd (push_to_github f1 p1 fs)) (repo_path p1) = history fs (repo_path p1)
          \<or> (history fs (repo_path p1) = []
             \<and> history (snd (push_to_github f1 p1 fs)) (repo_path p1)
                 = [or_default (commit_msg p1) ''Initial commit'']))
       \<and> (history (snd (push_to_github f1 p1 fs)) (repo_path p1) \<noteq> [] \<longrightarrow>
            history (snd (push_to_github f2 p2 (snd (push_to_github f1 p1 fs)))) (repo_path p1)
              = history (snd (push_to_github f1 p1 fs)) (repo_path p1))
       \<and> (f2 = f1 \<longrightarrow>
            history (snd (push_to_github f2 p2 (snd (push_to_github f1 p1 fs)))) (repo_path p1)
              = history (snd (push_to_github f1 p1 fs)) (repo_path p1))
       \<and> (history fs (repo_path p1) \<noteq> [] \<longrightarrow>
            history (snd (push_to_github f2 p2 (snd (push_to_github f1 p1 fs)))) (repo_path p1)
              = history fs (repo_path p1))"
proof -
  let ?fs1 = "snd (push_to_github f1 p1 fs)"
  have one: "history ?fs1 (repo_path p1) = history fs (repo_path p1)
     \<or> (history fs (repo_path p1) = []
        \<and> history ?fs1 (repo_path p1) = [or_default (commit_msg p1) ''Initial commit''])"
    by (rule push_to_github_history)
  have two: "history (snd (push_to_github f2 p2 ?fs1)) (repo_path p1) = history ?fs1 (repo_path p1)
     \<or> (history ?fs1 (repo_path p1) = []
        \<and> history (snd (push_to_github f2 p2 ?fs1)) (repo_path p1)
            = [or_default (commit_msg p2) ''Initial commit''])"
    using push_to_github_history [of f2 p2 ?fs1] assms by simp
  have same: "f2 = f1 \<longrightarrow>
      history (snd (push_to_github f2 p2 ?fs1)) (repo_path p1) = history ?fs1 (repo_path p1)"
  proof (cases "history ?fs1 (repo_path p1) = []")
    case True
    then show ?thesis using push_to_github_again [OF assms, of f1 fs] by auto
  next
    case False
    with two show ?thesis by auto
  qed
  from one two same show ?thesis by auto
qed

theorem push_to_github_twice_witness:
  "repo_path push_params = repo_path push_params
   \<and> history work_fs ''/work'' = []
   \<and> history (snd (push_to_github no_faults push_params work_fs)) ''/work'' = [''Initial commit'']
   \<and> history (snd (push_to_github no_faults push_params
        (snd (push_to_github no_faults push_params work_fs)))) ''/work'' = [''Initial commit'']
   \<and> history (snd (push_to_github no_faults push_params
        (snd (push_to_github no_faults push_params
          (snd (push_to_github no_faults push_params work_fs)))))) ''/work'' = [''Initial commit'']"
proof -
  have p: "repo_path push_params = ''/work''"
    by (simp add: push_params_def)
  have h1: "history (snd (push_to_github no_faults push_params work_fs)) ''/work''
      = [''Initial commit'']"
    by (simp add: git_defs run_defs Let_def push_params_def work_fs_def fresh_directory_def
        no_faults_def)
  show ?thesis
    using h1 p
      push_to_github_twice [of push_params push_params no_faults work_fs no_faults]
      push_to_github_twice [of push_params push_params no_faults
        "snd (push_to_github no_faults push_params work_fs)" no_faults]
    by (simp add: work_fs_def history_def fresh_directory_def)
qed

lemma or_default_None: "or_default None d = d"
  by (simp add: or_default_def)

lemma or_default_empty: "or_default (Some []) d = d"
  by (simp add: or_default_def)

lemma push_to_github_pushed:
  "pushed (snd (push_to_github f p fs)) (repo_path p) = pushed fs (repo_path p)
   \<or> (\<exists>u. pushed (snd (push_to_github f p fs)) (repo_path p)
          = pushed fs (repo_path p)
            @ [(u, or_default (Some (GitPushLocalTOGIT.branch p)) ''main'' @ '':''
                   @ or_default (Some (GitPushLocalTOGIT.branch p)) ''main'')])"
proof (cases "fs (repo_path p)")
  case None
  then show ?thesis by (simp add: push_to_github_fs pushed_def)
next
  case (Some w)
  with push_steps_pushes
    [of f "remote_url p" "or_default (Some (GitPushLocalTOGIT.branch p)) ''main''"
       "or_default (commit_msg p) ''Initial commit''" w]
  show ?thesis
    by (simp add: push_to_github_fs pushed_def)
qed

lemma stage_all_no_faults:
  "stage_all no_faults w = (Inr (), w\<lparr>is_git_repo := True, staged := True\<rparr>)"
  by (simp add: stage_all_def open_or_init_def open_repo_def git_do_def and_then_def
      no_faults_def)

lemma publish_no_faults:
  "fst (publish no_faults url b w)
     = Inr (Content (Plain (check_mark @ '' Successfully pushed to '' @ url
              @ '' on branch '' @ [CHR 0x27] @ b @ [CHR 0x27] @ ''.'')))
   \<and> current_branch (snd (publish no_faults url b w)) = b
   \<and> (\<exists>u. pushes (snd (publish no_faults url b w)) = pushes w @ [(u, b @ '':'' @ b)])"
  by (simp add: publish_def git_do_def and_then_def returns_def no_faults_def)

lemma push_steps_no_faults:
  "fst (push_steps no_faults url b m w)
     = Inr (Content (Plain (check_mark @ '' Successfully pushed to '' @ url
              @ '' on branch '' @ [CHR 0x27] @ b @ [CHR 0x27] @ ''.'')))
   \<and> current_branch (snd (push_steps no_faults url b m w)) = b
   \<and> (\<exists>u. pushes (snd (push_steps no_faults url b m w)) = pushes w @ [(u, b @ '':'' @ b)])"
proof -
  have "\<exists>wb. commit_if_no_head no_faults m (w\<lparr>is_git_repo := True, staged := True\<rparr>)
          = (Inr (), wb) \<and> pushes wb = pushes w"
    by (simp add: commit_if_no_head_def git_do_def returns_def no_faults_def)
  then obtain wb where cm:
    "commit_if_no_head no_faults m (w\<lparr>is_git_repo := True, staged := True\<rparr>) = (Inr (), wb)"
    and pb: "pushes wb = pushes w"
    by blast
  have "push_steps no_faults url b m w = publish no_faults url b wb"
    using cm by (simp add: push_steps_def and_then_def stage_all_no_faults)
  with publish_no_faults [of url b wb] pb show ?thesis by simp
qed

lemma push_to_github_result:
  "fst (push_to_github f p fs) =
     (case fs (repo_path p) of
        None \<Rightarrow> Content (Plain (cross_mark @ '' Repo path does not exist.''))
      | Some w \<Rightarrow>
          (case fst (push_steps f (remote_url p)
                       (or_default (Some (GitPushLocalTOGIT.branch p)) ''main'')
                       (or_default (commit_msg p) ''Initial commit'') w) of
             Inr r \<Rightarrow> r
           | Inl e \<Rightarrow> Content (Plain (cross_mark @ '' Error: '' @ str e))))"
  by (simp add: push_to_github_def Let_def split: option.splits prod.splits sum.splits)

text \<open>
  Claim C10. \<open>push_to_github\<close> replaces falsy inputs by fixed defaults on entry. With
  \<open>commit_msg\<close> omitted, a commit it creates carries the message "Initial commit".
  With \<open>branch\<close> the empty string, the refspec of a push it makes is "main:main";
  no validation fails: when no operation of the version-control library raises, the
  call reports success on branch 'main' and the push is made.
\<close>

theorem push_to_github_defaults:
  "(commit_msg p = None \<longrightarrow>
      history (snd (push_to_github f p fs)) (repo_path p) = history fs (repo_path p)
      \<or> (history fs (repo_path p) = []
         \<and> history (snd (push_to_github f p fs)) (repo_path p) = [''Initial commit'']))
   \<and> (GitPushLocalTOGIT.branch p = [] \<longrightarrow>
      pushed (snd (push_to_github f p fs)) (repo_path p) = pushed fs (repo_path p)
      \<or> (\<exists>u. pushed (snd (push_to_github f p fs)) (repo_path p)
             = pushed fs (repo_path p) @ [(u, ''main:main'')]))
   \<and> (GitPushLocalTOGIT.branch p = [] \<longrightarrow> fs (repo_path p) = Some w \<longrightarrow>
      fst (push_to_github no_faults p fs)
        = Content (Plain (check_mark @ '' Successfully pushed to '' @ remote_url p
            @ '' on branch '' @ [CHR 0x27] @ ''main'' @ [CHR 0x27] @ ''.''))
      \<and> (\<exists>u. pushed (snd (push_to_github no_faults p fs)) (repo_path p)
             = pushes w @ [(u, ''main:main'')]))"
proof (intro conjI impI)
  assume "commit_msg p = None"
  with push_to_github_history [of f p fs]
  show "history (snd (push_to_github f p fs)) (repo_path p) = history fs (repo_path p)
      \<or> (history fs (repo_path p) = []
         \<and> history (snd (push_to_github f p fs)) (repo_path p) = [''Initial commit''])"
    by (simp add: or_default_None)
next
  assume "GitPushLocalTOGIT.branch p = []"
  with push_to_github_pushed [of f p fs]
  show "pushed (snd (push_to_github f p fs)) (repo_path p) = pushed fs (repo_path p)
      \<or> (\<exists>u. pushed (snd (push_to_github f p fs)) (repo_path p)
             = pushed fs (repo_path p) @ [(u, ''main:main'')])"
    by (simp add: or_default_empty)
next
  assume b: "GitPushLocalTOGIT.branch p = []" and w: "fs (repo_path p) = Some w"
  from push_steps_no_faults
    [of "remote_url p" "''main''" "or_default (commit_msg p) ''Initial commit''" w]
  show "fst (push_to_github no_faults p fs)
        = Content (Plain (check_mark @ '' Successfully pushed to '' @ remote_url p
            @ '' on branch '' @ [CHR 0x27] @ ''main'' @ [CHR 0x27] @ ''.''))"
    using b w
    by (simp add: push_to_github_result or_default_empty)
next
  assume b: "GitPushLocalTOGIT.branch p = []" and w: "fs (repo_path p) = Some w"
  from push_steps_no_faults
    [of "remote_url p" "''main''" "or_default (commit_msg p) ''Initial commit''" w]
  show "\<exists>u. pushed (snd (push_to_github no_faults p fs)) (repo_path p)
             = pushes w @ [(u, ''main:main'')]"
    using b w
    by (simp add: push_to_github_fs pushed_def or_default_empty)
qed

theorem push_to_github_defaults_witness:
  "commit_msg push_params = None
   \<and> GitPushLocalTOGIT.branch push_params = []
   \<and> work_fs (repo_path push_params) = Some fresh_directory
   \<and> history (snd (push_to_github no_faults push_params work_fs)) ''/work''
       = [''Initial commit'']
   \<and> pushed (snd (push_to_github no_faults push_params work_fs)) ''/work''
       = [(''https://github.com/acme/widgets.git'', ''main:main'')]
   \<and> fst (push_to_github no_faults push_params work_fs)
       = Content (Plain (check_mark @ '' Successfully pushed to ''
           @ ''https://github.com/acme/widgets.git''
           @ '' on branch '' @ [CHR 0x27] @ ''main'' @ [CHR 0x27] @ ''.''))"
proof -
  have p: "commit_msg push_params = None" "GitPushLocalTOGIT.branch push_params = []"
    "repo_path push_params = ''/work''"
    "remote_url push_params = ''https://github.com/acme/widgets.git''"
    by (simp_all add: push_params_def)
  have w: "work_fs ''/work'' = Some fresh_directory"
    by (simp add: work_fs_def)
  have h: "history work_fs ''/work'' = []" "pushes fresh_directory = []"
    by (simp_all add: history_def work_fs_def fresh_directory_def)
  have ps: "pushed (snd (push_to_github no_faults push_params work_fs)) ''/work''
       = [(''https://github.com/acme/widgets.git'', ''main:main'')]"
    by (simp add: git_defs run_defs Let_def push_params_def work_fs_def fresh_directory_def
        no_faults_def)
  have hs: "history (snd (push_to_github no_faults push_params work_fs)) ''/work''
       = [''Initial commit'']"
    by (simp add: git_defs run_defs Let_def push_params_def work_fs_def fresh_directory_def
        no_faults_def)
  show ?thesis
    using p w h ps hs
      push_to_github_defaults [of push_params no_faults work_fs fresh_directory]
    by simp
qed

section \<open>The shape of a run\<close>

text \<open>
  For every tool: the calls it adds to the log are pairwise distinct, only the last of
  them can have been answered with an exception, and such an exception decides the
  result.
\<close>

lemma get_repo_result:
  "get_repo g ow nm log =
     (case request_object g log (Get_user (Some ow)) of
        Inl e \<Rightarrow>
          (if isinstance_GithubException e then Inr None else Inl e, log @ [Get_user (Some ow)])
      | Inr u \<Rightarrow>
          (case request_object g (log @ [Get_user (Some ow)]) (User_get_repo u nm) of
             Inl e \<Rightarrow>
               (if isinstance_GithubException e then Inr None else Inl e,
                log @ [Get_user (Some ow), User_get_repo u nm])
           | Inr r \<Rightarrow> (Inr (Some r), log @ [Get_user (Some ow), User_get_repo u nm])))"
  by (simp add: get_repo_def run_defs split: sum.splits)

lemmas obs_defs = raised_def raised_by_def

lemma get_commit_run:
  "\<exists>new. snd (get_commit gh p log) = log @ new \<and> distinct new
     \<and> no_call_after_failure gh log new
     \<and> (\<forall>e. raised_last gh log new = Some e \<longrightarrow>
            fst (get_commit gh p log) = Inr (Content (Plain (''Error: '' @ str e))))"
  by (auto simp: get_commit_def get_commit_steps_def error_text_def run_defs obs_defs
      split: sum.splits prod.splits)

lemma list_commits_run:
  "\<exists>new. snd (list_commits gh p log) = log @ new \<and> distinct new
     \<and> no_call_after_failure gh log new
     \<and> (\<forall>e. raised_last gh log new = Some e \<longrightarrow>
            fst (list_commits gh p log) = Inr (Content (Plain (''Error: '' @ str e))))"
  by (auto simp: list_commits_def list_commits_steps_def error_text_def run_defs obs_defs
      split: sum.splits prod.splits)

lemma list_branches_run:
  "\<exists>new. snd (list_branches gh p log) = log @ new \<and> distinct new
     \<and> no_call_after_failure gh log new
     \<and> (\<forall>e. raised_last gh log new = Some e \<longrightarrow>
            fst (list_branches gh p log) = Inr (Content (Plain (''Error: '' @ str e))))"
  by (auto simp: list_branches_def list_branches_steps_def error_text_def run_defs obs_defs
      split: sum.splits prod.splits)

lemma create_or_update_file_run:
  "\<exists>new. snd (create_or_update_file gh p log) = log @ new \<and> distinct new
     \<and> no_call_after_failure gh log new
     \<and> (\<forall>e. raised_last gh log new = Some e \<longrightarrow>
            fst (create_or_update_file gh p log) = Inr (Content (Plain (''Error: '' @ str e))))"
  by (auto simp: create_or_update_file_def create_or_update_file_steps_def error_text_def
      run_defs obs_defs split: sum.splits prod.splits option.splits list.splits)

lemma create_repository_run:
  "\<exists>new. snd (create_repository gh p log) = log @ new \<and> distinct new
     \<and> no_call_after_failure gh log new
     \<and> (\<forall>e. raised_last gh log new = Some e \<longrightarrow>
            fst (create_repository gh p log) = Inr (Content (Plain (''Error: '' @ str e))))"
  by (auto simp: create_repository_def create_repository_steps_def error_text_def run_defs
      obs_defs split: sum.splits prod.splits)

lemma fork_repository_run:
  "\<exists>new. snd (fork_repository gh p log) = log @ new \<and> distinct new
     \<and> no_call_after_failure gh log new
     \<and> (\<forall>e. raised_last gh log new = Some e \<longrightarrow>
            fst (fork_repository gh p log) = Inr (Content (Plain (''Error: '' @ str e))))"
  by (auto simp: fork_repository_def fork_repository_steps_def error_text_def run_defs
      obs_defs split: sum.splits prod.splits option.splits list.splits)

lemma search_repositories_run:
  "\<exists>new. snd (search_repositories gh p log) = log @ new \<and> distinct new
     \<and> no_call_after_failure gh log new
     \<and> (\<forall>e. raised_last gh log new = Some e \<longrightarrow>
            fst (search_repositories gh p log)
              = (if isinstance_GithubException e then Inr (Dict [(''error'', JStr (str e))])
                 else Inl e))"
  by (auto simp: search_repositories_def search_repositories_steps_def search_error_def
      run_defs obs_defs split: sum.splits prod.splits)

lemma search_code_run:
  "\<exists>new. snd (search_code gh p log) = log @ new \<and> distinct new
     \<and> no_call_after_failure gh log new
     \<and> (\<forall>e. raised_last gh log new = Some e \<longrightarrow>
            fst (search_code gh p log)
              = (if isinstance_GithubException e then Inr (Dict [(''error'', JStr (str e))])
                 else Inl e))"
  by (auto simp: search_code_def search_code_steps_def search_error_def
      run_defs obs_defs split: sum.splits prod.splits)

lemma search_users_run:
  "\<exists>new. snd (search_users gh p log) = log @ new \<and> distinct new
     \<and> no_call_after_failure gh log new
     \<and> (\<forall>e. raised_last gh log new = Some e \<longrightarrow>
            fst (search_users gh p log)
              = (if isinstance_GithubException e then Inr (Dict [(''error'', JStr (str e))])
                 else Inl e))"
  by (auto simp: search_users_def search_users_steps_def search_error_def
      run_defs obs_defs split: sum.splits prod.splits)

lemma get_issue_run:
  "\<exists>new. snd (get_issue gh p log) = log @ new \<and> distinct new
     \<and> no_call_after_failure gh log new
     \<and> (\<forall>e. raised_last gh log new = Some e \<longrightarrow> fst (get_issue gh p log) = Inl e)"
  by (auto simp: get_issue_def run_defs obs_defs split: sum.splits prod.splits)

lemma add_issue_comment_run:
  "\<exists>new. snd (add_issue_comment gh p log) = log @ new \<and> distinct new
     \<and> no_call_after_failure gh log new
     \<and> (\<forall>e. raised_last gh log new = Some e \<longrightarrow> fst (add_issue_comment gh p log) = Inl e)"
  by (auto simp: add_issue_comment_def run_defs obs_defs split: sum.splits prod.splits)

lemma search_issues_run:
  "\<exists>new. snd (search_issues gh p log) = log @ new \<and> distinct new
     \<and> no_call_after_failure gh log new
     \<and> (\<forall>e. raised_last gh log new = Some e \<longrightarrow> fst (search_issues gh p log) = Inl e)"
  by (auto simp: search_issues_def run_defs obs_defs
      split: sum.splits prod.splits option.splits)

lemma create_issue_run:
  "\<exists>new. snd (create_issue gh p log) = log @ new \<and> distinct new
     \<and> no_call_after_failure gh log new
     \<and> (\<forall>e. raised_last gh log new = Some e \<longrightarrow> fst (create_issue gh p log) = Inl e)"
  by (auto simp: create_issue_def run_defs obs_defs split: sum.splits prod.splits)

lemma list_issues_run:
  "\<exists>new. snd (list_issues gh p log) = log @ new \<and> distinct new
     \<and> no_call_after_failure gh log new
     \<and> (\<forall>e. raised_last gh log new = Some e \<longrightarrow> fst (list_issues gh p log) = Inl e)"
  by (auto simp: list_issues_def run_defs obs_defs split: sum.splits prod.splits)

lemma get_issue_comments_run:
  "\<exists>new. snd (get_issue_comments gh p log) = log @ new \<and> distinct new
     \<and> no_call_after_failure gh log new
     \<and> (\<forall>e. raised_last gh log new = Some e \<longrightarrow> fst (get_issue_comments gh p log) = Inl e)"
  by (auto simp: get_issue_comments_def run_defs obs_defs split: sum.splits prod.splits)

lemma get_repo_run:
  "\<exists>new. snd (get_repo gh ow nm log) = log @ new \<and> distinct new
     \<and> no_call_after_failure gh log new
     \<and> (\<forall>e. raised_last gh log new = Some e \<longrightarrow>
            fst (get_repo gh ow nm log)
              = (if isinstance_GithubException e then Inr None else Inl e))"
  by (auto simp: get_repo_result obs_defs split: sum.splits)

lemma get_pull_request_run:
  "\<exists>new. snd (get_pull_request gh p log) = log @ new \<and> distinct new
     \<and> no_call_after_failure gh log new
     \<and> (\<forall>e. raised_last gh log new = Some e \<longrightarrow>
            fst (get_pull_request gh p log)
              = (if isinstance_GithubException e
                 then Inr (Content (Plain (if length new \<le> 2 then ''Repository not found.''
                                           else ''Error: '' @ str e)))
                 else Inl e))"
  by (auto simp: get_pull_request_def get_pull_request_steps_def get_repo_result not_found_def
      error_text_def run_defs obs_defs split: sum.splits prod.splits)

lemma update_pull_request_run:
  "\<exists>new. snd (update_pull_request gh p log) = log @ new \<and> distinct new
     \<and> no_call_after_failure gh log new
     \<and> (\<forall>e. raised_last gh log new = Some e \<longrightarrow>
            fst (update_pull_request gh p log)
              = (if isinstance_GithubException e
                 then Inr (Content (Plain (if length new \<le> 2 then ''Repository not found.''
                                           else ''Error: '' @ str e)))
                 else Inl e))"
  by (auto simp: update_pull_request_def update_pull_request_steps_def get_repo_result not_found_def
      error_text_def run_defs obs_defs split: sum.splits prod.splits)

lemma list_pull_requests_run:
  "\<exists>new. snd (list_pull_requests gh p log) = log @ new \<and> distinct new
     \<and> no_call_after_failure gh log new
     \<and> (\<forall>e. raised_last gh log new = Some e \<longrightarrow>
            fst (list_pull_requests gh p log)
              = (if isinstance_GithubException e
                 then Inr (Content (Plain (if length new \<le> 2 then ''Repository not found.''
                                           else ''Error: '' @ str e)))
                 else Inl e))"
  by (auto simp: list_pull_requests_def list_pull_requests_steps_def get_repo_result not_found_def
      error_text_def run_defs obs_defs split: sum.splits prod.splits)

lemma merge_pull_request_run:
  "\<exists>new. snd (merge_pull_request gh p log) = log @ new \<and> distinct new
     \<and> no_call_after_failure gh log new
     \<and> (\<forall>e. raised_last gh log new = Some e \<longrightarrow>
            fst (merge_pull_request gh p log)
              = (if isinstance_GithubException e
                 then Inr (Content (Plain (if length new \<le> 2 then ''Repository not found.''
                                           else ''Error: '' @ str e)))
                 else Inl e))"
  by (auto simp: merge_pull_request_def merge_pull_request_steps_def get_repo_result not_found_def
      error_text_def run_defs obs_defs split: sum.splits prod.splits)

lemma get_pull_request_files_run:
  "\<exists>new. snd (get_pull_request_files gh p log) = log @ new \<and> distinct new
     \<and> no_call_after_failure gh log new
     \<and> (\<forall>e. raised_last gh log new = Some e \<longrightarrow>
            fst (get_pull_request_files gh p log)
              = (if isinstance_GithubException e
                 then Inr (Content (Plain (if length new \<le> 2 then ''Repository not found.''
                                           else ''Error: '' @ str e)))
                 else Inl e))"
  by (auto simp: get_pull_request_files_def get_pull_request_files_steps_def get_repo_result not_found_def
      error_text_def run_defs obs_defs split: sum.splits prod.splits)

lemma get_pull_request_status_run:
  "\<exists>new. snd (get_pull_request_status gh p log) = log @ new \<and> distinct new
     \<and> no_call_after_failure gh log new
     \<and> (\<forall>e. raised_last gh log new = Some e \<longrightarrow>
            fst (get_pull_request_status gh p log)
              = (if isinstance_GithubException e
                 then Inr (Content (Plain (if length new \<le> 2 then ''Repository not found.''
                                           else ''Error: '' @ str e)))
                 else Inl e))"
  by (auto simp: get_pull_request_status_def get_pull_request_status_steps_def get_repo_result not_found_def
      error_text_def run_defs obs_defs split: sum.splits prod.splits)

section \<open>Properties of the platform tools\<close>

text \<open>
  Claim C9. Two \<open>search_code\<close> requests that differ only in \<open>sort\<close> and \<open>order\<close>
  run alike: same upstream calls, same result. The one call the tool makes is the code
  search for \<open>q\<close>; neither field is forwarded.
\<close>

theorem search_code_ignores_sort_and_order:
  "search_code g (params\<lparr>SearchCodeParams.sort := s, SearchCodeParams.order := d\<rparr>) log
     = search_code g params log
   \<and> snd (search_code g params log) = log @ [Search_code (SearchCodeParams.q params)]"
  by (simp add: search_code_def search_code_steps_def run_defs split: sum.splits prod.splits)

text \<open>
  Claim C5. With \<open>since\<close> omitted, \<open>list_issues\<close> looks the repository up and then
  raises: when the lookup succeeds the \<^verbatim>\<open>TypeError\<close> of
  \<^verbatim>\<open>datetime.fromisoformat(None)\<close> escapes, and the issues are never requested.
\<close>

theorem list_issues_since_omitted:
  "list_issues g (params\<lparr>since := None\<rparr>) log =
     (case request_object g log
             (Get_repo (ListIssuesParams.owner params @ ''/'' @ ListIssuesParams.repo params)) of
        Inl e \<Rightarrow>
          (Inl e, log @ [Get_repo (ListIssuesParams.owner params @ ''/''
                                    @ ListIssuesParams.repo params)])
      | Inr r \<Rightarrow>
          (Inl (Exn TypeError ''fromisoformat: argument must be str''),
           log @ [Get_repo (ListIssuesParams.owner params @ ''/''
                             @ ListIssuesParams.repo params)]))"
  by (simp add: list_issues_def fromisoformat_def run_defs split: sum.splits)

text \<open>
  The same at the request \<^verbatim>\<open>{owner: "acme", repo: "widgets"}\<close> against a platform that
  answers every call.
\<close>

theorem list_issues_since_omitted_example:
  "list_issues stub_gh issues_params []
   = (Inl (Exn TypeError ''fromisoformat: argument must be str''), [Get_repo ''acme/widgets''])"
  by (simp add: list_issues_def fromisoformat_def run_defs stub_gh_def issues_params_def)

lemma list_pull_requests_calls:
  "snd (list_pull_requests g data log) =
     (case fst (get_repo g (ListPullRequestsInput.owner data) (ListPullRequestsInput.repo data) log) of
        Inr (Some r) \<Rightarrow>
          snd (get_repo g (ListPullRequestsInput.owner data) (ListPullRequestsInput.repo data) log)
          @ [Repo_get_pulls r
               (case ListPullRequestsInput.state data of
                  Some v \<Rightarrow> state_value v | None \<Rightarrow> ''open'')
               (case ListPullRequestsInput.sort data of
                  Some v \<Rightarrow> sort_value v | None \<Rightarrow> ''created'')
               (case ListPullRequestsInput.direction data of
                  Some v \<Rightarrow> direction_value v | None \<Rightarrow> ''desc'')]
      | _ \<Rightarrow>
          snd (get_repo g (ListPullRequestsInput.owner data) (ListPullRequestsInput.repo data) log))"
  by (simp add: list_pull_requests_def list_pull_requests_steps_def run_defs split: sum.splits prod.splits option.splits)

text \<open>
  Claim C8. With \<open>state\<close>, \<open>sort\<close> and \<open>direction\<close> omitted, every listing call
  \<open>list_pull_requests\<close> makes carries "open", "created" and "desc"; and when the
  repository resolves, the listing call is made, with exactly these values.
\<close>

theorem list_pull_requests_defaults:
  assumes "ListPullRequestsInput.state data = None"
    and "ListPullRequestsInput.sort data = None"
    and "ListPullRequestsInput.direction data = None"
  shows "(\<forall>r a b c.
            Repo_get_pulls r a b c \<in> set (drop (length log) (snd (list_pull_requests g data log)))
            \<longrightarrow> a = ''open'' \<and> b = ''created'' \<and> c = ''desc'')
       \<and> (request_object g log (Get_user (Some (ListPullRequestsInput.owner data))) = Inr u \<longrightarrow>
          request_object g (log @ [Get_user (Some (ListPullRequestsInput.owner data))])
            (User_get_repo u (ListPullRequestsInput.repo data)) = Inr r' \<longrightarrow>
          snd (list_pull_requests g data log)
            = log @ [Get_user (Some (ListPullRequestsInput.owner data)),
                     User_get_repo u (ListPullRequestsInput.repo data),
                     Repo_get_pulls r' ''open'' ''created'' ''desc''])"
proof -
  let ?o = "ListPullRequestsInput.owner data" and ?n = "ListPullRequestsInput.repo data"
  show ?thesis
  proof (cases "request_object g log (Get_user (Some ?o))")
    case (Inl e)
    then have "snd (list_pull_requests g data log) = log @ [Get_user (Some ?o)]"
      by (simp add: list_pull_requests_calls get_repo_result)
    with Inl show ?thesis by auto
  next
    case u: (Inr v)
    show ?thesis
    proof (cases "request_object g (log @ [Get_user (Some ?o)]) (User_get_repo v ?n)")
      case (Inl e)
      with u have "snd (list_pull_requests g data log)
          = log @ [Get_user (Some ?o), User_get_repo v ?n]"
        by (simp add: list_pull_requests_calls get_repo_result)
      with u Inl show ?thesis by auto
    next
      case (Inr r)
      with u assms have "snd (list_pull_requests g data log)
          = log @ [Get_user (Some ?o), User_get_repo v ?n,
                   Repo_get_pulls r ''open'' ''created'' ''desc'']"
        by (simp add: list_pull_requests_calls get_repo_result)
      with u Inr show ?thesis by auto
    qed
  qed
qed

theorem list_pull_requests_defaults_witness:
  "ListPullRequestsInput.state (pulls_params 1 30) = None
   \<and> ListPullRequestsInput.sort (pulls_params 1 30) = None
   \<and> ListPullRequestsInput.direction (pulls_params 1 30) = None
   \<and> request_object stub_gh [] (Get_user (Some ''acme'')) = Inr repo1
   \<and> request_object stub_gh [Get_user (Some ''acme'')] (User_get_repo repo1 ''widgets'') = Inr repo1
   \<and> snd (list_pull_requests stub_gh (pulls_params 1 30) [])
       = [Get_user (Some ''acme''), User_get_repo repo1 ''widgets'',
          Repo_get_pulls repo1 ''open'' ''created'' ''desc'']"
proof -
  have a: "ListPullRequestsInput.state (pulls_params 1 30) = None"
    and b: "ListPullRequestsInput.sort (pulls_params 1 30) = None"
    and c: "ListPullRequestsInput.direction (pulls_params 1 30) = None"
    and o: "ListPullRequestsInput.owner (pulls_params 1 30) = ''acme''"
    and n: "ListPullRequestsInput.repo (pulls_params 1 30) = ''widgets''"
    by (simp_all add: pulls_params_def)
  have u: "request_object stub_gh [] (Get_user (Some ''acme'')) = Inr repo1"
    and r: "request_object stub_gh [Get_user (Some ''acme'')] (User_get_repo repo1 ''widgets'')
      = Inr repo1"
    by (simp_all add: stub_gh_def)
  have "snd (list_pull_requests stub_gh (pulls_params 1 30) [])
       = [Get_user (Some ''acme''), User_get_repo repo1 ''widgets'',
          Repo_get_pulls repo1 ''open'' ''created'' ''desc'']"
    using list_pull_requests_defaults [OF a b c, of "[]" stub_gh repo1 repo1, THEN conjunct2]
      u r by (simp add: o n)
  with a b c u r show ?thesis by simp
qed

lemma create_or_update_file_calls:
  assumes "request_object gh log
             (Get_repo (CreateOrUpdateFileParams.owner p @ ''/''
                         @ CreateOrUpdateFileParams.repo p)) = Inr r"
  shows "snd (create_or_update_file gh p log) =
     log @ [Get_repo (CreateOrUpdateFileParams.owner p @ ''/'' @ CreateOrUpdateFileParams.repo p),
            (case CreateOrUpdateFileParams.sha p of
               Some (c # cs) \<Rightarrow>
                 Repo_update_file r (path p) (message p) (content p) (c # cs)
                   (CreateOrUpdateFileParams.branch p)
             | _ \<Rightarrow>
                 Repo_create_file r (path p) (message p) (content p)
                   (CreateOrUpdateFileParams.branch p))]"
proof (cases "CreateOrUpdateFileParams.sha p")
  case None
  with assms show ?thesis
    by (simp add: create_or_update_file_def create_or_update_file_steps_def run_defs split: sum.splits prod.splits)
next
  case (Some s)
  show ?thesis
  proof (cases s)
    case Nil
    with Some assms show ?thesis
      by (simp add: create_or_update_file_def create_or_update_file_steps_def run_defs split: sum.splits prod.splits)
  next
    case (Cons c cs)
    with Some assms show ?thesis
      by (simp add: create_or_update_file_def create_or_update_file_steps_def run_defs split: sum.splits prod.splits)
  qed
qed

text \<open>
  Claim C6, as stated, fails when \<open>sha\<close> is present and empty: the tool tests
  \<^verbatim>\<open>if sha:\<close>, so the empty string takes the creation branch.
\<close>

theorem create_or_update_file_empty_sha:
  "CreateOrUpdateFileParams.sha (file_params (Some [])) = Some []
   \<and> create_or_update_file stub_gh (file_params (Some [])) []
      = (Inr (Content (Json_dumps JNull)),
         [Get_repo ''acme/widgets'',
          Repo_create_file repo1 ''README.md'' ''add readme'' ''hello'' ''main''])"
  by (simp add: create_or_update_file_def create_or_update_file_steps_def json_dumps_def run_defs stub_gh_def file_params_def)

text \<open>
  Claim C6, amended. Once the repository resolves: with \<open>sha\<close> absent or empty the
  tool creates the file; with a non-empty \<open>sha\<close> it updates the file that \<open>sha\<close>
  identifies; so a call without \<open>sha\<close> followed by a call with a non-empty \<open>sha\<close>
  makes one creation and then one update.
\<close>

theorem create_or_update_file_dispatch:
  assumes "request_object gh log
             (Get_repo (CreateOrUpdateFileParams.owner p @ ''/''
                         @ CreateOrUpdateFileParams.repo p)) = Inr r"
  shows "(CreateOrUpdateFileParams.sha p = None \<or> CreateOrUpdateFileParams.sha p = Some [] \<longrightarrow>
            snd (create_or_update_file gh p log)
              = log @ [Get_repo (CreateOrUpdateFileParams.owner p @ ''/''
                                  @ CreateOrUpdateFileParams.repo p),
                       Repo_create_file r (path p) (message p) (content p)
                         (CreateOrUpdateFileParams.branch p)])
       \<and> (\<forall>s. CreateOrUpdateFileParams.sha p = Some s \<and> s \<noteq> [] \<longrightarrow>
            snd (create_or_update_file gh p log)
              = log @ [Get_repo (CreateOrUpdateFileParams.owner p @ ''/''
                                  @ CreateOrUpdateFileParams.repo p),
                       Repo_update_file r (path p) (message p) (content p) s
                         (CreateOrUpdateFileParams.branch p)])
       \<and> (\<forall>s r'. s \<noteq> [] \<and>
            request_object gh
              (log @ [Get_repo (CreateOrUpdateFileParams.owner p @ ''/''
                                 @ CreateOrUpdateFileParams.repo p),
                      Repo_create_file r (path p) (message p) (content p)
                        (CreateOrUpdateFileParams.branch p)])
              (Get_repo (CreateOrUpdateFileParams.owner p @ ''/''
                          @ CreateOrUpdateFileParams.repo p)) = Inr r' \<longrightarrow>
            snd (create_or_update_file gh (p\<lparr>CreateOrUpdateFileParams.sha := Some s\<rparr>)
                   (snd (create_or_update_file gh (p\<lparr>CreateOrUpdateFileParams.sha := None\<rparr>) log)))
              = log @ [Get_repo (CreateOrUpdateFileParams.owner p @ ''/''
                                  @ CreateOrUpdateFileParams.repo p),
                       Repo_create_file r (path p) (message p) (content p)
                         (CreateOrUpdateFileParams.branch p),
                       Get_repo (CreateOrUpdateFileParams.owner p @ ''/''
                                  @ CreateOrUpdateFileParams.repo p),
                       Repo_update_file r' (path p) (message p) (content p) s
                         (CreateOrUpdateFileParams.branch p)])"
proof (intro conjI allI impI)
  assume "CreateOrUpdateFileParams.sha p = None \<or> CreateOrUpdateFileParams.sha p = Some []"
  then show "snd (create_or_update_file gh p log)
      = log @ [Get_repo (CreateOrUpdateFileParams.owner p @ ''/''
                          @ CreateOrUpdateFileParams.repo p),
               Repo_create_file r (path p) (message p) (content p)
                 (CreateOrUpdateFileParams.branch p)]"
    using create_or_update_file_calls [OF assms] by auto
next
  fix s :: string
  assume "CreateOrUpdateFileParams.sha p = Some s \<and> s \<noteq> []"
  then show "snd (create_or_update_file gh p log)
      = log @ [Get_repo (CreateOrUpdateFileParams.owner p @ ''/''
                          @ CreateOrUpdateFileParams.repo p),
               Repo_update_file r (path p) (message p) (content p) s
                 (CreateOrUpdateFileParams.branch p)]"
    using create_or_update_file_calls [OF assms] by (cases s) auto
next
  fix s :: string and r' :: gh_object
  let ?n = "CreateOrUpdateFileParams.owner p @ ''/'' @ CreateOrUpdateFileParams.repo p"
  let ?log1 = "log @ [Get_repo ?n,
      Repo_create_file r (path p) (message p) (content p) (CreateOrUpdateFileParams.branch p)]"
  assume h: "s \<noteq> [] \<and> request_object gh ?log1 (Get_repo ?n) = Inr r'"
  have first: "snd (create_or_update_file gh (p\<lparr>CreateOrUpdateFileParams.sha := None\<rparr>) log)
      = ?log1"
    using create_or_update_file_calls [of gh log "p\<lparr>CreateOrUpdateFileParams.sha := None\<rparr>" r]
      assms by simp
  have second: "snd (create_or_update_file gh (p\<lparr>CreateOrUpdateFileParams.sha := Some s\<rparr>) ?log1)
      = ?log1 @ [Get_repo ?n,
          Repo_update_file r' (path p) (message p) (content p) s
            (CreateOrUpdateFileParams.branch p)]"
    using create_or_update_file_calls
      [of gh ?log1 "p\<lparr>CreateOrUpdateFileParams.sha := Some s\<rparr>" r'] h
    by (cases s) auto
  show "snd (create_or_update_file gh (p\<lparr>CreateOrUpdateFileParams.sha := Some s\<rparr>)
             (snd (create_or_update_file gh (p\<lparr>CreateOrUpdateFileParams.sha := None\<rparr>) log)))
      = log @ [Get_repo ?n,
               Repo_create_file r (path p) (message p) (content p)
                 (CreateOrUpdateFileParams.branch p),
               Get_repo ?n,
               Repo_update_file r' (path p) (message p) (content p) s
                 (CreateOrUpdateFileParams.branch p)]"
    unfolding first second by simp
qed

theorem create_or_update_file_dispatch_witness:
  "request_object stub_gh [] (Get_repo ''acme/widgets'') = Inr repo1
   \<and> snd (create_or_update_file stub_gh (file_params None) [])
       = [Get_repo ''acme/widgets'',
          Repo_create_file repo1 ''README.md'' ''add readme'' ''hello'' ''main'']
   \<and> snd (create_or_update_file stub_gh (file_params (Some ''3f2a'')) [])
       = [Get_repo ''acme/widgets'',
          Repo_update_file repo1 ''README.md'' ''add readme'' ''hello'' ''3f2a'' ''main'']
   \<and> snd (create_or_update_file stub_gh (file_params (Some ''3f2a''))
            (snd (create_or_update_file stub_gh (file_params None) [])))
       = [Get_repo ''acme/widgets'',
          Repo_create_file repo1 ''README.md'' ''add readme'' ''hello'' ''main'',
          Get_repo ''acme/widgets'',
          Repo_update_file repo1 ''README.md'' ''add readme'' ''hello'' ''3f2a'' ''main'']"
proof -
  have g: "\<And>log. request_object stub_gh log (Get_repo ''acme/widgets'') = Inr repo1"
    by (simp add: stub_gh_def)
  have n: "\<And>s. CreateOrUpdateFileParams.owner (file_params s) @ ''/''
        @ CreateOrUpdateFileParams.repo (file_params s) = ''acme/widgets''"
    by (simp add: file_params_def)
  have upd: "file_params (Some ''3f2a'')
      = (file_params None)\<lparr>CreateOrUpdateFileParams.sha := Some ''3f2a''\<rparr>"
    "file_params None = (file_params None)\<lparr>CreateOrUpdateFileParams.sha := None\<rparr>"
    by (simp_all add: file_params_def)
  have a: "snd (create_or_update_file stub_gh (file_params None) [])
       = [Get_repo ''acme/widgets'',
          Repo_create_file repo1 ''README.md'' ''add readme'' ''hello'' ''main'']"
    using create_or_update_file_dispatch [of stub_gh "[]" "file_params None" repo1, THEN conjunct1]
    by (simp add: file_params_def stub_gh_def)
  have b: "snd (create_or_update_file stub_gh (file_params (Some ''3f2a'')) [])
       = [Get_repo ''acme/widgets'',
          Repo_update_file repo1 ''README.md'' ''add readme'' ''hello'' ''3f2a'' ''main'']"
    using create_or_update_file_dispatch
      [of stub_gh "[]" "file_params (Some ''3f2a'')" repo1, THEN conjunct2, THEN conjunct1]
    by (simp add: file_params_def stub_gh_def)
  have c: "snd (create_or_update_file stub_gh
              ((file_params None)\<lparr>CreateOrUpdateFileParams.sha := Some ''3f2a''\<rparr>)
            (snd (create_or_update_file stub_gh
              ((file_params None)\<lparr>CreateOrUpdateFileParams.sha := None\<rparr>) [])))
       = [Get_repo ''acme/widgets'',
          Repo_create_file repo1 ''README.md'' ''add readme'' ''hello'' ''main'',
          Get_repo ''acme/widgets'',
          Repo_update_file repo1 ''README.md'' ''add readme'' ''hello'' ''3f2a'' ''main'']"
    using create_or_update_file_dispatch
      [of stub_gh "[]" "file_params None" repo1, THEN conjunct2, THEN conjunct2]
    by (simp add: file_params_def stub_gh_def)
  from a b c g show ?thesis
    by (simp add: upd [symmetric])
qed

text \<open>
  Claim C3, as stated, fails: there is no retry. Against a platform that is rate
  limited on the first call and would answer the second, \<open>get_commit\<close> calls the
  platform once and returns the error text.
\<close>

theorem get_commit_rate_limited_once:
  "get_commit flaky_gh commit_params []
     = (Inr (Content (Plain ''Error: API rate limit exceeded'')), [Get_repo ''acme/widgets''])
   \<and> request_object flaky_gh [Get_repo ''acme/widgets''] (Get_repo ''acme/widgets'')
     = Inr repo1"
  by (simp add: get_commit_def get_commit_steps_def error_text_def run_defs flaky_gh_def stub_gh_def
      commit_params_def rate_limited_def)

lemma get_commit_once:
  "\<exists>new. snd (get_commit gh p log) = log @ new \<and> distinct new
     \<and> no_call_after_failure gh log new"
  using get_commit_run [of gh p log] by blast

lemma list_commits_once:
  "\<exists>new. snd (list_commits gh p log) = log @ new \<and> distinct new
     \<and> no_call_after_failure gh log new"
  using list_commits_run [of gh p log] by blast

lemma list_branches_once:
  "\<exists>new. snd (list_branches gh p log) = log @ new \<and> distinct new
     \<and> no_call_after_failure gh log new"
  using list_branches_run [of gh p log] by blast

lemma create_or_update_file_once:
  "\<exists>new. snd (create_or_update_file gh p log) = log @ new \<and> distinct new
     \<and> no_call_after_failure gh log new"
  using create_or_update_file_run [of gh p log] by blast

lemma create_repository_once:
  "\<exists>new. snd (create_repository gh p log) = log @ new \<and> distinct new
     \<and> no_call_after_failure gh log new"
  using create_repository_run [of gh p log] by blast

lemma fork_repository_once:
  "\<exists>new. snd (fork_repository gh p log) = log @ new \<and> distinct new
     \<and> no_call_after_failure gh log new"
  using fork_repository_run [of gh p log] by blast

lemma search_repositories_once:
  "\<exists>new. snd (search_repositories gh p log) = log @ new \<and> distinct new
     \<and> no_call_after_failure gh log new"
  using search_repositories_run [of gh p log] by blast

lemma search_code_once:
  "\<exists>new. snd (search_code gh p log) = log @ new \<and> distinct new
     \<and> no_call_after_failure gh log new"
  using search_code_run [of gh p log] by blast

lemma search_users_once:
  "\<exists>new. snd (search_users gh p log) = log @ new \<and> distinct new
     \<and> no_call_after_failure gh log new"
  using search_users_run [of gh p log] by blast

lemma get_pull_request_once:
  "\<exists>new. snd (get_pull_request gh p log) = log @ new \<and> distinct new
     \<and> no_call_after_failure gh log new"
  using get_pull_request_run [of gh p log] by blast

lemma update_pull_request_once:
  "\<exists>new. snd (update_pull_request gh p log) = log @ new \<and> distinct new
     \<and> no_call_after_failure gh log new"
  using update_pull_request_run [of gh p log] by blast

lemma list_pull_requests_once:
  "\<exists>new. snd (list_pull_requests gh p log) = log @ new \<and> distinct new
     \<and> no_call_after_failure gh log new"
  using list_pull_requests_run [of gh p log] by blast

lemma merge_pull_request_once:
  "\<exists>new. snd (merge_pull_request gh p log) = log @ new \<and> distinct new
     \<and> no_call_after_failure gh log new"
  using merge_pull_request_run [of gh p log] by blast

lemma get_pull_request_files_once:
  "\<exists>new. snd (get_pull_request_files gh p log) = log @ new \<and> distinct new
     \<and> no_call_after_failure gh log new"
  using get_pull_request_files_run [of gh p log] by blast

lemma get_pull_request_status_once:
  "\<exists>new. snd (get_pull_request_status gh p log) = log @ new \<and> distinct new
     \<and> no_call_after_failure gh log new"
  using get_pull_request_status_run [of gh p log] by blast

lemma get_issue_once:
  "\<exists>new. snd (get_issue gh p log) = log @ new \<and> distinct new
     \<and> no_call_after_failure gh log new"
  using get_issue_run [of gh p log] by blast

lemma add_issue_comment_once:
  "\<exists>new. snd (add_issue_comment gh p log) = log @ new \<and> distinct new
     \<and> no_call_after_failure gh log new"
  using add_issue_comment_run [of gh p log] by blast

lemma search_issues_once:
  "\<exists>new. snd (search_issues gh p log) = log @ new \<and> distinct new
     \<and> no_call_after_failure gh log new"
  using search_issues_run [of gh p log] by blast

lemma create_issue_once:
  "\<exists>new. snd (create_issue gh p log) = log @ new \<and> distinct new
     \<and> no_call_after_failure gh log new"
  using create_issue_run [of gh p log] by blast

lemma list_issues_once:
  "\<exists>new. snd (list_issues gh p log) = log @ new \<and> distinct new
     \<and> no_call_after_failure gh log new"
  using list_issues_run [of gh p log] by blast

lemma get_issue_comments_once:
  "\<exists>new. snd (get_issue_comments gh p log) = log @ new \<and> distinct new
     \<and> no_call_after_failure gh log new"
  using get_issue_comments_run [of gh p log] by blast

lemma get_repo_once:
  "\<exists>new. snd (get_repo gh ow nm log) = log @ new \<and> distinct new
     \<and> no_call_after_failure gh log new"
  using get_repo_run [of gh ow nm log] by blast

lemma lookup_failures_surface:
  "(request_object gh log
      (Get_repo (GetCommitParams.owner p @ ''/'' @ GetCommitParams.repo p)) = Inl e \<longrightarrow>
    get_commit gh p log
      = (Inr (error_text e),
         log @ [Get_repo (GetCommitParams.owner p @ ''/'' @ GetCommitParams.repo p)]))
   \<and> (request_object gh log
        (Get_repo (GetCommitParams.owner p @ ''/'' @ GetCommitParams.repo p)) = Inr r \<longrightarrow>
      request_object gh
        (log @ [Get_repo (GetCommitParams.owner p @ ''/'' @ GetCommitParams.repo p)])
        (Repo_get_commit r (JStr (GetCommitParams.sha p))) = Inl e \<longrightarrow>
      get_commit gh p log
        = (Inr (error_text e),
           log @ [Get_repo (GetCommitParams.owner p @ ''/'' @ GetCommitParams.repo p),
                  Repo_get_commit r (JStr (GetCommitParams.sha p))]))
   \<and> (request_object gh log (Get_user (Some ow)) = Inl e \<longrightarrow>
      get_repo gh ow nm log
        = (if isinstance_GithubException e then Inr None else Inl e,
           log @ [Get_user (Some ow)]))
   \<and> (request_object gh log (Get_user (Some ow)) = Inr u \<longrightarrow>
      request_object gh (log @ [Get_user (Some ow)]) (User_get_repo u nm) = Inl e \<longrightarrow>
      get_repo gh ow nm log
        = (if isinstance_GithubException e then Inr None else Inl e,
           log @ [Get_user (Some ow), User_get_repo u nm]))"
  by (simp add: get_commit_def get_commit_steps_def get_repo_result run_defs)

text \<open>
  Claim C3, amended. No upstream call is retried, whatever the failure. When the
  repository lookup of \<open>get_commit\<close> raises, the tool has made exactly that one call
  and returns the error text of the exception; likewise when the commit lookup raises
  after the repository resolved. The helper \<open>get_repo\<close> of the pull-request tools
  makes each of its two lookups once and, on an exception, returns \<^verbatim>\<open>None\<close> for a
  \<^verbatim>\<open>GithubException\<close> and lets any other exception through. And for every tool,
  and for \<open>get_repo\<close>: the calls of one invocation are pairwise distinct, so none is
  made a second time, and a call answered with an exception is the last call of the
  invocation.
\<close>

theorem upstream_failure_never_retried:
  "(request_object gh log
      (Get_repo (GetCommitParams.owner p @ ''/'' @ GetCommitParams.repo p)) = Inl e \<longrightarrow>
    get_commit gh p log
      = (Inr (error_text e),
         log @ [Get_repo (GetCommitParams.owner p @ ''/'' @ GetCommitParams.repo p)]))
   \<and> (request_object gh log
        (Get_repo (GetCommitParams.owner p @ ''/'' @ GetCommitParams.repo p)) = Inr r \<longrightarrow>
      request_object gh
        (log @ [Get_repo (GetCommitParams.owner p @ ''/'' @ GetCommitParams.repo p)])
        (Repo_get_commit r (JStr (GetCommitParams.sha p))) = Inl e \<longrightarrow>
      get_commit gh p log
        = (Inr (error_text e),
           log @ [Get_repo (GetCommitParams.owner p @ ''/'' @ GetCommitParams.repo p),
                  Repo_get_commit r (JStr (GetCommitParams.sha p))]))
   \<and> (request_object gh log (Get_user (Some ow)) = Inl e \<longrightarrow>
      get_repo gh ow nm log
        = (if isinstance_GithubException e then Inr None else Inl e,
           log @ [Get_user (Some ow)]))
   \<and> (request_object gh log (Get_user (Some ow)) = Inr u \<longrightarrow>
      request_object gh (log @ [Get_user (Some ow)]) (User_get_repo u nm) = Inl e \<longrightarrow>
      get_repo gh ow nm log
        = (if isinstance_GithubException e then Inr None else Inl e,
           log @ [Get_user (Some ow), User_get_repo u nm]))
   \<and> (\<exists>new. snd (get_commit gh a1 log) = log @ new \<and> distinct new
         \<and> no_call_after_failure gh log new)
   \<and> (\<exists>new. snd (list_commits gh a2 log) = log @ new \<and> distinct new
         \<and> no_call_after_failure gh log new)
   \<and> (\<exists>new. snd (list_branches gh a3 log) = log @ new \<and> distinct new
         \<and> no_call_after_failure gh log new)
   \<and> (\<exists>new. snd (create_or_update_file gh a4 log) = log @ new \<and> distinct new
         \<and> no_call_after_failure gh log new)
   \<and> (\<exists>new. snd (create_repository gh a5 log) = log @ new \<and> distinct new
         \<and> no_call_after_failure gh log new)
   \<and> (\<exists>new. snd (fork_repository gh a6 log) = log @ new \<and> distinct new
         \<and> no_call_after_failure gh log new)
   \<and> (\<exists>new. snd (search_repositories gh b1 log) = log @ new \<and> distinct new
         \<and> no_call_after_failure gh log new)
   \<and> (\<exists>new. snd (search_code gh b2 log) = log @ new \<and> distinct new
         \<and> no_call_after_failure gh log new)
   \<and> (\<exists>new. snd (search_users gh b3 log) = log @ new \<and> distinct new
         \<and> no_call_after_failure gh log new)
   \<and> (\<exists>new. snd (get_pull_request gh b4 log) = log @ new \<and> distinct new
         \<and> no_call_after_failure gh log new)
   \<and> (\<exists>new. snd (update_pull_request gh b5 log) = log @ new \<and> distinct new
         \<and> no_call_after_failure gh log new)
   \<and> (\<exists>new. snd (list_pull_requests gh b6 log) = log @ new \<and> distinct new
         \<and> no_call_after_failure gh log new)
   \<and> (\<exists>new. snd (merge_pull_request gh b7 log) = log @ new \<and> distinct new
         \<and> no_call_after_failure gh log new)
   \<and> (\<exists>new. snd (get_pull_request_files gh b8 log) = log @ new \<and> distinct new
         \<and> no_call_after_failure gh log new)
   \<and> (\<exists>new. snd (get_pull_request_status gh b9 log) = log @ new \<and> distinct new
         \<and> no_call_after_failure gh log new)
   \<and> (\<exists>new. snd (get_issue gh c1 log) = log @ new \<and> distinct new
         \<and> no_call_after_failure gh log new)
   \<and> (\<exists>new. snd (add_issue_comment gh c2 log) = log @ new \<and> distinct new
         \<and> no_call_after_failure gh log new)
   \<and> (\<exists>new. snd (search_issues gh c3 log) = log @ new \<and> distinct new
         \<and> no_call_after_failure gh log new)
   \<and> (\<exists>new. snd (create_issue gh c4 log) = log @ new \<and> distinct new
         \<and> no_call_after_failure gh log new)
   \<and> (\<exists>new. snd (list_issues gh c5 log) = log @ new \<and> distinct new
         \<and> no_call_after_failure gh log new)
   \<and> (\<exists>new. snd (get_issue_comments gh c6 log) = log @ new \<and> distinct new
         \<and> no_call_after_failure gh log new)
   \<and> (\<exists>new. snd (get_repo gh ow nm log) = log @ new \<and> distinct new
         \<and> no_call_after_failure gh log new)"
proof -
  note old = lookup_failures_surface [of gh log p e r ow nm u]
  show ?thesis
    by (intro conjI old [THEN conjunct1] old [THEN conjunct2, THEN conjunct1]
        old [THEN conjunct2, THEN conjunct2, THEN conjunct1]
        old [THEN conjunct2, THEN conjunct2, THEN conjunct2]
        get_commit_once list_commits_once list_branches_once
        create_or_update_file_once create_repository_once fork_repository_once
        search_repositories_once search_code_once search_users_once
        get_pull_request_once update_pull_request_once list_pull_requests_once
        merge_pull_request_once get_pull_request_files_once get_pull_request_status_once
        get_issue_once add_issue_comment_once search_issues_once
        create_issue_once list_issues_once get_issue_comments_once get_repo_once)
qed

theorem upstream_failure_never_retried_witness:
  "request_object flaky_gh [] (Get_repo ''acme/widgets'') = Inl rate_limited
   \<and> get_commit flaky_gh commit_params []
       = (Inr (error_text rate_limited), [Get_repo ''acme/widgets''])
   \<and> request_object missing_leaf_gh [] (Get_repo ''acme/widgets'') = Inr repo1
   \<and> request_object missing_leaf_gh [Get_repo ''acme/widgets'']
        (Repo_get_commit repo1 (JStr ''abc123'')) = Inl not_found_error
   \<and> get_commit missing_leaf_gh commit_params []
       = (Inr (error_text not_found_error),
          [Get_repo ''acme/widgets'', Repo_get_commit repo1 (JStr ''abc123'')])
   \<and> request_object flaky_gh [] (Get_user (Some ''acme'')) = Inl rate_limited
   \<and> get_repo flaky_gh ''acme'' ''widgets'' [] = (Inr None, [Get_user (Some ''acme'')])
   \<and> request_object missing_leaf_gh [] (Get_user (Some ''acme'')) = Inr repo1
   \<and> request_object missing_leaf_gh [Get_user (Some ''acme'')] (User_get_repo repo1 ''widgets'')
       = Inl not_found_error
   \<and> get_repo missing_leaf_gh ''acme'' ''widgets'' []
       = (Inr None, [Get_user (Some ''acme''), User_get_repo repo1 ''widgets''])"
proof -
  have p: "GetCommitParams.owner commit_params @ ''/'' @ GetCommitParams.repo commit_params
      = ''acme/widgets''" "GetCommitParams.sha commit_params = ''abc123''"
    by (simp_all add: commit_params_def)
  have f: "request_object flaky_gh [] (Get_repo ''acme/widgets'') = Inl rate_limited"
    "request_object flaky_gh [] (Get_user (Some ''acme'')) = Inl rate_limited"
    by (simp_all add: flaky_gh_def)
  have m: "request_object missing_leaf_gh [] (Get_repo ''acme/widgets'') = Inr repo1"
    "request_object missing_leaf_gh [Get_repo ''acme/widgets'']
        (Repo_get_commit repo1 (JStr ''abc123'')) = Inl not_found_error"
    "request_object missing_leaf_gh [] (Get_user (Some ''acme'')) = Inr repo1"
    "request_object missing_leaf_gh [Get_user (Some ''acme'')] (User_get_repo repo1 ''widgets'')
       = Inl not_found_error"
    by (simp_all add: missing_leaf_gh_def)
  have g: "isinstance_GithubException rate_limited" "isinstance_GithubException not_found_error"
    by (simp_all add: isinstance_GithubException_def rate_limited_def not_found_error_def)
  have a: "get_commit flaky_gh commit_params []
       = (Inr (error_text rate_limited), [Get_repo ''acme/widgets''])"
    using upstream_failure_never_retried
      [of flaky_gh "[]" commit_params rate_limited, THEN conjunct1] f p by simp
  have b: "get_commit missing_leaf_gh commit_params []
       = (Inr (error_text not_found_error),
          [Get_repo ''acme/widgets'', Repo_get_commit repo1 (JStr ''abc123'')])"
    using upstream_failure_never_retried
      [of missing_leaf_gh "[]" commit_params not_found_error repo1,
        THEN conjunct2, THEN conjunct1] m p by simp
  have c: "get_repo flaky_gh ''acme'' ''widgets'' [] = (Inr None, [Get_user (Some ''acme'')])"
    using upstream_failure_never_retried
      [of flaky_gh "[]" commit_params rate_limited repo1 "''acme''" "''widgets''",
        THEN conjunct2, THEN conjunct2, THEN conjunct1] f g by simp
  have d: "get_repo missing_leaf_gh ''acme'' ''widgets'' []
       = (Inr None, [Get_user (Some ''acme''), User_get_repo repo1 ''widgets''])"
    using upstream_failure_never_retried
      [of missing_leaf_gh "[]" commit_params not_found_error repo1 "''acme''" "''widgets''" repo1,
        THEN conjunct2, THEN conjunct2, THEN conjunct2, THEN conjunct1] m g by simp
  from a b c d f m show ?thesis by simp
qed














text \<open>
  Claim C2, as stated, fails: the issue tools have no handler. When the platform does
  not know the repository, the exception of the lookup leaves \<open>get_issue\<close> as it is.
\<close>

theorem get_issue_lets_exception_escape:
  "get_issue missing_gh issue_params [] = (Inl not_found_error, [Get_repo ''acme/widgets''])
   \<and> isinstance_GithubException not_found_error"
  by (simp add: get_issue_def run_defs missing_gh_def stub_gh_def issue_params_def
      isinstance_GithubException_def not_found_error_def)

lemma get_commit_rendered: "\<exists>t. fst (get_commit gh p log) = Inr (Content t)"
  by (simp add: get_commit_def get_commit_steps_def error_text_def run_defs split: sum.splits prod.splits)

lemma list_commits_rendered: "\<exists>t. fst (list_commits gh p log) = Inr (Content t)"
  by (simp add: list_commits_def list_commits_steps_def error_text_def run_defs split: sum.splits prod.splits)

lemma list_branches_rendered: "\<exists>t. fst (list_branches gh p log) = Inr (Content t)"
  by (simp add: list_branches_def list_branches_steps_def error_text_def run_defs split: sum.splits prod.splits)

lemma create_or_update_file_rendered:
  "\<exists>t. fst (create_or_update_file gh p log) = Inr (Content t)"
  by (simp add: create_or_update_file_def create_or_update_file_steps_def error_text_def run_defs
      split: sum.splits prod.splits option.splits list.splits)

lemma create_repository_rendered: "\<exists>t. fst (create_repository gh p log) = Inr (Content t)"
  by (simp add: create_repository_def create_repository_steps_def error_text_def run_defs split: sum.splits prod.splits)

lemma fork_repository_rendered: "\<exists>t. fst (fork_repository gh p log) = Inr (Content t)"
  by (simp add: fork_repository_def fork_repository_steps_def error_text_def run_defs
      split: sum.splits prod.splits option.splits list.splits)

lemma push_to_github_rendered: "\<exists>t. fst (push_to_github f p fs) = Content t"
proof (cases "fs (repo_path p)")
  case None
  then show ?thesis by (simp add: push_to_github_result)
next
  case (Some w)
  show ?thesis
  proof (cases "fst (push_steps f (remote_url p)
      (or_default (Some (GitPushLocalTOGIT.branch p)) ''main'')
      (or_default (commit_msg p) ''Initial commit'') w)")
    case (Inl e)
    with Some show ?thesis by (simp add: push_to_github_result)
  next
    case (Inr v)
    then have "\<exists>t. v = Content t"
      by (auto simp: push_steps_def publish_def run_defs git_do_def
          split: sum.splits prod.splits option.splits if_splits)
    with Some Inr show ?thesis by (auto simp: push_to_github_result)
  qed
qed

lemma search_repositories_escape:
  "fst (search_repositories gh p log) = Inl e \<Longrightarrow> \<not> isinstance_GithubException e"
  by (auto simp: search_repositories_def search_repositories_steps_def search_error_def run_defs
      split: sum.splits prod.splits if_splits)

lemma search_code_escape:
  "fst (search_code gh p log) = Inl e \<Longrightarrow> \<not> isinstance_GithubException e"
  by (auto simp: search_code_def search_code_steps_def search_error_def run_defs
      split: sum.splits prod.splits if_splits)

lemma search_users_escape:
  "fst (search_users gh p log) = Inl e \<Longrightarrow> \<not> isinstance_GithubException e"
  by (auto simp: search_users_def search_users_steps_def search_error_def run_defs
      split: sum.splits prod.splits if_splits)

lemma get_repo_escape:
  "fst (get_repo gh ow nm log) = Inl e \<Longrightarrow> \<not> isinstance_GithubException e"
  by (auto simp: get_repo_result split: sum.splits if_splits)

lemma with_repo_escape:
  assumes "\<And>r l e. fst (k r l) = Inl e \<Longrightarrow> \<not> isinstance_GithubException e"
    and "fst (and_then (get_repo gh ow nm)
           (\<lambda>repo. case repo of None \<Rightarrow> returns not_found | Some r \<Rightarrow> k r) log) = Inl e"
  shows "\<not> isinstance_GithubException e"
proof (cases "get_repo gh ow nm log")
  case (Pair res l)
  show ?thesis
  proof (cases res)
    case (Inl e')
    with Pair assms(2) have "fst (get_repo gh ow nm log) = Inl e"
      by (simp add: and_then_def)
    then show ?thesis by (rule get_repo_escape)
  next
    case (Inr found)
    show ?thesis
    proof (cases found)
      case None
      with Pair Inr assms(2) show ?thesis by (simp add: and_then_def returns_def)
    next
      case (Some r)
      with Pair Inr assms(2) have "fst (k r l) = Inl e" by (simp add: and_then_def)
      then show ?thesis by (rule assms(1))
    qed
  qed
qed

lemma except_GithubException_escape:
  "fst (except_GithubException m (\<lambda>e. returns (error_text e)) l) = Inl e \<Longrightarrow>
   \<not> isinstance_GithubException e"
  by (auto simp: except_GithubException_def returns_def split: sum.splits prod.splits if_splits)

lemma get_pull_request_escape:
  "fst (get_pull_request gh p log) = Inl e \<Longrightarrow> \<not> isinstance_GithubException e"
  unfolding get_pull_request_def get_pull_request_steps_def
  by (erule with_repo_escape [rotated]) (erule except_GithubException_escape)

lemma update_pull_request_escape:
  "fst (update_pull_request gh p log) = Inl e \<Longrightarrow> \<not> isinstance_GithubException e"
  unfolding update_pull_request_def update_pull_request_steps_def
  by (erule with_repo_escape [rotated]) (erule except_GithubException_escape)

lemma list_pull_requests_escape:
  "fst (list_pull_requests gh p log) = Inl e \<Longrightarrow> \<not> isinstance_GithubException e"
  unfolding list_pull_requests_def list_pull_requests_steps_def
  by (erule with_repo_escape [rotated]) (erule except_GithubException_escape)

lemma merge_pull_request_escape:
  "fst (merge_pull_request gh p log) = Inl e \<Longrightarrow> \<not> isinstance_GithubException e"
  unfolding merge_pull_request_def merge_pull_request_steps_def
  by (erule with_repo_escape [rotated]) (erule except_GithubException_escape)

lemma get_pull_request_files_escape:
  "fst (get_pull_request_files gh p log) = Inl e \<Longrightarrow> \<not> isinstance_GithubException e"
  unfolding get_pull_request_files_def get_pull_request_files_steps_def
  by (erule with_repo_escape [rotated]) (erule except_GithubException_escape)

lemma get_pull_request_status_escape:
  "fst (get_pull_request_status gh p log) = Inl e \<Longrightarrow> \<not> isinstance_GithubException e"
  unfolding get_pull_request_status_def get_pull_request_status_steps_def
  by (erule with_repo_escape [rotated]) (erule except_GithubException_escape)

lemma get_issue_propagates:
  "request_object gh log (Get_repo (IssueParams.owner p @ ''/'' @ IssueParams.repo p)) = Inl e
   \<Longrightarrow> fst (get_issue gh p log) = Inl e"
  by (simp add: get_issue_def run_defs)

lemma add_issue_comment_propagates:
  "request_object gh log (Get_repo (IssueParams.owner p @ ''/'' @ IssueParams.repo p)) = Inl e
   \<Longrightarrow> fst (add_issue_comment gh p log) = Inl e"
  by (simp add: add_issue_comment_def run_defs)

lemma search_issues_propagates:
  "request_list gh log
     (Search_issues (SearchParams.q p) (SearchParams.sort p) (SearchParams.order p)) = Inl e
   \<Longrightarrow> fst (search_issues gh p log) = Inl e"
  by (simp add: search_issues_def run_defs)

lemma create_issue_propagates:
  "request_object gh log
     (Get_repo (CreateIssueParams.owner p @ ''/'' @ CreateIssueParams.repo p)) = Inl e
   \<Longrightarrow> fst (create_issue gh p log) = Inl e"
  by (simp add: create_issue_def run_defs)

lemma list_issues_propagates:
  "request_object gh log
     (Get_repo (ListIssuesParams.owner p @ ''/'' @ ListIssuesParams.repo p)) = Inl e
   \<Longrightarrow> fst (list_issues gh p log) = Inl e"
  by (simp add: list_issues_def run_defs)

lemma get_issue_comments_propagates:
  "request_object gh log (Get_repo (IssueParams.owner p @ ''/'' @ IssueParams.repo p)) = Inl e
   \<Longrightarrow> fst (get_issue_comments gh p log) = Inl e"
  by (simp add: get_issue_comments_def run_defs)

lemma get_commit_handler:
  "get_commit gh p log
        = (case get_commit_steps gh p log of
             (Inl e, l) \<Rightarrow> (Inr (Content (Plain (''Error: '' @ str e))), l)
           | (Inr v, l) \<Rightarrow> (Inr v, l))"
  by (simp add: get_commit_def except_Exception_def returns_def error_text_def
      split: prod.splits sum.splits)

lemma list_commits_handler:
  "list_commits gh p log
        = (case list_commits_steps gh p log of
             (Inl e, l) \<Rightarrow> (Inr (Content (Plain (''Error: '' @ str e))), l)
           | (Inr v, l) \<Rightarrow> (Inr v, l))"
  by (simp add: list_commits_def except_Exception_def returns_def error_text_def
      split: prod.splits sum.splits)

lemma list_branches_handler:
  "list_branches gh p log
        = (case list_branches_steps gh p log of
             (Inl e, l) \<Rightarrow> (Inr (Content (Plain (''Error: '' @ str e))), l)
           | (Inr v, l) \<Rightarrow> (Inr v, l))"
  by (simp add: list_branches_def except_Exception_def returns_def error_text_def
      split: prod.splits sum.splits)

lemma create_or_update_file_handler:
  "create_or_update_file gh p log
        = (case create_or_update_file_steps gh p log of
             (Inl e, l) \<Rightarrow> (Inr (Content (Plain (''Error: '' @ str e))), l)
           | (Inr v, l) \<Rightarrow> (Inr v, l))"
  by (simp add: create_or_update_file_def except_Exception_def returns_def error_text_def
      split: prod.splits sum.splits)

lemma create_repository_handler:
  "create_repository gh p log
        = (case create_repository_steps gh p log of
             (Inl e, l) \<Rightarrow> (Inr (Content (Plain (''Error: '' @ str e))), l)
           | (Inr v, l) \<Rightarrow> (Inr v, l))"
  by (simp add: create_repository_def except_Exception_def returns_def error_text_def
      split: prod.splits sum.splits)

lemma fork_repository_handler:
  "fork_repository gh p log
        = (case fork_repository_steps gh p log of
             (Inl e, l) \<Rightarrow> (Inr (Content (Plain (''Error: '' @ str e))), l)
           | (Inr v, l) \<Rightarrow> (Inr v, l))"
  by (simp add: fork_repository_def except_Exception_def returns_def error_text_def
      split: prod.splits sum.splits)

lemma search_repositories_handler:
  "search_repositories gh p log
        = (case search_repositories_steps gh p log of
             (Inl e, l) \<Rightarrow>
               (if isinstance_GithubException e then Inr (Dict [(''error'', JStr (str e))])
                else Inl e, l)
           | (Inr v, l) \<Rightarrow> (Inr v, l))"
  by (simp add: search_repositories_def except_GithubException_def returns_def search_error_def
      split: prod.splits sum.splits)

lemma search_code_handler:
  "search_code gh p log
        = (case search_code_steps gh p log of
             (Inl e, l) \<Rightarrow>
               (if isinstance_GithubException e then Inr (Dict [(''error'', JStr (str e))])
                else Inl e, l)
           | (Inr v, l) \<Rightarrow> (Inr v, l))"
  by (simp add: search_code_def except_GithubException_def returns_def search_error_def
      split: prod.splits sum.splits)

lemma search_users_handler:
  "search_users gh p log
        = (case search_users_steps gh p log of
             (Inl e, l) \<Rightarrow>
               (if isinstance_GithubException e then Inr (Dict [(''error'', JStr (str e))])
                else Inl e, l)
           | (Inr v, l) \<Rightarrow> (Inr v, l))"
  by (simp add: search_users_def except_GithubException_def returns_def search_error_def
      split: prod.splits sum.splits)

lemma get_pull_request_handler:
  "get_pull_request gh p log
        = (case get_repo gh (GetPullRequestInput.owner p) (GetPullRequestInput.repo p) log of
             (Inl e, l) \<Rightarrow> (Inl e, l)
           | (Inr None, l) \<Rightarrow> (Inr (Content (Plain ''Repository not found.'')), l)
           | (Inr (Some r), l) \<Rightarrow>
               (case get_pull_request_steps gh p r l of
                  (Inl e, l') \<Rightarrow>
                    (if isinstance_GithubException e
                     then Inr (Content (Plain (''Error: '' @ str e))) else Inl e, l')
                | (Inr v, l') \<Rightarrow> (Inr v, l')))"
  by (simp add: get_pull_request_def and_then_def except_GithubException_def returns_def
      error_text_def not_found_def split: prod.splits sum.splits option.splits)

lemma update_pull_request_handler:
  "update_pull_request gh p log
        = (case get_repo gh (GetPullRequestInput.owner p) (GetPullRequestInput.repo p) log of
             (Inl e, l) \<Rightarrow> (Inl e, l)
           | (Inr None, l) \<Rightarrow> (Inr (Content (Plain ''Repository not found.'')), l)
           | (Inr (Some r), l) \<Rightarrow>
               (case update_pull_request_steps gh p r l of
                  (Inl e, l') \<Rightarrow>
                    (if isinstance_GithubException e
                     then Inr (Content (Plain (''Error: '' @ str e))) else Inl e, l')
                | (Inr v, l') \<Rightarrow> (Inr v, l')))"
  by (simp add: update_pull_request_def and_then_def except_GithubException_def returns_def
      error_text_def not_found_def split: prod.splits sum.splits option.splits)

lemma list_pull_requests_handler:
  "list_pull_requests gh p log
        = (case get_repo gh (ListPullRequestsInput.owner p) (ListPullRequestsInput.repo p) log of
             (Inl e, l) \<Rightarrow> (Inl e, l)
           | (Inr None, l) \<Rightarrow> (Inr (Content (Plain ''Repository not found.'')), l)
           | (Inr (Some r), l) \<Rightarrow>
               (case list_pull_requests_steps gh p r l of
                  (Inl e, l') \<Rightarrow>
                    (if isinstance_GithubException e
                     then Inr (Content (Plain (''Error: '' @ str e))) else Inl e, l')
                | (Inr v, l') \<Rightarrow> (Inr v, l')))"
  by (simp add: list_pull_requests_def and_then_def except_GithubException_def returns_def
      error_text_def not_found_def split: prod.splits sum.splits option.splits)

lemma merge_pull_request_handler:
  "merge_pull_request gh p log
        = (case get_repo gh (GetPullRequestInput.owner p) (GetPullRequestInput.repo p) log of
             (Inl e, l) \<Rightarrow> (Inl e, l)
           | (Inr None, l) \<Rightarrow> (Inr (Content (Plain ''Repository not found.'')), l)
           | (Inr (Some r), l) \<Rightarrow>
               (case merge_pull_request_steps gh p r l of
                  (Inl e, l') \<Rightarrow>
                    (if isinstance_GithubException e
                     then Inr (Content (Plain (''Error: '' @ str e))) else Inl e, l')
                | (Inr v, l') \<Rightarrow> (Inr v, l')))"
  by (simp add: merge_pull_request_def and_then_def except_GithubException_def returns_def
      error_text_def not_found_def split: prod.splits sum.splits option.splits)

lemma get_pull_request_files_handler:
  "get_pull_request_files gh p log
        = (case get_repo gh (GetPullRequestInput.owner p) (GetPullRequestInput.repo p) log of
             (Inl e, l) \<Rightarrow> (Inl e, l)
           | (Inr None, l) \<Rightarrow> (Inr (Content (Plain ''Repository not found.'')), l)
           | (Inr (Some r), l) \<Rightarrow>
               (case get_pull_request_files_steps gh p r l of
                  (Inl e, l') \<Rightarrow>
                    (if isinstance_GithubException e
                     then Inr (Content (Plain (''Error: '' @ str e))) else Inl e, l')
                | (Inr v, l') \<Rightarrow> (Inr v, l')))"
  by (simp add: get_pull_request_files_def and_then_def except_GithubException_def returns_def
      error_text_def not_found_def split: prod.splits sum.splits option.splits)

lemma get_pull_request_status_handler:
  "get_pull_request_status gh p log
        = (case get_repo gh (GetPullRequestInput.owner p) (GetPullRequestInput.repo p) log of
             (Inl e, l) \<Rightarrow> (Inl e, l)
           | (Inr None, l) \<Rightarrow> (Inr (Content (Plain ''Repository not found.'')), l)
           | (Inr (Some r), l) \<Rightarrow>
               (case get_pull_request_status_steps gh p r l of
                  (Inl e, l') \<Rightarrow>
                    (if isinstance_GithubException e
                     then Inr (Content (Plain (''Error: '' @ str e))) else Inl e, l')
                | (Inr v, l') \<Rightarrow> (Inr v, l')))"
  by (simp add: get_pull_request_status_def and_then_def except_GithubException_def returns_def
      error_text_def not_found_def split: prod.splits sum.splits option.splits)

lemma get_commit_surfaced:
  "\<exists>new. snd (get_commit gh p log) = log @ new
         \<and> no_call_after_failure gh log new
         \<and> (\<forall>e. raised_last gh log new = Some e \<longrightarrow>
                fst (get_commit gh p log) = Inr (Content (Plain (''Error: '' @ str e))))"
  using get_commit_run [of gh p log] by blast

lemma list_commits_surfaced:
  "\<exists>new. snd (list_commits gh p log) = log @ new
         \<and> no_call_after_failure gh log new
         \<and> (\<forall>e. raised_last gh log new = Some e \<longrightarrow>
                fst (list_commits gh p log) = Inr (Content (Plain (''Error: '' @ str e))))"
  using list_commits_run [of gh p log] by blast

lemma list_branches_surfaced:
  "\<exists>new. snd (list_branches gh p log) = log @ new
         \<and> no_call_after_failure gh log new
         \<and> (\<forall>e. raised_last gh log new = Some e \<longrightarrow>
                fst (list_branches gh p log) = Inr (Content (Plain (''Error: '' @ str e))))"
  using list_branches_run [of gh p log] by blast

lemma create_or_update_file_surfaced:
  "\<exists>new. snd (create_or_update_file gh p log) = log @ new
         \<and> no_call_after_failure gh log new
         \<and> (\<forall>e. raised_last gh log new = Some e \<longrightarrow>
                fst (create_or_update_file gh p log) = Inr (Content (Plain (''Error: '' @ str e))))"
  using create_or_update_file_run [of gh p log] by blast

lemma create_repository_surfaced:
  "\<exists>new. snd (create_repository gh p log) = log @ new
         \<and> no_call_after_failure gh log new
         \<and> (\<forall>e. raised_last gh log new = Some e \<longrightarrow>
                fst (create_repository gh p log) = Inr (Content (Plain (''Error: '' @ str e))))"
  using create_repository_run [of gh p log] by blast

lemma fork_repository_surfaced:
  "\<exists>new. snd (fork_repository gh p log) = log @ new
         \<and> no_call_after_failure gh log new
         \<and> (\<forall>e. raised_last gh log new = Some e \<longrightarrow>
                fst (fork_repository gh p log) = Inr (Content (Plain (''Error: '' @ str e))))"
  using fork_repository_run [of gh p log] by blast

lemma search_repositories_surfaced:
  "\<exists>new. snd (search_repositories gh p log) = log @ new
         \<and> no_call_after_failure gh log new
         \<and> (\<forall>e. raised_last gh log new = Some e \<longrightarrow>
                fst (search_repositories gh p log) = (if isinstance_GithubException e
                   then Inr (Dict [(''error'', JStr (str e))]) else Inl e))"
  using search_repositories_run [of gh p log] by blast

lemma search_code_surfaced:
  "\<exists>new. snd (search_code gh p log) = log @ new
         \<and> no_call_after_failure gh log new
         \<and> (\<forall>e. raised_last gh log new = Some e \<longrightarrow>
                fst (search_code gh p log) = (if isinstance_GithubException e
                   then Inr (Dict [(''error'', JStr (str e))]) else Inl e))"
  using search_code_run [of gh p log] by blast

lemma search_users_surfaced:
  "\<exists>new. snd (search_users gh p log) = log @ new
         \<and> no_call_after_failure gh log new
         \<and> (\<forall>e. raised_last gh log new = Some e \<longrightarrow>
                fst (search_users gh p log) = (if isinstance_GithubException e
                   then Inr (Dict [(''error'', JStr (str e))]) else Inl e))"
  using search_users_run [of gh p log] by blast

lemma get_pull_request_surfaced:
  "\<exists>new. snd (get_pull_request gh p log) = log @ new
         \<and> no_call_after_failure gh log new
         \<and> (\<forall>e. raised_last gh log new = Some e \<longrightarrow>
                fst (get_pull_request gh p log) = (if isinstance_GithubException e
                   then Inr (Content (Plain (if length new \<le> 2 then ''Repository not found.''
                                             else ''Error: '' @ str e)))
                   else Inl e))"
  using get_pull_request_run [of gh p log] by blast

lemma update_pull_request_surfaced:
  "\<exists>new. snd (update_pull_request gh p log) = log @ new
         \<and> no_call_after_failure gh log new
         \<and> (\<forall>e. raised_last gh log new = Some e \<longrightarrow>
                fst (update_pull_request gh p log) = (if isinstance_GithubException e
                   then Inr (Content (Plain (if length new \<le> 2 then ''Repository not found.''
                                             else ''Error: '' @ str e)))
                   else Inl e))"
  using update_pull_request_run [of gh p log] by blast

lemma list_pull_requests_surfaced:
  "\<exists>new. snd (list_pull_requests gh p log) = log @ new
         \<and> no_call_after_failure gh log new
         \<and> (\<forall>e. raised_last gh log new = Some e \<longrightarrow>
                fst (list_pull_requests gh p log) = (if isinstance_GithubException e
                   then Inr (Content (Plain (if length new \<le> 2 then ''Repository not found.''
                                             else ''Error: '' @ str e)))
                   else Inl e))"
  using list_pull_requests_run [of gh p log] by blast

lemma merge_pull_request_surfaced:
  "\<exists>new. snd (merge_pull_request gh p log) = log @ new
         \<and> no_call_after_failure gh log new
         \<and> (\<forall>e. raised_last gh log new = Some e \<longrightarrow>
                fst (merge_pull_request gh p log) = (if isinstance_GithubException e
                   then Inr (Content (Plain (if length new \<le> 2 then ''Repository not found.''
                                             else ''Error: '' @ str e)))
                   else Inl e))"
  using merge_pull_request_run [of gh p log] by blast

lemma get_pull_request_files_surfaced:
  "\<exists>new. snd (get_pull_request_files gh p log) = log @ new
         \<and> no_call_after_failure gh log new
         \<and> (\<forall>e. raised_last gh log new = Some e \<longrightarrow>
                fst (get_pull_request_files gh p log) = (if isinstance_GithubException e
                   then Inr (Content (Plain (if length new \<le> 2 then ''Repository not found.''
                                             else ''Error: '' @ str e)))
                   else Inl e))"
  using get_pull_request_files_run [of gh p log] by blast

lemma get_pull_request_status_surfaced:
  "\<exists>new. snd (get_pull_request_status gh p log) = log @ new
         \<and> no_call_after_failure gh log new
         \<and> (\<forall>e. raised_last gh log new = Some e \<longrightarrow>
                fst (get_pull_request_status gh p log) = (if isinstance_GithubException e
                   then Inr (Content (Plain (if length new \<le> 2 then ''Repository not found.''
                                             else ''Error: '' @ str e)))
                   else Inl e))"
  using get_pull_request_status_run [of gh p log] by blast

lemma get_issue_surfaced:
  "\<exists>new. snd (get_issue gh p log) = log @ new
         \<and> no_call_after_failure gh log new
         \<and> (\<forall>e. raised_last gh log new = Some e \<longrightarrow>
                fst (get_issue gh p log) = Inl e)"
  using get_issue_run [of gh p log] by blast

lemma add_issue_comment_surfaced:
  "\<exists>new. snd (add_issue_comment gh p log) = log @ new
         \<and> no_call_after_failure gh log new
         \<and> (\<forall>e. raised_last gh log new = Some e \<longrightarrow>
                fst (add_issue_comment gh p log) = Inl e)"
  using add_issue_comment_run [of gh p log] by blast

lemma search_issues_surfaced:
  "\<exists>new. snd (search_issues gh p log) = log @ new
         \<and> no_call_after_failure gh log new
         \<and> (\<forall>e. raised_last gh log new = Some e \<longrightarrow>
                fst (search_issues gh p log) = Inl e)"
  using search_issues_run [of gh p log] by blast

lemma create_issue_surfaced:
  "\<exists>new. snd (create_issue gh p log) = log @ new
         \<and> no_call_after_failure gh log new
         \<and> (\<forall>e. raised_last gh log new = Some e \<longrightarrow>
                fst (create_issue gh p log) = Inl e)"
  using create_issue_run [of gh p log] by blast

lemma list_issues_surfaced:
  "\<exists>new. snd (list_issues gh p log) = log @ new
         \<and> no_call_after_failure gh log new
         \<and> (\<forall>e. raised_last gh log new = Some e \<longrightarrow>
                fst (list_issues gh p log) = Inl e)"
  using list_issues_run [of gh p log] by blast

lemma get_issue_comments_surfaced:
  "\<exists>new. snd (get_issue_comments gh p log) = log @ new
         \<and> no_call_after_failure gh log new
         \<and> (\<forall>e. raised_last gh log new = Some e \<longrightarrow>
                fst (get_issue_comments gh p log) = Inl e)"
  using get_issue_comments_run [of gh p log] by blast

lemma failures_by_class:
  "(\<exists>t. fst (get_commit gh a1 log) = Inr (Content t))
   \<and> (\<exists>t. fst (list_commits gh a2 log) = Inr (Content t))
   \<and> (\<exists>t. fst (list_branches gh a3 log) = Inr (Content t))
   \<and> (\<exists>t. fst (create_or_update_file gh a4 log) = Inr (Content t))
   \<and> (\<exists>t. fst (create_repository gh a5 log) = Inr (Content t))
   \<and> (\<exists>t. fst (fork_repository gh a6 log) = Inr (Content t))
   \<and> (\<exists>t. fst (push_to_github f a7 fs) = Content t)
   \<and> (\<forall>e. fst (search_repositories gh b1 log) = Inl e \<longrightarrow> \<not> isinstance_GithubException e)
   \<and> (\<forall>e. fst (search_code gh b2 log) = Inl e \<longrightarrow> \<not> isinstance_GithubException e)
   \<and> (\<forall>e. fst (search_users gh b3 log) = Inl e \<longrightarrow> \<not> isinstance_GithubException e)
   \<and> (\<forall>e. fst (get_pull_request gh b4 log) = Inl e \<longrightarrow> \<not> isinstance_GithubException e)
   \<and> (\<forall>e. fst (update_pull_request gh b5 log) = Inl e \<longrightarrow> \<not> isinstance_GithubException e)
   \<and> (\<forall>e. fst (list_pull_requests gh b6 log) = Inl e \<longrightarrow> \<not> isinstance_GithubException e)
   \<and> (\<forall>e. fst (merge_pull_request gh b7 log) = Inl e \<longrightarrow> \<not> isinstance_GithubException e)
   \<and> (\<forall>e. fst (get_pull_request_files gh b8 log) = Inl e \<longrightarrow> \<not> isinstance_GithubException e)
   \<and> (\<forall>e. fst (get_pull_request_status gh b9 log) = Inl e \<longrightarrow> \<not> isinstance_GithubException e)
   \<and> (\<forall>e. request_object gh log
            (Get_repo (IssueParams.owner c1 @ ''/'' @ IssueParams.repo c1)) = Inl e
          \<longrightarrow> fst (get_issue gh c1 log) = Inl e)
   \<and> (\<forall>e. request_object gh log
            (Get_repo (IssueParams.owner c2 @ ''/'' @ IssueParams.repo c2)) = Inl e
          \<longrightarrow> fst (add_issue_comment gh c2 log) = Inl e)
   \<and> (\<forall>e. request_list gh log
            (Search_issues (SearchParams.q c3) (SearchParams.sort c3) (SearchParams.order c3))
              = Inl e
          \<longrightarrow> fst (search_issues gh c3 log) = Inl e)
   \<and> (\<forall>e. request_object gh log
            (Get_repo (CreateIssueParams.owner c4 @ ''/'' @ CreateIssueParams.repo c4)) = Inl e
          \<longrightarrow> fst (create_issue gh c4 log) = Inl e)
   \<and> (\<forall>e. request_object gh log
            (Get_repo (ListIssuesParams.owner c5 @ ''/'' @ ListIssuesParams.repo c5)) = Inl e
          \<longrightarrow> fst (list_issues gh c5 log) = Inl e)
   \<and> (\<forall>e. request_object gh log
            (Get_repo (IssueParams.owner c6 @ ''/'' @ IssueParams.repo c6)) = Inl e
          \<longrightarrow> fst (get_issue_comments gh c6 log) = Inl e)"
  by (intro conjI allI impI get_commit_rendered list_commits_rendered list_branches_rendered
      create_or_update_file_rendered create_repository_rendered fork_repository_rendered
      push_to_github_rendered)
     (erule search_repositories_escape search_code_escape search_users_escape
        get_pull_request_escape update_pull_request_escape list_pull_requests_escape
        merge_pull_request_escape get_pull_request_files_escape
        get_pull_request_status_escape get_issue_propagates add_issue_comment_propagates
        search_issues_propagates create_issue_propagates list_issues_propagates
        get_issue_comments_propagates)+

text \<open>
  Claim C2, amended. The commit, branch, file, repository and push tools catch every
  exception: they always return a text content, and whatever exception \<open>e\<close> the
  statements of the \<^verbatim>\<open>try\<close> block raise, the text is "Error: " followed by
  \<^verbatim>\<open>str(e)\<close> (after the cross mark, for the push). The search and pull-request
  tools catch \<^verbatim>\<open>GithubException\<close> only: a search tool turns a
  \<^verbatim>\<open>GithubException\<close> of its \<^verbatim>\<open>try\<close> block into the dictionary with the key
  "error" and \<^verbatim>\<open>str(e)\<close>; a pull-request tool returns "Repository not found." when
  the lookup finds none, and turns a \<^verbatim>\<open>GithubException\<close> of its \<^verbatim>\<open>try\<close> block
  into "Error: " followed by \<^verbatim>\<open>str(e)\<close>; every other exception leaves these tools
  as it is, so an exception that leaves one of them is not a \<^verbatim>\<open>GithubException\<close>.
  The issue tools have no handler. Seen from the platform: only the last upstream call
  of an invocation can have been answered with an exception, and when it was, the
  result of the tool is the one just described; for an issue tool it is that
  exception.
\<close>

theorem failures_rendered_or_foreign:
  "(\<exists>t. fst (get_commit gh a1 log) = Inr (Content t))
   \<and> (\<exists>t. fst (list_commits gh a2 log) = Inr (Content t))
   \<and> (\<exists>t. fst (list_branches gh a3 log) = Inr (Content t))
   \<and> (\<exists>t. fst (create_or_update_file gh a4 log) = Inr (Content t))
   \<and> (\<exists>t. fst (create_repository gh a5 log) = Inr (Content t))
   \<and> (\<exists>t. fst (fork_repository gh a6 log) = Inr (Content t))
   \<and> (\<exists>t. fst (push_to_github f a7 fs) = Content t)
   \<and> (\<forall>e. fst (search_repositories gh b1 log) = Inl e \<longrightarrow> \<not> isinstance_GithubException e)
   \<and> (\<forall>e. fst (search_code gh b2 log) = Inl e \<longrightarrow> \<not> isinstance_GithubException e)
   \<and> (\<forall>e. fst (search_users gh b3 log) = Inl e \<longrightarrow> \<not> isinstance_GithubException e)
   \<and> (\<forall>e. fst (get_pull_request gh b4 log) = Inl e \<longrightarrow> \<not> isinstance_GithubException e)
   \<and> (\<forall>e. fst (update_pull_request gh b5 log) = Inl e \<longrightarrow> \<not> isinstance_GithubException e)
   \<and> (\<forall>e. fst (list_pull_requests gh b6 log) = Inl e \<longrightarrow> \<not> isinstance_GithubException e)
   \<and> (\<forall>e. fst (merge_pull_request gh b7 log) = Inl e \<longrightarrow> \<not> isinstance_GithubException e)
   \<and> (\<forall>e. fst (get_pull_request_files gh b8 log) = Inl e \<longrightarrow> \<not> isinstance_GithubException e)
   \<and> (\<forall>e. fst (get_pull_request_status gh b9 log) = Inl e \<longrightarrow> \<not> isinstance_GithubException e)
   \<and> (\<forall>e. request_object gh log
            (Get_repo (IssueParams.owner c1 @ ''/'' @ IssueParams.repo c1)) = Inl e
          \<longrightarrow> fst (get_issue gh c1 log) = Inl e)
   \<and> (\<forall>e. request_object gh log
            (Get_repo (IssueParams.owner c2 @ ''/'' @ IssueParams.repo c2)) = Inl e
          \<longrightarrow> fst (add_issue_comment gh c2 log) = Inl e)
   \<and> (\<forall>e. request_list gh log
            (Search_issues (SearchParams.q c3) (SearchParams.sort c3) (SearchParams.order c3))
              = Inl e
          \<longrightarrow> fst (search_issues gh c3 log) = Inl e)
   \<and> (\<forall>e. request_object gh log
            (Get_repo (CreateIssueParams.owner c4 @ ''/'' @ CreateIssueParams.repo c4)) = Inl e
          \<longrightarrow> fst (create_issue gh c4 log) = Inl e)
   \<and> (\<forall>e. request_object gh log
            (Get_repo (ListIssuesParams.owner c5 @ ''/'' @ ListIssuesParams.repo c5)) = Inl e
          \<longrightarrow> fst (list_issues gh c5 log) = Inl e)
   \<and> (\<forall>e. request_object gh log
            (Get_repo (IssueParams.owner c6 @ ''/'' @ IssueParams.repo c6)) = Inl e
          \<longrightarrow> fst (get_issue_comments gh c6 log) = Inl e)
   \<and> (get_commit gh a1 log
        = (case get_commit_steps gh a1 log of
             (Inl e, l) \<Rightarrow> (Inr (Content (Plain (''Error: '' @ str e))), l)
           | (Inr v, l) \<Rightarrow> (Inr v, l)))
   \<and> (list_commits gh a2 log
        = (case list_commits_steps gh a2 log of
             (Inl e, l) \<Rightarrow> (Inr (Content (Plain (''Error: '' @ str e))), l)
           | (Inr v, l) \<Rightarrow> (Inr v, l)))
   \<and> (list_branches gh a3 log
        = (case list_branches_steps gh a3 log of
             (Inl e, l) \<Rightarrow> (Inr (Content (Plain (''Error: '' @ str e))), l)
           | (Inr v, l) \<Rightarrow> (Inr v, l)))
   \<and> (create_or_update_file gh a4 log
        = (case create_or_update_file_steps gh a4 log of
             (Inl e, l) \<Rightarrow> (Inr (Content (Plain (''Error: '' @ str e))), l)
           | (Inr v, l) \<Rightarrow> (Inr v, l)))
   \<and> (create_repository gh a5 log
        = (case create_repository_steps gh a5 log of
             (Inl e, l) \<Rightarrow> (Inr (Content (Plain (''Error: '' @ str e))), l)
           | (Inr v, l) \<Rightarrow> (Inr v, l)))
   \<and> (fork_repository gh a6 log
        = (case fork_repository_steps gh a6 log of
             (Inl e, l) \<Rightarrow> (Inr (Content (Plain (''Error: '' @ str e))), l)
           | (Inr v, l) \<Rightarrow> (Inr v, l)))
   \<and> (fst (push_to_github f a7 fs)
        = (case fs (repo_path a7) of
             None \<Rightarrow> Content (Plain (cross_mark @ '' Repo path does not exist.''))
           | Some w \<Rightarrow>
               (case fst (push_steps f (remote_url a7)
                            (or_default (Some (GitPushLocalTOGIT.branch a7)) ''main'')
                            (or_default (commit_msg a7) ''Initial commit'') w) of
                  Inr r \<Rightarrow> r
                | Inl e \<Rightarrow> Content (Plain (cross_mark @ '' Error: '' @ str e)))))
   \<and> (search_repositories gh b1 log
        = (case search_repositories_steps gh b1 log of
             (Inl e, l) \<Rightarrow>
               (if isinstance_GithubException e then Inr (Dict [(''error'', JStr (str e))])
                else Inl e, l)
           | (Inr v, l) \<Rightarrow> (Inr v, l)))
   \<and> (search_code gh b2 log
        = (case search_code_steps gh b2 log of
             (Inl e, l) \<Rightarrow>
               (if isinstance_GithubException e then Inr (Dict [(''error'', JStr (str e))])
                else Inl e, l)
           | (Inr v, l) \<Rightarrow> (Inr v, l)))
   \<and> (search_users gh b3 log
        = (case search_users_steps gh b3 log of
             (Inl e, l) \<Rightarrow>
               (if isinstance_GithubException e then Inr (Dict [(''error'', JStr (str e))])
                else Inl e, l)
           | (Inr v, l) \<Rightarrow> (Inr v, l)))
   \<and> (get_pull_request gh b4 log
        = (case get_repo gh (GetPullRequestInput.owner b4) (GetPullRequestInput.repo b4) log of
             (Inl e, l) \<Rightarrow> (Inl e, l)
           | (Inr None, l) \<Rightarrow> (Inr (Content (Plain ''Repository not found.'')), l)
           | (Inr (Some r), l) \<Rightarrow>
               (case get_pull_request_steps gh b4 r l of
                  (Inl e, l') \<Rightarrow>
                    (if isinstance_GithubException e
                     then Inr (Content (Plain (''Error: '' @ str e))) else Inl e, l')
                | (Inr v, l') \<Rightarrow> (Inr v, l'))))
   \<and> (update_pull_request gh b5 log
        = (case get_repo gh (GetPullRequestInput.owner b5) (GetPullRequestInput.repo b5) log of
             (Inl e, l) \<Rightarrow> (Inl e, l)
           | (Inr None, l) \<Rightarrow> (Inr (Content (Plain ''Repository not found.'')), l)
           | (Inr (Some r), l) \<Rightarrow>
               (case update_pull_request_steps gh b5 r l of
                  (Inl e, l') \<Rightarrow>
                    (if isinstance_GithubException e
                     then Inr (Content (Plain (''Error: '' @ str e))) else Inl e, l')
                | (Inr v, l') \<Rightarrow> (Inr v, l'))))
   \<and> (list_pull_requests gh b6 log
        = (case get_repo gh (ListPullRequestsInput.owner b6) (ListPullRequestsInput.repo b6) log of
             (Inl e, l) \<Rightarrow> (Inl e, l)
           | (Inr None, l) \<Rightarrow> (Inr (Content (Plain ''Repository not found.'')), l)
           | (Inr (Some r), l) \<Rightarrow>
               (case list_pull_requests_steps gh b6 r l of
                  (Inl e, l') \<Rightarrow>
                    (if isinstance_GithubException e
                     then Inr (Content (Plain (''Error: '' @ str e))) else Inl e, l')
                | (Inr v, l') \<Rightarrow> (Inr v, l'))))
   \<and> (merge_pull_request gh b7 log
        = (case get_repo gh (GetPullRequestInput.owner b7) (GetPullRequestInput.repo b7) log of
             (Inl e, l) \<Rightarrow> (Inl e, l)
           | (Inr None, l) \<Rightarrow> (Inr (Content (Plain ''Repository not found.'')), l)
           | (Inr (Some r), l) \<Rightarrow>
               (case merge_pull_request_steps gh b7 r l of
                  (Inl e, l') \<Rightarrow>
                    (if isinstance_GithubException e
                     then Inr (Content (Plain (''Error: '' @ str e))) else Inl e, l')
                | (Inr v, l') \<Rightarrow> (Inr v, l'))))
   \<and> (get_pull_request_files gh b8 log
        = (case get_repo gh (GetPullRequestInput.owner b8) (GetPullRequestInput.repo b8) log of
             (Inl e, l) \<Rightarrow> (Inl e, l)
           | (Inr None, l) \<Rightarrow> (Inr (Content (Plain ''Repository not found.'')), l)
           | (Inr (Some r), l) \<Rightarrow>
               (case get_pull_request_files_steps gh b8 r l of
                  (Inl e, l') \<Rightarrow>
                    (if isinstance_GithubException e
                     then Inr (Content (Plain (''Error: '' @ str e))) else Inl e, l')
                | (Inr v, l') \<Rightarrow> (Inr v, l'))))
   \<and> (get_pull_request_status gh b9 log
        = (case get_repo gh (GetPullRequestInput.owner b9) (GetPullRequestInput.repo b9) log of
             (Inl e, l) \<Rightarrow> (Inl e, l)
           | (Inr None, l) \<Rightarrow> (Inr (Content (Plain ''Repository not found.'')), l)
           | (Inr (Some r), l) \<Rightarrow>
               (case get_pull_request_status_steps gh b9 r l of
                  (Inl e, l') \<Rightarrow>
                    (if isinstance_GithubException e
                     then Inr (Content (Plain (''Error: '' @ str e))) else Inl e, l')
                | (Inr v, l') \<Rightarrow> (Inr v, l'))))
   \<and> (\<exists>new. snd (get_commit gh a1 log) = log @ new
         \<and> no_call_after_failure gh log new
         \<and> (\<forall>e. raised_last gh log new = Some e \<longrightarrow>
                fst (get_commit gh a1 log) = Inr (Content (Plain (''Error: '' @ str e)))))
   \<and> (\<exists>new. snd (list_commits gh a2 log) = log @ new
         \<and> no_call_after_failure gh log new
         \<and> (\<forall>e. raised_last gh log new = Some e \<longrightarrow>
                fst (list_commits gh a2 log) = Inr (Content (Plain (''Error: '' @ str e)))))
   \<and> (\<exists>new. snd (list_branches gh a3 log) = log @ new
         \<and> no_call_after_failure gh log new
         \<and> (\<forall>e. raised_last gh log new = Some e \<longrightarrow>
                fst (list_branches gh a3 log) = Inr (Content (Plain (''Error: '' @ str e)))))
   \<and> (\<exists>new. snd (create_or_update_file gh a4 log) = log @ new
         \<and> no_call_after_failure gh log new
         \<and> (\<forall>e. raised_last gh log new = Some e \<longrightarrow>
                fst (create_or_update_file gh a4 log) = Inr (Content (Plain (''Error: '' @ str e)))))
   \<and> (\<exists>new. snd (create_repository gh a5 log) = log @ new
         \<and> no_call_after_failure gh log new
         \<and> (\<forall>e. raised_last gh log new = Some e \<longrightarrow>
                fst (create_repository gh a5 log) = Inr (Content (Plain (''Error: '' @ str e)))))
   \<and> (\<exists>new. snd (fork_repository gh a6 log) = log @ new
         \<and> no_call_after_failure gh log new
         \<and> (\<forall>e. raised_last gh log new = Some e \<longrightarrow>
                fst (fork_repository gh a6 log) = Inr (Content (Plain (''Error: '' @ str e)))))
   \<and> (\<exists>new. snd (search_repositories gh b1 log) = log @ new
         \<and> no_call_after_failure gh log new
         \<and> (\<forall>e. raised_last gh log new = Some e \<longrightarrow>
                fst (search_repositories gh b1 log) = (if isinstance_GithubException e
                   then Inr (Dict [(''error'', JStr (str e))]) else Inl e)))
   \<and> (\<exists>new. snd (search_code gh b2 log) = log @ new
         \<and> no_call_after_failure gh log new
         \<and> (\<forall>e. raised_last gh log new = Some e \<longrightarrow>
                fst (search_code gh b2 log) = (if isinstance_GithubException e
                   then Inr (Dict [(''error'', JStr (str e))]) else Inl e)))
   \<and> (\<exists>new. snd (search_users gh b3 log) = log @ new
         \<and> no_call_after_failure gh log new
         \<and> (\<forall>e. raised_last gh log new = Some e \<longrightarrow>
                fst (search_users gh b3 log) = (if isinstance_GithubException e
                   then Inr (Dict [(''error'', JStr (str e))]) else Inl e)))
   \<and> (\<exists>new. snd (get_pull_request gh b4 log) = log @ new
         \<and> no_call_after_failure gh log new
         \<and> (\<forall>e. raised_last gh log new = Some e \<longrightarrow>
                fst (get_pull_request gh b4 log) = (if isinstance_GithubException e
                   then Inr (Content (Plain (if length new \<le> 2 then ''Repository not found.''
                                             else ''Error: '' @ str e)))
                   else Inl e)))
   \<and> (\<exists>new. snd (update_pull_request gh b5 log) = log @ new
         \<and> no_call_after_failure gh log new
         \<and> (\<forall>e. raised_last gh log new = Some e \<longrightarrow>
                fst (update_pull_request gh b5 log) = (if isinstance_GithubException e
                   then Inr (Content (Plain (if length new \<le> 2 then ''Repository not found.''
                                             else ''Error: '' @ str e)))
                   else Inl e)))
   \<and> (\<exists>new. snd (list_pull_requests gh b6 log) = log @ new
         \<and> no_call_after_failure gh log new
         \<and> (\<forall>e. raised_last gh log new = Some e \<longrightarrow>
                fst (list_pull_requests gh b6 log) = (if isinstance_GithubException e
                   then Inr (Content (Plain (if length new \<le> 2 then ''Repository not found.''
                                             else ''Error: '' @ str e)))
                   else Inl e)))
   \<and> (\<exists>new. snd (merge_pull_request gh b7 log) = log @ new
         \<and> no_call_after_failure gh log new
         \<and> (\<forall>e. raised_last gh log new = Some e \<longrightarrow>
                fst (merge_pull_request gh b7 log) = (if isinstance_GithubException e
                   then Inr (Content (Plain (if length new \<le> 2 then ''Repository not found.''
                                             else ''Error: '' @ str e)))
                   else Inl e)))
   \<and> (\<exists>new. snd (get_pull_request_files gh b8 log) = log @ new
         \<and> no_call_after_failure gh log new
         \<and> (\<forall>e. raised_last gh log new = Some e \<longrightarrow>
                fst (get_pull_request_files gh b8 log) = (if isinstance_GithubException e
                   then Inr (Content (Plain (if length new \<le> 2 then ''Repository not found.''
                                             else ''Error: '' @ str e)))
                   else Inl e)))
   \<and> (\<exists>new. snd (get_pull_request_status gh b9 log) = log @ new
         \<and> no_call_after_failure gh log new
         \<and> (\<forall>e. raised_last gh log new = Some e \<longrightarrow>
                fst (get_pull_request_status gh b9 log) = (if isinstance_GithubException e
                   then Inr (Content (Plain (if length new \<le> 2 then ''Repository not found.''
                                             else ''Error: '' @ str e)))
                   else Inl e)))
   \<and> (\<exists>new. snd (get_issue gh c1 log) = log @ new
         \<and> no_call_after_failure gh log new
         \<and> (\<forall>e. raised_last gh log new = Some e \<longrightarrow>
                fst (get_issue gh c1 log) = Inl e))
   \<and> (\<exists>new. snd (add_issue_comment gh c2 log) = log @ new
         \<and> no_call_after_failure gh log new
         \<and> (\<forall>e. raised_last gh log new = Some e \<longrightarrow>
                fst (add_issue_comment gh c2 log) = Inl e))
   \<and> (\<exists>new. snd (search_issues gh c3 log) = log @ new
         \<and> no_call_after_failure gh log new
         \<and> (\<forall>e. raised_last gh log new = Some e \<longrightarrow>
                fst (search_issues gh c3 log) = Inl e))
   \<and> (\<exists>new. snd (create_issue gh c4 log) = log @ new
         \<and> no_call_after_failure gh log new
         \<and> (\<forall>e. raised_last gh log new = Some e \<longrightarrow>
                fst (create_issue gh c4 log) = Inl e))
   \<and> (\<exists>new. snd (list_issues gh c5 log) = log @ new
         \<and> no_call_after_failure gh log new
         \<and> (\<forall>e. raised_last gh log new = Some e \<longrightarrow>
                fst (list_issues gh c5 log) = Inl e))
   \<and> (\<exists>new. snd (get_issue_comments gh c6 log) = log @ new
         \<and> no_call_after_failure gh log new
         \<and> (\<forall>e. raised_last gh log new = Some e \<longrightarrow>
                fst (get_issue_comments gh c6 log) = Inl e))"
proof -
  note old = failures_by_class
      [of gh a1 log a2 a3 a4 a5 a6 f a7 fs b1 b2 b3 b4 b5 b6 b7 b8 b9 c1 c2 c3 c4 c5 c6]
  show ?thesis
    by (intro conjI
        old [THEN conjunct1]
        old [THEN conjunct2, THEN conjunct1]
        old [THEN conjunct2, THEN conjunct2, THEN conjunct1]
        old [THEN conjunct2, THEN conjunct2, THEN conjunct2, THEN conjunct1]
        old [THEN conjunct2, THEN conjunct2, THEN conjunct2, THEN conjunct2, THEN conjunct1]
        old [THEN conjunct2, THEN conjunct2, THEN conjunct2, THEN conjunct2, THEN conjunct2, THEN conjunct1]
        old [THEN conjunct2, THEN conjunct2, THEN conjunct2, THEN conjunct2, THEN conjunct2, THEN conjunct2, THEN conjunct1]
        old [THEN conjunct2, THEN conjunct2, THEN conjunct2, THEN conjunct2, THEN conjunct2, THEN conjunct2, THEN conjunct2, THEN conjunct1]
        old [THEN conjunct2, THEN conjunct2, THEN conjunct2, THEN conjunct2, THEN conjunct2, THEN conjunct2, THEN conjunct2, THEN conjunct2, THEN conjunct1]
        old [THEN conjunct2, THEN conjunct2, THEN conjunct2, THEN conjunct2, THEN conjunct2, THEN conjunct2, THEN conjunct2, THEN conjunct2, THEN conjunct2, THEN conjunct1]
        old [THEN conjunct2, THEN conjunct2, THEN conjunct2, THEN conjunct2, THEN conjunct2, THEN conjunct2, THEN conjunct2, THEN conjunct2, THEN conjunct2, THEN conjunct2, THEN conjunct1]
        old [THEN conjunct2, THEN conjunct2, THEN conjunct2, THEN conjunct2, THEN conjunct2, THEN conjunct2, THEN conjunct2, THEN conjunct2, THEN conjunct2, THEN conjunct2, THEN conjunct2, THEN conjunct1]
        old [THEN conjunct2, THEN conjunct2, THEN conjunct2, THEN conjunct2, THEN conjunct2, THEN conjunct2, THEN conjunct2, THEN conjunct2, THEN conjunct2, THEN conjunct2, THEN conjunct2, THEN conjunct2, THEN conjunct1]
        old [THEN conjunct2, THEN conjunct2, THEN conjunct2, THEN conjunct2, THEN conjunct2, THEN conjunct2, THEN conjunct2, THEN conjunct2, THEN conjunct2, THEN conjunct2, THEN conjunct2, THEN conjunct2, THEN conjunct2, THEN conjunct1]
        old [THEN conjunct2, THEN conjunct2, THEN conjunct2, THEN conjunct2, THEN conjunct2, THEN conjunct2, THEN conjunct2, THEN conjunct2, THEN conjunct2, THEN conjunct2, THEN conjunct2, THEN conjunct2, THEN conjunct2, THEN conjunct2, THEN conjunct1]
        old [THEN conjunct2, THEN conjunct2, THEN conjunct2, THEN conjunct2, THEN conjunct2, THEN conjunct2, THEN conjunct2, THEN conjunct2, THEN conjunct2, THEN conjunct2, THEN conjunct2, THEN conjunct2, THEN conjunct2, THEN conjunct2, THEN conjunct2, THEN conjunct1]
        old [THEN conjunct2, THEN conjunct2, THEN conjunct2, THEN conjunct2, THEN conjunct2, THEN conjunct2, THEN conjunct2, THEN conjunct2, THEN conjunct2, THEN conjunct2, THEN conjunct2, THEN conjunct2, THEN conjunct2, THEN conjunct2, THEN conjunct2, THEN conjunct2, THEN conjunct1]
        old [THEN conjunct2, THEN conjunct2, THEN conjunct2, THEN conjunct2, THEN conjunct2, THEN conjunct2, THEN conjunct2, THEN conjunct2, THEN conjunct2, THEN conjunct2, THEN conjunct2, THEN conjunct2, THEN conjunct2, THEN conjunct2, THEN conjunct2, THEN conjunct2, THEN conjunct2, THEN conjunct1]
        old [THEN conjunct2, THEN conjunct2, THEN conjunct2, THEN conjunct2, THEN conjunct2, THEN conjunct2, THEN conjunct2, THEN conjunct2, THEN conjunct2, THEN conjunct2, THEN conjunct2, THEN conjunct2, THEN conjunct2, THEN conjunct2, THEN conjunct2, THEN conjunct2, THEN conjunct2, THEN conjunct2, THEN conjunct1]
        old [THEN conjunct2, THEN conjunct2, THEN conjunct2, THEN conjunct2, THEN conjunct2, THEN conjunct2, THEN conjunct2, THEN conjunct2, THEN conjunct2, THEN conjunct2, THEN conjunct2, THEN conjunct2, THEN conjunct2, THEN conjunct2, THEN conjunct2, THEN conjunct2, THEN conjunct2, THEN conjunct2, THEN conjunct2, THEN conjunct1]
        old [THEN conjunct2, THEN conjunct2, THEN conjunct2, THEN conjunct2, THEN conjunct2, THEN conjunct2, THEN conjunct2, THEN conjunct2, THEN conjunct2, THEN conjunct2, THEN conjunct2, THEN conjunct2, THEN conjunct2, THEN conjunct2, THEN conjunct2, THEN conjunct2, THEN conjunct2, THEN conjunct2, THEN conjunct2, THEN conjunct2, THEN conjunct1]
        old [THEN conjunct2, THEN conjunct2, THEN conjunct2, THEN conjunct2, THEN conjunct2, THEN conjunct2, THEN conjunct2, THEN conjunct2, THEN conjunct2, THEN conjunct2, THEN conjunct2, THEN conjunct2, THEN conjunct2, THEN conjunct2, THEN conjunct2, THEN conjunct2, THEN conjunct2, THEN conjunct2, THEN conjunct2, THEN conjunct2, THEN conjunct2]
        get_commit_handler
        list_commits_handler
        list_branches_handler
        create_or_update_file_handler
        create_repository_handler
        fork_repository_handler
        push_to_github_result
        search_repositories_handler
        search_code_handler
        search_users_handler
        get_pull_request_handler
        update_pull_request_handler
        list_pull_requests_handler
        merge_pull_request_handler
        get_pull_request_files_handler
        get_pull_request_status_handler
        get_commit_surfaced
        list_commits_surfaced
        list_branches_surfaced
        create_or_update_file_surfaced
        create_repository_surfaced
        fork_repository_surfaced
        search_repositories_surfaced
        search_code_surfaced
        search_users_surfaced
        get_pull_request_surfaced
        update_pull_request_surfaced
        list_pull_requests_surfaced
        merge_pull_request_surfaced
        get_pull_request_files_surfaced
        get_pull_request_status_surfaced
        get_issue_surfaced
        add_issue_comment_surfaced
        search_issues_surfaced
        create_issue_surfaced
        list_issues_surfaced
        get_issue_comments_surfaced)
qed

theorem failures_rendered_or_foreign_witness:
  "fst (search_repositories offline_gh (repos_query 1 30) []) = Inl connection_reset
   \<and> fst (search_code offline_gh (code_query 1 30) []) = Inl connection_reset
   \<and> fst (search_users offline_gh (users_query 1 30) []) = Inl connection_reset
   \<and> fst (get_pull_request offline_gh pull_params []) = Inl connection_reset
   \<and> fst (update_pull_request offline_gh update_params []) = Inl connection_reset
   \<and> fst (list_pull_requests offline_gh (pulls_params 1 30) []) = Inl connection_reset
   \<and> fst (merge_pull_request offline_gh merge_params []) = Inl connection_reset
   \<and> fst (get_pull_request_files offline_gh (files_params 1 30) []) = Inl connection_reset
   \<and> fst (get_pull_request_status offline_gh pull_params []) = Inl connection_reset
   \<and> \<not> isinstance_GithubException connection_reset
   \<and> fst (get_commit offline_gh commit_params []) = Inr (error_text connection_reset)
   \<and> request_object offline_gh [] (Get_repo ''acme/widgets'') = Inl connection_reset
   \<and> fst (get_issue offline_gh issue_params []) = Inl connection_reset
   \<and> fst (list_issues offline_gh issues_params []) = Inl connection_reset
   \<and> raised_last missing_gh [] [Get_repo ''acme/widgets''] = Some not_found_error
   \<and> fst (get_commit missing_gh commit_params [])
       = Inr (Content (Plain ''Error: 404 Not Found''))
   \<and> fst (get_issue missing_gh issue_params []) = Inl not_found_error
   \<and> raised_last limited_gh [] [Search_repositories ''isabelle''] = Some rate_limited
   \<and> fst (search_repositories limited_gh (repos_query 1 30) [])
       = Inr (Dict [(''error'', JStr ''API rate limit exceeded'')])
   \<and> raised_last missing_gh [] [Get_user (Some ''acme'')] = Some not_found_error
   \<and> fst (get_pull_request missing_gh pull_params [])
       = Inr (Content (Plain ''Repository not found.''))
   \<and> raised_last missing_pull_gh []
         [Get_user (Some ''acme''), User_get_repo repo1 ''widgets'', Repo_get_pull repo1 7]
       = Some not_found_error
   \<and> fst (get_pull_request missing_pull_gh pull_params [])
       = Inr (Content (Plain ''Error: 404 Not Found''))
   \<and> fst (get_commit_steps offline_gh commit_params []) = Inl connection_reset
   \<and> fst (get_commit offline_gh commit_params [])
       = Inr (Content (Plain ''Error: connection reset''))"
proof -
  have n: "\<not> isinstance_GithubException connection_reset"
    by (simp add: isinstance_GithubException_def connection_reset_def)
  have g: "isinstance_GithubException not_found_error" "isinstance_GithubException rate_limited"
    by (simp_all add: isinstance_GithubException_def not_found_error_def rate_limited_def)
  have s1: "fst (search_repositories offline_gh (repos_query 1 30) []) = Inl connection_reset"
    using n by (simp add: search_repositories_def search_repositories_steps_def run_defs
        offline_gh_def)
  have s2: "fst (search_code offline_gh (code_query 1 30) []) = Inl connection_reset"
    using n by (simp add: search_code_def search_code_steps_def run_defs offline_gh_def)
  have s3: "fst (search_users offline_gh (users_query 1 30) []) = Inl connection_reset"
    using n by (simp add: search_users_def search_users_steps_def run_defs offline_gh_def)
  have r: "\<And>ow nm. get_repo offline_gh ow nm [] = (Inl connection_reset, [Get_user (Some ow)])"
    using n by (simp add: get_repo_result offline_gh_def)
  have p1: "fst (get_pull_request offline_gh pull_params []) = Inl connection_reset"
    by (simp add: get_pull_request_def and_then_def r)
  have p2: "fst (update_pull_request offline_gh update_params []) = Inl connection_reset"
    by (simp add: update_pull_request_def and_then_def r)
  have p3: "fst (list_pull_requests offline_gh (pulls_params 1 30) []) = Inl connection_reset"
    by (simp add: list_pull_requests_def and_then_def r)
  have p4: "fst (merge_pull_request offline_gh merge_params []) = Inl connection_reset"
    by (simp add: merge_pull_request_def and_then_def r)
  have p5: "fst (get_pull_request_files offline_gh (files_params 1 30) []) = Inl connection_reset"
    by (simp add: get_pull_request_files_def and_then_def r)
  have p6: "fst (get_pull_request_status offline_gh pull_params []) = Inl connection_reset"
    by (simp add: get_pull_request_status_def and_then_def r)
  have c: "fst (get_commit offline_gh commit_params []) = Inr (error_text connection_reset)"
    by (simp add: get_commit_def get_commit_steps_def run_defs offline_gh_def)
  have o: "request_object offline_gh [] (Get_repo ''acme/widgets'') = Inl connection_reset"
    by (simp add: offline_gh_def)
  have i: "IssueParams.owner issue_params @ ''/'' @ IssueParams.repo issue_params
      = ''acme/widgets''"
    "ListIssuesParams.owner issues_params @ ''/'' @ ListIssuesParams.repo issues_params
      = ''acme/widgets''"
    by (simp_all add: issue_params_def issues_params_def)
  have e1: "\<not> isinstance_GithubException connection_reset"
    using failures_rendered_or_foreign
      [of offline_gh commit_params "[]" "commits_params 1 30" "branches_params 1 30"
          "file_params None" repository_params fork_params no_faults push_params work_fs
          "repos_query 1 30" "code_query 1 30" "users_query 1 30" pull_params update_params
          "pulls_params 1 30" merge_params "files_params 1 30" pull_params
          issue_params issue_comment_params issue_query new_issue_params issues_params
          comments_params,
          THEN conjunct2, THEN conjunct2, THEN conjunct2, THEN conjunct2, THEN conjunct2,
          THEN conjunct2, THEN conjunct2, THEN conjunct1] s1
    by blast
  have e2: "fst (get_issue offline_gh issue_params []) = Inl connection_reset"
    using failures_rendered_or_foreign
      [of offline_gh commit_params "[]" "commits_params 1 30" "branches_params 1 30"
          "file_params None" repository_params fork_params no_faults push_params work_fs
          "repos_query 1 30" "code_query 1 30" "users_query 1 30" pull_params update_params
          "pulls_params 1 30" merge_params "files_params 1 30" pull_params
          issue_params issue_comment_params issue_query new_issue_params issues_params
          comments_params,
          THEN conjunct2, THEN conjunct2, THEN conjunct2, THEN conjunct2, THEN conjunct2,
          THEN conjunct2, THEN conjunct2, THEN conjunct2, THEN conjunct2, THEN conjunct2,
          THEN conjunct2, THEN conjunct2, THEN conjunct2, THEN conjunct2, THEN conjunct2,
          THEN conjunct2, THEN conjunct1] o i
    by simp
  have e3: "fst (list_issues offline_gh issues_params []) = Inl connection_reset"
    using failures_rendered_or_foreign
      [of offline_gh commit_params "[]" "commits_params 1 30" "branches_params 1 30"
          "file_params None" repository_params fork_params no_faults push_params work_fs
          "repos_query 1 30" "code_query 1 30" "users_query 1 30" pull_params update_params
          "pulls_params 1 30" merge_params "files_params 1 30" pull_params
          issue_params issue_comment_params issue_query new_issue_params issues_params
          comments_params,
          THEN conjunct2, THEN conjunct2, THEN conjunct2, THEN conjunct2, THEN conjunct2,
          THEN conjunct2, THEN conjunct2, THEN conjunct2, THEN conjunct2, THEN conjunct2,
          THEN conjunct2, THEN conjunct2, THEN conjunct2, THEN conjunct2, THEN conjunct2,
          THEN conjunct2, THEN conjunct2, THEN conjunct2, THEN conjunct2, THEN conjunct2,
          THEN conjunct1] o i
    by simp
  have l1: "raised_last missing_gh [] [Get_repo ''acme/widgets''] = Some not_found_error"
    and l2: "raised_last limited_gh [] [Search_repositories ''isabelle''] = Some rate_limited"
    and l3: "raised_last missing_gh [] [Get_user (Some ''acme'')] = Some not_found_error"
    and l4: "raised_last missing_pull_gh []
         [Get_user (Some ''acme''), User_get_repo repo1 ''widgets'', Repo_get_pull repo1 7]
       = Some not_found_error"
    by (simp_all add: obs_defs missing_gh_def limited_gh_def missing_pull_gh_def)
  have f1: "fst (get_commit missing_gh commit_params [])
       = Inr (Content (Plain ''Error: 404 Not Found''))"
  proof -
    from failures_rendered_or_foreign
      [of missing_gh commit_params "[]" "commits_params 1 30" "branches_params 1 30"
          "file_params None" repository_params fork_params no_faults push_params work_fs
          "repos_query 1 30" "code_query 1 30" "users_query 1 30" pull_params update_params
          "pulls_params 1 30" merge_params "files_params 1 30" pull_params
          issue_params issue_comment_params issue_query new_issue_params issues_params
          comments_params,
          THEN conjunct2, THEN conjunct2, THEN conjunct2, THEN conjunct2, THEN conjunct2,
          THEN conjunct2, THEN conjunct2, THEN conjunct2, THEN conjunct2, THEN conjunct2,
          THEN conjunct2, THEN conjunct2, THEN conjunct2, THEN conjunct2, THEN conjunct2,
          THEN conjunct2, THEN conjunct2, THEN conjunct2, THEN conjunct2, THEN conjunct2,
          THEN conjunct2, THEN conjunct2, THEN conjunct2, THEN conjunct2, THEN conjunct2,
          THEN conjunct2, THEN conjunct2, THEN conjunct2, THEN conjunct2, THEN conjunct2,
          THEN conjunct2, THEN conjunct2, THEN conjunct2, THEN conjunct2, THEN conjunct2,
          THEN conjunct2, THEN conjunct2, THEN conjunct2, THEN conjunct1]
    obtain new where a: "snd (get_commit missing_gh commit_params []) = [] @ new"
      and b: "\<forall>e. raised_last missing_gh [] new = Some e \<longrightarrow>
        fst (get_commit missing_gh commit_params [])
          = Inr (Content (Plain (''Error: '' @ str e)))"
      by blast
    have "snd (get_commit missing_gh commit_params []) = [Get_repo ''acme/widgets'']"
      by (simp add: get_commit_def get_commit_steps_def run_defs missing_gh_def
          commit_params_def)
    with a have "new = [Get_repo ''acme/widgets'']" by simp
    with b l1 show ?thesis by (simp add: not_found_error_def)
  qed
  have f2: "fst (get_issue missing_gh issue_params []) = Inl not_found_error"
  proof -
    from failures_rendered_or_foreign
      [of missing_gh commit_params "[]" "commits_params 1 30" "branches_params 1 30"
          "file_params None" repository_params fork_params no_faults push_params work_fs
          "repos_query 1 30" "code_query 1 30" "users_query 1 30" pull_params update_params
          "pulls_params 1 30" merge_params "files_params 1 30" pull_params
          issue_params issue_comment_params issue_query new_issue_params issues_params
          comments_params,
          THEN conjunct2, THEN conjunct2, THEN conjunct2, THEN conjunct2, THEN conjunct2,
          THEN conjunct2, THEN conjunct2, THEN conjunct2, THEN conjunct2, THEN conjunct2,
          THEN conjunct2, THEN conjunct2, THEN conjunct2, THEN conjunct2, THEN conjunct2,
          THEN conjunct2, THEN conjunct2, THEN conjunct2, THEN conjunct2, THEN conjunct2,
          THEN conjunct2, THEN conjunct2, THEN conjunct2, THEN conjunct2, THEN conjunct2,
          THEN conjunct2, THEN conjunct2, THEN conjunct2, THEN conjunct2, THEN conjunct2,
          THEN conjunct2, THEN conjunct2, THEN conjunct2, THEN conjunct2, THEN conjunct2,
          THEN conjunct2, THEN conjunct2, THEN conjunct2, THEN conjunct2, THEN conjunct2,
          THEN conjunct2, THEN conjunct2, THEN conjunct2, THEN conjunct2, THEN conjunct2,
          THEN conjunct2, THEN conjunct2, THEN conjunct2, THEN conjunct2, THEN conjunct2,
          THEN conjunct2, THEN conjunct2, THEN conjunct2, THEN conjunct1]
    obtain new where a: "snd (get_issue missing_gh issue_params []) = [] @ new"
      and b: "\<forall>e. raised_last missing_gh [] new = Some e \<longrightarrow>
        fst (get_issue missing_gh issue_params []) = Inl e"
      by blast
    have "snd (get_issue missing_gh issue_params []) = [Get_repo ''acme/widgets'']"
      by (simp add: get_issue_def run_defs missing_gh_def issue_params_def)
    with a have "new = [Get_repo ''acme/widgets'']" by simp
    with b l1 show ?thesis by simp
  qed
  have f3: "fst (search_repositories limited_gh (repos_query 1 30) [])
       = Inr (Dict [(''error'', JStr ''API rate limit exceeded'')])"
  proof -
    from failures_rendered_or_foreign
      [of limited_gh commit_params "[]" "commits_params 1 30" "branches_params 1 30"
          "file_params None" repository_params fork_params no_faults push_params work_fs
          "repos_query 1 30" "code_query 1 30" "users_query 1 30" pull_params update_params
          "pulls_params 1 30" merge_params "files_params 1 30" pull_params
          issue_params issue_comment_params issue_query new_issue_params issues_params
          comments_params,
          THEN conjunct2, THEN conjunct2, THEN conjunct2, THEN conjunct2, THEN conjunct2,
          THEN conjunct2, THEN conjunct2, THEN conjunct2, THEN conjunct2, THEN conjunct2,
          THEN conjunct2, THEN conjunct2, THEN conjunct2, THEN conjunct2, THEN conjunct2,
          THEN conjunct2, THEN conjunct2, THEN conjunct2, THEN conjunct2, THEN conjunct2,
          THEN conjunct2, THEN conjunct2, THEN conjunct2, THEN conjunct2, THEN conjunct2,
          THEN conjunct2, THEN conjunct2, THEN conjunct2, THEN conjunct2, THEN conjunct2,
          THEN conjunct2, THEN conjunct2, THEN conjunct2, THEN conjunct2, THEN conjunct2,
          THEN conjunct2, THEN conjunct2, THEN conjunct2, THEN conjunct2, THEN conjunct2,
          THEN conjunct2, THEN conjunct2, THEN conjunct2, THEN conjunct2, THEN conjunct1]
    obtain new where a: "snd (search_repositories limited_gh (repos_query 1 30) []) = [] @ new"
      and b: "\<forall>e. raised_last limited_gh [] new = Some e \<longrightarrow>
        fst (search_repositories limited_gh (repos_query 1 30) [])
          = (if isinstance_GithubException e
             then Inr (Dict [(''error'', JStr (str e))]) else Inl e)"
      by blast
    have "snd (search_repositories limited_gh (repos_query 1 30) [])
        = [Search_repositories ''isabelle'']"
      using g by (simp add: search_repositories_def search_repositories_steps_def
          search_error_def run_defs limited_gh_def repos_query_def)
    with a have "new = [Search_repositories ''isabelle'']" by simp
    with b l2 g show ?thesis by (simp add: rate_limited_def)
  qed
  have f4: "fst (get_pull_request missing_gh pull_params [])
       = Inr (Content (Plain ''Repository not found.''))"
  proof -
    from failures_rendered_or_foreign
      [of missing_gh commit_params "[]" "commits_params 1 30" "branches_params 1 30"
          "file_params None" repository_params fork_params no_faults push_params work_fs
          "repos_query 1 30" "code_query 1 30" "users_query 1 30" pull_params update_params
          "pulls_params 1 30" merge_params "files_params 1 30" pull_params
          issue_params issue_comment_params issue_query new_issue_params issues_params
          comments_params,
          THEN conjunct2, THEN conjunct2, THEN conjunct2, THEN conjunct2, THEN conjunct2,
          THEN conjunct2, THEN conjunct2, THEN conjunct2, THEN conjunct2, THEN conjunct2,
          THEN conjunct2, THEN conjunct2, THEN conjunct2, THEN conjunct2, THEN conjunct2,
          THEN conjunct2, THEN conjunct2, THEN conjunct2, THEN conjunct2, THEN conjunct2,
          THEN conjunct2, THEN conjunct2, THEN conjunct2, THEN conjunct2, THEN conjunct2,
          THEN conjunct2, THEN conjunct2, THEN conjunct2, THEN conjunct2, THEN conjunct2,
          THEN conjunct2, THEN conjunct2, THEN conjunct2, THEN conjunct2, THEN conjunct2,
          THEN conjunct2, THEN conjunct2, THEN conjunct2, THEN conjunct2, THEN conjunct2,
          THEN conjunct2, THEN conjunct2, THEN conjunct2, THEN conjunct2, THEN conjunct2,
          THEN conjunct2, THEN conjunct2, THEN conjunct1]
    obtain new where a: "snd (get_pull_request missing_gh pull_params []) = [] @ new"
      and b: "\<forall>e. raised_last missing_gh [] new = Some e \<longrightarrow>
        fst (get_pull_request missing_gh pull_params [])
          = (if isinstance_GithubException e
             then Inr (Content (Plain (if length new \<le> 2 then ''Repository not found.''
                                       else ''Error: '' @ str e)))
             else Inl e)"
      by blast
    have "snd (get_pull_request missing_gh pull_params []) = [Get_user (Some ''acme'')]"
      using g by (simp add: get_pull_request_def get_repo_result and_then_def returns_def
          missing_gh_def pull_params_def)
    with a have "new = [Get_user (Some ''acme'')]" by simp
    with b l3 g show ?thesis by simp
  qed
  have f5: "fst (get_pull_request missing_pull_gh pull_params [])
       = Inr (Content (Plain ''Error: 404 Not Found''))"
  proof -
    from failures_rendered_or_foreign
      [of missing_pull_gh commit_params "[]" "commits_params 1 30" "branches_params 1 30"
          "file_params None" repository_params fork_params no_faults push_params work_fs
          "repos_query 1 30" "code_query 1 30" "users_query 1 30" pull_params update_params
          "pulls_params 1 30" merge_params "files_params 1 30" pull_params
          issue_params issue_comment_params issue_query new_issue_params issues_params
          comments_params,
          THEN conjunct2, THEN conjunct2, THEN conjunct2, THEN conjunct2, THEN conjunct2,
          THEN conjunct2, THEN conjunct2, THEN conjunct2, THEN conjunct2, THEN conjunct2,
          THEN conjunct2, THEN conjunct2, THEN conjunct2, THEN conjunct2, THEN conjunct2,
          THEN conjunct2, THEN conjunct2, THEN conjunct2, THEN conjunct2, THEN conjunct2,
          THEN conjunct2, THEN conjunct2, THEN conjunct2, THEN conjunct2, THEN conjunct2,
          THEN conjunct2, THEN conjunct2, THEN conjunct2, THEN conjunct2, THEN conjunct2,
          THEN conjunct2, THEN conjunct2, THEN conjunct2, THEN conjunct2, THEN conjunct2,
          THEN conjunct2, THEN conjunct2, THEN conjunct2, THEN conjunct2, THEN conjunct2,
          THEN conjunct2, THEN conjunct2, THEN conjunct2, THEN conjunct2, THEN conjunct2,
          THEN conjunct2, THEN conjunct2, THEN conjunct1]
    obtain new where a: "snd (get_pull_request missing_pull_gh pull_params []) = [] @ new"
      and b: "\<forall>e. raised_last missing_pull_gh [] new = Some e \<longrightarrow>
        fst (get_pull_request missing_pull_gh pull_params [])
          = (if isinstance_GithubException e
             then Inr (Content (Plain (if length new \<le> 2 then ''Repository not found.''
                                       else ''Error: '' @ str e)))
             else Inl e)"
      by blast
    have "snd (get_pull_request missing_pull_gh pull_params [])
        = [Get_user (Some ''acme''), User_get_repo repo1 ''widgets'', Repo_get_pull repo1 7]"
      using g by (simp add: get_pull_request_def get_pull_request_steps_def get_repo_result
          run_defs error_text_def missing_pull_gh_def stub_gh_def pull_params_def)
    with a have "new
        = [Get_user (Some ''acme''), User_get_repo repo1 ''widgets'', Repo_get_pull repo1 7]"
      by simp
    with b l4 g show ?thesis by (simp add: not_found_error_def)
  qed
  have t: "fst (get_commit_steps offline_gh commit_params []) = Inl connection_reset"
    by (simp add: get_commit_steps_def run_defs offline_gh_def)
  have f6: "fst (get_commit offline_gh commit_params [])
       = Inr (Content (Plain ''Error: connection reset''))"
    using failures_rendered_or_foreign
      [of offline_gh commit_params "[]" "commits_params 1 30" "branches_params 1 30"
          "file_params None" repository_params fork_params no_faults push_params work_fs
          "repos_query 1 30" "code_query 1 30" "users_query 1 30" pull_params update_params
          "pulls_params 1 30" merge_params "files_params 1 30" pull_params
          issue_params issue_comment_params issue_query new_issue_params issues_params
          comments_params,
          THEN conjunct2, THEN conjunct2, THEN conjunct2, THEN conjunct2, THEN conjunct2,
          THEN conjunct2, THEN conjunct2, THEN conjunct2, THEN conjunct2, THEN conjunct2,
          THEN conjunct2, THEN conjunct2, THEN conjunct2, THEN conjunct2, THEN conjunct2,
          THEN conjunct2, THEN conjunct2, THEN conjunct2, THEN conjunct2, THEN conjunct2,
          THEN conjunct2, THEN conjunct2, THEN conjunct1] t
    by (simp add: connection_reset_def split: prod.splits sum.splits)
  from s1 s2 s3 p1 p2 p3 p4 p5 p6 n c o e2 e3 l1 l2 l3 l4 f1 f2 f3 f4 f5 f6 t
  show ?thesis by simp
qed

lemma start_end_page:
  "start_end (Some pg) (Some k) = Inr ((pg - 1) * k, (pg - 1) * k + k)"
  by (simp add: start_end_def)

lemma getitem_slice_page:
  assumes "1 \<le> pg" and "1 \<le> k"
    and "fault lst = None \<or> pg * k \<le> int (length (elements lst))"
  shows "getitem_slice gh lst ((pg - 1) * k) (Some ((pg - 1) * k + k))
         = Inr (take (nat k) (drop (nat ((pg - 1) * k)) (elements lst)))"
proof -
  have s: "0 \<le> (pg - 1) * k"
    using assms(1,2) by simp
  have e: "(pg - 1) * k + k = pg * k"
    by (simp add: algebra_simps)
  have c: "fault lst = None \<or> (pg - 1) * k + k \<le> int (length (elements lst))"
    using assms(3) e by simp
  from s assms(2) c show ?thesis
    by (auto simp: getitem_slice_def split: option.splits)
qed

lemma iterate_all: "fault lst = None \<Longrightarrow> iterate lst = Inr (elements lst)"
  by (simp add: iterate_def)

lemma list_commits_page:
  assumes "request_object gh log
             (Get_repo (ListCommitsParams.owner p @ ''/'' @ ListCommitsParams.repo p)) = Inr r"
    and "request_list gh
           (log @ [Get_repo (ListCommitsParams.owner p @ ''/'' @ ListCommitsParams.repo p)])
           (Repo_get_commits r (ListCommitsParams.sha p)) = Inr lst"
    and "ListCommitsParams.page p = Some pg" and "ListCommitsParams.per_page p = Some k"
    and "1 \<le> pg" and "1 \<le> k"
    and "fault lst = None \<or> pg * k \<le> int (length (elements lst))"
  shows "fst (list_commits gh p log)
         = Inr (Content (Json_dumps (JList (map raw_data
                  (take (nat k) (drop (nat ((pg - 1) * k)) (elements lst)))))))"
  using assms(1-4) getitem_slice_page [OF assms(5-7), of gh]
  by (simp add: list_commits_def list_commits_steps_def run_defs start_end_page)

lemma list_branches_page:
  assumes "request_object gh log
             (Get_repo (ListBranchesParams.owner p @ ''/'' @ ListBranchesParams.repo p)) = Inr r"
    and "request_list gh
           (log @ [Get_repo (ListBranchesParams.owner p @ ''/'' @ ListBranchesParams.repo p)])
           (Repo_get_branches r) = Inr lst"
    and "ListBranchesParams.page p = Some pg" and "ListBranchesParams.per_page p = Some k"
    and "1 \<le> pg" and "1 \<le> k"
    and "fault lst = None \<or> pg * k \<le> int (length (elements lst))"
  shows "fst (list_branches gh p log)
         = Inr (Content (Json_dumps (JList (map raw_data
                  (take (nat k) (drop (nat ((pg - 1) * k)) (elements lst)))))))"
  using assms(1-4) getitem_slice_page [OF assms(5-7), of gh]
  by (simp add: list_branches_def list_branches_steps_def run_defs start_end_page)

lemma search_repositories_page:
  assumes "request_list gh log (Search_repositories (SearchReposParams.q p)) = Inr lst"
    and "SearchReposParams.page p = Some pg" and "SearchReposParams.per_page p = Some k"
    and "1 \<le> pg" and "1 \<le> k"
    and "fault lst = None \<or> pg * k \<le> int (length (elements lst))"
  shows "fst (search_repositories gh p log)
         = Inr (Dict [(''total_count'', JInt (totalCount lst)),
                      (''repositories'', JList (map repository_entry
                         (take (nat k) (drop (nat ((pg - 1) * k)) (elements lst)))))])"
  using assms(1-3) getitem_slice_page [OF assms(4-6), of gh]
  by (simp add: search_repositories_def search_repositories_steps_def run_defs start_end_page)

lemma search_code_page:
  assumes "request_list gh log (Search_code (SearchCodeParams.q p)) = Inr lst"
    and "SearchCodeParams.page p = Some pg" and "SearchCodeParams.per_page p = Some k"
    and "1 \<le> pg" and "1 \<le> k"
    and "fault lst = None \<or> pg * k \<le> int (length (elements lst))"
  shows "fst (search_code gh p log)
         = Inr (Dict [(''total_count'', JInt (totalCount lst)),
                      (''code_results'', JList (map code_entry
                         (take (nat k) (drop (nat ((pg - 1) * k)) (elements lst)))))])"
  using assms(1-3) getitem_slice_page [OF assms(4-6), of gh]
  by (simp add: search_code_def search_code_steps_def run_defs start_end_page)

lemma search_users_page:
  assumes "request_list gh log (Search_users (SearchUsersParams.q p)) = Inr lst"
    and "SearchUsersParams.page p = Some pg" and "SearchUsersParams.per_page p = Some k"
    and "1 \<le> pg" and "1 \<le> k"
    and "fault lst = None \<or> pg * k \<le> int (length (elements lst))"
  shows "fst (search_users gh p log)
         = Inr (Dict [(''total_count'', JInt (totalCount lst)),
                      (''users'', JList (map user_entry
                         (take (nat k) (drop (nat ((pg - 1) * k)) (elements lst)))))])"
  using assms(1-3) getitem_slice_page [OF assms(4-6), of gh]
  by (simp add: search_users_def search_users_steps_def run_defs start_end_page)

lemma list_pull_requests_all:
  assumes "get_repo gh (ListPullRequestsInput.owner p) (ListPullRequestsInput.repo p) log
             = (Inr (Some r), log')"
    and "request_list gh log'
           (Repo_get_pulls r
              (case ListPullRequestsInput.state p of
                 Some v \<Rightarrow> state_value v | None \<Rightarrow> ''open'')
              (case ListPullRequestsInput.sort p of
                 Some v \<Rightarrow> sort_value v | None \<Rightarrow> ''created'')
              (case ListPullRequestsInput.direction p of
                 Some v \<Rightarrow> direction_value v | None \<Rightarrow> ''desc'')) = Inr lst"
    and "fault lst = None"
  shows "fst (list_pull_requests gh p log)
         = Inr (Content (Json_dumps (JList (map raw_data (elements lst)))))"
  using assms
  by (simp add: list_pull_requests_def list_pull_requests_steps_def and_then_def except_GithubException_def call_list_def
      lift_def returns_def iterate_all)

lemma get_pull_request_files_all:
  assumes "get_repo gh (GetPullRequestInput.owner p) (GetPullRequestInput.repo p) log
             = (Inr (Some r), log')"
    and "request_object gh log' (Repo_get_pull r (pull_number p)) = Inr pr"
    and "request_list gh (log' @ [Repo_get_pull r (pull_number p)]) (Pull_get_files pr) = Inr lst"
    and "fault lst = None"
  shows "fst (get_pull_request_files gh p log)
         = Inr (Content (Json_dumps (JList (map raw_data (elements lst)))))"
  using assms
  by (simp add: get_pull_request_files_def get_pull_request_files_steps_def and_then_def except_GithubException_def
      call_list_def call_object_def lift_def returns_def iterate_all)

text \<open>
  Claim C1, as stated, fails: \<open>list_pull_requests\<close> reads neither \<open>page\<close> nor
  \<open>per_page\<close>. With \<open>per_page = 1\<close> and three pull requests upstream it returns all
  three.
\<close>

theorem list_pull_requests_ignores_per_page:
  "ListPullRequestsInput.page (pulls_params 1 1) = Some 1
   \<and> ListPullRequestsInput.per_page (pulls_params 1 1) = Some 1
   \<and> list_pull_requests stub_gh (pulls_params 1 1) []
     = (Inr (Content (Json_dumps (JList [JInt 1, JInt 2, JInt 3]))),
        [Get_user (Some ''acme''), User_get_repo repo1 ''widgets'',
         Repo_get_pulls repo1 ''open'' ''created'' ''desc''])"
  by (simp add: list_pull_requests_def list_pull_requests_steps_def get_repo_result run_defs iterate_def stub_gh_def
      pulls_params_def three_items_def item_def)

text \<open>
  Claim C1, amended. For \<open>list_commits\<close>, \<open>list_branches\<close> and the three search
  tools, with \<open>page \<ge> 1\<close> and \<open>per_page \<ge> 1\<close> and a platform that delivers the items
  of the window, the payload renders exactly the upstream items at the positions from
  \<open>(page - 1) * per_page\<close> up to, and without, \<open>page * per_page\<close>, in upstream order
  (so at most \<open>per_page\<close> of them). \<open>list_pull_requests\<close> and
  \<open>get_pull_request_files\<close> render every upstream item, in upstream order, whatever
  \<open>page\<close> and \<open>per_page\<close> are.
\<close>

theorem list_tools_page_window:
  "(request_object gh log
      (Get_repo (ListCommitsParams.owner pc @ ''/'' @ ListCommitsParams.repo pc)) = Inr r \<longrightarrow>
    request_list gh
      (log @ [Get_repo (ListCommitsParams.owner pc @ ''/'' @ ListCommitsParams.repo pc)])
      (Repo_get_commits r (ListCommitsParams.sha pc)) = Inr lst \<longrightarrow>
    ListCommitsParams.page pc = Some pg \<longrightarrow> ListCommitsParams.per_page pc = Some k \<longrightarrow>
    1 \<le> pg \<longrightarrow> 1 \<le> k \<longrightarrow>
    fault lst = None \<or> pg * k \<le> int (length (elements lst)) \<longrightarrow>
    fst (list_commits gh pc log)
      = Inr (Content (Json_dumps (JList (map raw_data
               (take (nat k) (drop (nat ((pg - 1) * k)) (elements lst))))))))
   \<and> (request_object gh log
        (Get_repo (ListBranchesParams.owner pb @ ''/'' @ ListBranchesParams.repo pb)) = Inr r \<longrightarrow>
      request_list gh
        (log @ [Get_repo (ListBranchesParams.owner pb @ ''/'' @ ListBranchesParams.repo pb)])
        (Repo_get_branches r) = Inr lst \<longrightarrow>
      ListBranchesParams.page pb = Some pg \<longrightarrow> ListBranchesParams.per_page pb = Some k \<longrightarrow>
      1 \<le> pg \<longrightarrow> 1 \<le> k \<longrightarrow>
      fault lst = None \<or> pg * k \<le> int (length (elements lst)) \<longrightarrow>
      fst (list_branches gh pb log)
        = Inr (Content (Json_dumps (JList (map raw_data
                 (take (nat k) (drop (nat ((pg - 1) * k)) (elements lst))))))))
   \<and> (request_list gh log (Search_repositories (SearchReposParams.q pr)) = Inr lst \<longrightarrow>
      SearchReposParams.page pr = Some pg \<longrightarrow> SearchReposParams.per_page pr = Some k \<longrightarrow>
      1 \<le> pg \<longrightarrow> 1 \<le> k \<longrightarrow>
      fault lst = None \<or> pg * k \<le> int (length (elements lst)) \<longrightarrow>
      fst (search_repositories gh pr log)
        = Inr (Dict [(''total_count'', JInt (totalCount lst)),
                     (''repositories'', JList (map repository_entry
                        (take (nat k) (drop (nat ((pg - 1) * k)) (elements lst)))))]))
   \<and> (request_list gh log (Search_code (SearchCodeParams.q pk)) = Inr lst \<longrightarrow>
      SearchCodeParams.page pk = Some pg \<longrightarrow> SearchCodeParams.per_page pk = Some k \<longrightarrow>
      1 \<le> pg \<longrightarrow> 1 \<le> k \<longrightarrow>
      fault lst = None \<or> pg * k \<le> int (length (elements lst)) \<longrightarrow>
      fst (search_code gh pk log)
        = Inr (Dict [(''total_count'', JInt (totalCount lst)),
                     (''code_results'', JList (map code_entry
                        (take (nat k) (drop (nat ((pg - 1) * k)) (elements lst)))))]))
   \<and> (request_list gh log (Search_users (SearchUsersParams.q pu)) = Inr lst \<longrightarrow>
      SearchUsersParams.page pu = Some pg \<longrightarrow> SearchUsersParams.per_page pu = Some k \<longrightarrow>
      1 \<le> pg \<longrightarrow> 1 \<le> k \<longrightarrow>
      fault lst = None \<or> pg * k \<le> int (length (elements lst)) \<longrightarrow>
      fst (search_users gh pu log)
        = Inr (Dict [(''total_count'', JInt (totalCount lst)),
                     (''users'', JList (map user_entry
                        (take (nat k) (drop (nat ((pg - 1) * k)) (elements lst)))))]))
   \<and> (get_repo gh (ListPullRequestsInput.owner pl) (ListPullRequestsInput.repo pl) log
        = (Inr (Some r), log') \<longrightarrow>
      request_list gh log'
        (Repo_get_pulls r
           (case ListPullRequestsInput.state pl of
              Some v \<Rightarrow> state_value v | None \<Rightarrow> ''open'')
           (case ListPullRequestsInput.sort pl of
              Some v \<Rightarrow> sort_value v | None \<Rightarrow> ''created'')
           (case ListPullRequestsInput.direction pl of
              Some v \<Rightarrow> direction_value v | None \<Rightarrow> ''desc'')) = Inr lst \<longrightarrow>
      fault lst = None \<longrightarrow>
      fst (list_pull_requests gh pl log)
        = Inr (Content (Json_dumps (JList (map raw_data (elements lst))))))
   \<and> (get_repo gh (GetPullRequestInput.owner pf) (GetPullRequestInput.repo pf) log
        = (Inr (Some r), log') \<longrightarrow>
      request_object gh log' (Repo_get_pull r (pull_number pf)) = Inr pull \<longrightarrow>
      request_list gh (log' @ [Repo_get_pull r (pull_number pf)]) (Pull_get_files pull)
        = Inr lst \<longrightarrow>
      fault lst = None \<longrightarrow>
      fst (get_pull_request_files gh pf log)
        = Inr (Content (Json_dumps (JList (map raw_data (elements lst))))))"
  by (intro conjI impI)
     (erule (6) list_commits_page, erule (6) list_branches_page,
      erule (5) search_repositories_page, erule (5) search_code_page,
      erule (5) search_users_page, erule (2) list_pull_requests_all,
      erule (3) get_pull_request_files_all)

theorem list_tools_page_window_witness:
  "fst (list_commits stub_gh (commits_params 2 1) [])
     = Inr (Content (Json_dumps (JList [JInt 2])))
   \<and> fst (list_branches stub_gh (branches_params 2 1) [])
     = Inr (Content (Json_dumps (JList [JInt 2])))
   \<and> fst (search_repositories stub_gh (repos_query 2 1) [])
     = Inr (Dict [(''total_count'', JInt 3),
                  (''repositories'', JList [repository_entry (item 2)])])
   \<and> fst (search_code stub_gh (code_query 2 1) [])
     = Inr (Dict [(''total_count'', JInt 3), (''code_results'', JList [code_entry (item 2)])])
   \<and> fst (search_users stub_gh (users_query 2 1) [])
     = Inr (Dict [(''total_count'', JInt 3), (''users'', JList [user_entry (item 2)])])
   \<and> fst (list_pull_requests stub_gh (pulls_params 2 1) [])
     = Inr (Content (Json_dumps (JList [JInt 1, JInt 2, JInt 3])))
   \<and> fst (get_pull_request_files stub_gh (files_params 2 1) [])
     = Inr (Content (Json_dumps (JList [JInt 1, JInt 2, JInt 3])))"
proof -
  note w = list_tools_page_window
    [where gh = stub_gh and log = "[]" and r = repo1 and lst = three_items
       and pg = 2 and k = 1 and pull = repo1
       and log' = "[Get_user (Some ''acme''), User_get_repo repo1 ''widgets'']"
       and pc = "commits_params 2 1" and pb = "branches_params 2 1"
       and pr = "repos_query 2 1" and pk = "code_query 2 1" and pu = "users_query 2 1"
       and pl = "pulls_params 2 1" and pf = "files_params 2 1"]
  have g: "\<And>log c. request_object stub_gh log c = Inr repo1"
    "\<And>log c. request_list stub_gh log c = Inr three_items"
    by (simp_all add: stub_gh_def)
  have r: "get_repo stub_gh ''acme'' ''widgets'' []
      = (Inr (Some repo1), [Get_user (Some ''acme''), User_get_repo repo1 ''widgets''])"
    by (simp add: get_repo_result g)
  have t: "fault three_items = None" "elements three_items = [item 1, item 2, item 3]"
    "totalCount three_items = 3"
    by (simp_all add: three_items_def)
  have i: "raw_data (item 1) = JInt 1" "raw_data (item 2) = JInt 2" "raw_data (item 3) = JInt 3"
    by (simp_all add: item_def)
  have c1: "fst (list_commits stub_gh (commits_params 2 1) [])
     = Inr (Content (Json_dumps (JList [JInt 2])))"
    using w [THEN conjunct1] by (simp add: g t i commits_params_def)
  have c2: "fst (list_branches stub_gh (branches_params 2 1) [])
     = Inr (Content (Json_dumps (JList [JInt 2])))"
    using w [THEN conjunct2, THEN conjunct1] by (simp add: g t i branches_params_def)
  have c3: "fst (search_repositories stub_gh (repos_query 2 1) [])
     = Inr (Dict [(''total_count'', JInt 3),
                  (''repositories'', JList [repository_entry (item 2)])])"
    using w [THEN conjunct2, THEN conjunct2, THEN conjunct1]
    by (simp add: g t repos_query_def)
  have c4: "fst (search_code stub_gh (code_query 2 1) [])
     = Inr (Dict [(''total_count'', JInt 3), (''code_results'', JList [code_entry (item 2)])])"
    using w [THEN conjunct2, THEN conjunct2, THEN conjunct2, THEN conjunct1]
    by (simp add: g t code_query_def)
  have c5: "fst (search_users stub_gh (users_query 2 1) [])
     = Inr (Dict [(''total_count'', JInt 3), (''users'', JList [user_entry (item 2)])])"
    using w [THEN conjunct2, THEN conjunct2, THEN conjunct2, THEN conjunct2, THEN conjunct1]
    by (simp add: g t users_query_def)
  have c6: "fst (list_pull_requests stub_gh (pulls_params 2 1) [])
     = Inr (Content (Json_dumps (JList [JInt 1, JInt 2, JInt 3])))"
    using w [THEN conjunct2, THEN conjunct2, THEN conjunct2, THEN conjunct2, THEN conjunct2,
        THEN conjunct1] r
    by (simp add: g t i pulls_params_def)
  have c7: "fst (get_pull_request_files stub_gh (files_params 2 1) [])
     = Inr (Content (Json_dumps (JList [JInt 1, JInt 2, JInt 3])))"
    using w [THEN conjunct2, THEN conjunct2, THEN conjunct2, THEN conjunct2, THEN conjunct2,
        THEN conjunct2] r
    by (simp add: g t i files_params_def)
  from c1 c2 c3 c4 c5 c6 c7 show ?thesis by simp
qed

end
